(* ===== verification/Prelude.thy ===== *)
theory Prelude
  imports Complex_Main
begin

text \<open>
  Shared vocabulary of the development. Python floats are modelled as exact \<open>real\<close>s
  (IEEE rounding is not modelled); Python ints as \<open>int\<close>. This theory holds the
  Python built-ins the recognizer uses on floats (\<open>int()\<close>, \<open>x or 0\<close>), the exponential
  smoothing step that the scroll and mouse code both write out inline, the collection
  \<open>gesture_consts\<close> of the recognizer's numeric constants, and the generic lemmas on them.
\<close>

named_theorems gesture_consts "numeric constants of the gesture recognizer"

type_synonym timestamp = real

section \<open>Python built-ins on floats\<close>

text \<open>\<open>int(v)\<close> on a Python float truncates towards zero (it is not \<open>floor\<close>).\<close>

definition py_int :: "real \<Rightarrow> int" where
  "py_int v = (if 0 \<le> v then \<lfloor>v\<rfloor> else \<lceil>v\<rceil>)"

text \<open>\<open>v or 0\<close> for \<open>v :: Optional[float]\<close>: \<open>None\<close> and \<open>0.0\<close> are falsy.\<close>

definition py_or_zero :: "real option \<Rightarrow> real" where
  "py_or_zero v = (case v of None \<Rightarrow> 0 | Some a \<Rightarrow> if a \<noteq> 0 then a else 0)"

text \<open>One step of exponential smoothing, \<open>old * (1 - f) + new * f\<close>, as written in
  \<^verbatim>\<open>src/gesture.py\<close> for the scroll reference angle and the mouse position.\<close>

definition blend :: "real \<Rightarrow> real \<Rightarrow> real \<Rightarrow> real" where
  "blend f old new = old * (1 - f) + new * f"

text \<open>\<open>smoothing_factor\<close> of \<^verbatim>\<open>gesture_recognition\<close>, shared by the scroll reference
  angle and the mouse smoothing.\<close>

definition smoothing_factor :: real where
  [gesture_consts]: "smoothing_factor = 0.2"

section \<open>Lemmas on the built-ins\<close>

lemma py_int_nonneg: "0 \<le> v \<Longrightarrow> py_int v = \<lfloor>v\<rfloor>"
  by (simp add: py_int_def)

lemma py_int_neg: "v < 0 \<Longrightarrow> py_int v = \<lceil>v\<rceil>"
  by (simp add: py_int_def)

lemma py_int_bounds:
  "(0 \<le> v \<longrightarrow> of_int (py_int v) \<le> v \<and> v < of_int (py_int v) + 1) \<and>
   (v < 0 \<longrightarrow> v \<le> of_int (py_int v) \<and> of_int (py_int v) < v + 1)"
proof (cases "0 \<le> v")
  case True
  then show ?thesis using floor_correct [of v] by (simp add: py_int_def)
next
  case False
  then show ?thesis using ceiling_correct [of v] by (simp add: py_int_def)
qed

lemma py_int_residual: "\<bar>v - of_int (py_int v)\<bar> < 1"
  using py_int_bounds [of v] by (cases "0 \<le> v") (simp_all add: abs_less_iff)

lemma py_int_residual_same_sign:
  "(0 \<le> v \<longrightarrow> 0 \<le> v - of_int (py_int v)) \<and> (v \<le> 0 \<longrightarrow> v - of_int (py_int v) \<le> 0)"
  using py_int_bounds [of v] by (cases "v < 0") auto

lemma py_int_abs_le: "\<bar>of_int (py_int v)\<bar> \<le> \<bar>v\<bar>"
  using py_int_bounds [of v] by (cases "v < 0") auto

lemma py_int_nonzero: "1 \<le> \<bar>v\<bar> \<Longrightarrow> py_int v \<noteq> 0"
  using py_int_bounds [of v] by (cases "v < 0") auto

lemma py_or_zero_eq: "py_or_zero v = (case v of None \<Rightarrow> 0 | Some a \<Rightarrow> a)"
  by (simp add: py_or_zero_def split: option.split)

lemma blend_between:
  assumes "0 \<le> f" and "f \<le> 1"
  shows "min old new \<le> blend f old new \<and> blend f old new \<le> max old new"
proof -
  define d where "d = new - old"
  have e: "blend f old new = old + f * d"
    by (simp add: blend_def d_def algebra_simps)
  show ?thesis
  proof (cases "0 \<le> d")
    case True
    with assms have "0 \<le> f * d" and "f * d \<le> d"
      by (simp_all add: mult_left_le_one_le)
    with e d_def have "old \<le> blend f old new" and "blend f old new \<le> new"
      by linarith+
    with True d_def show ?thesis by (simp add: min_def max_def)
  next
    case False
    with assms have "f * d \<le> 0" and "d \<le> f * d"
      by (simp_all add: mult_nonneg_nonpos mult_left_le_one_le mult_le_cancel_right1)
    with e d_def have "new \<le> blend f old new" and "blend f old new \<le> old"
      by linarith+
    with False d_def show ?thesis by (simp add: min_def max_def)
  qed
qed

lemma blend_smoothing_between:
  "min old new \<le> blend smoothing_factor old new \<and> blend smoothing_factor old new \<le> max old new"
  by (rule blend_between) (simp_all add: smoothing_factor_def)

lemma blend_same [simp]: "blend f a a = a"
  by (simp add: blend_def algebra_simps)

end
