(* ===== verification/Geometry.thy ===== *)
theory Geometry
  imports Prelude
begin

text \<open>
  The landmark frame produced by the hand detector and the geometry the recognizer computes
  on it. A hand is a total map from the 21 MediaPipe landmark names to normalised points
  (\<open>x, y \<in> [0,1]\<close>, \<open>y\<close> growing downwards); only \<open>x\<close> and \<open>y\<close> are read by
  \<^verbatim>\<open>src/gesture.py\<close>. \<open>calculate_angle\<close> is the closure of \<^verbatim>\<open>gesture_recognition\<close>
  (lines 48--64) with its captured variable \<open>last_valid_angle\<close> passed explicitly: it takes
  the previous value and returns the angle together with the new value.
\<close>

section \<open>Landmark frames\<close>

datatype landmark =
    WRIST
  | THUMB_CMC | THUMB_MCP | THUMB_IP | THUMB_TIP
  | INDEX_FINGER_MCP | INDEX_FINGER_PIP | INDEX_FINGER_DIP | INDEX_FINGER_TIP
  | MIDDLE_FINGER_MCP | MIDDLE_FINGER_PIP | MIDDLE_FINGER_DIP | MIDDLE_FINGER_TIP
  | RING_FINGER_MCP | RING_FINGER_PIP | RING_FINGER_DIP | RING_FINGER_TIP
  | PINKY_MCP | PINKY_PIP | PINKY_DIP | PINKY_TIP

record point =
  lm_x :: real
  lm_y :: real

type_synonym hand = "landmark \<Rightarrow> point"

type_synonym vec2 = "real \<times> real"

section \<open>Vector helpers (the numpy calls of \<open>calculate_angle\<close>)\<close>

definition dot2 :: "vec2 \<Rightarrow> vec2 \<Rightarrow> real" where
  "dot2 v w = fst v * fst w + snd v * snd w"

definition norm2 :: "vec2 \<Rightarrow> real" where
  "norm2 v = sqrt (fst v ^ 2 + snd v ^ 2)"

text \<open>\<open>math.degrees\<close>.\<close>

definition degrees :: "real \<Rightarrow> real" where
  "degrees r = r * 180 / pi"

section \<open>The angle between two finger segments\<close>

text \<open>
  \<^verbatim>\<open>calculate_angle(vec1, vec2)\<close>: below a product of norms of \<open>0.001\<close> it returns
  \<open>last_valid_angle or 0\<close> and keeps \<open>last_valid_angle\<close>; otherwise it clamps the cosine
  to \<open>[-1, 1]\<close>, converts \<open>acos\<close> to degrees and records the result. The
  \<open>except Exception\<close> branch cannot be taken on real arithmetic and is not modelled.
\<close>

definition calculate_angle :: "real option \<Rightarrow> vec2 \<Rightarrow> vec2 \<Rightarrow> real \<times> real option" where
  "calculate_angle last_valid_angle vec1 vec2 =
     (let dot_product = dot2 vec1 vec2;
          norm_product = norm2 vec1 * norm2 vec2
      in if norm_product < 0.001 then (py_or_zero last_valid_angle, last_valid_angle)
         else
           let cos_angle = max (-1) (min 1 (dot_product / norm_product));
               angle = degrees (arccos cos_angle)
           in (angle, Some angle))"

text \<open>The values \<open>last_valid_angle\<close> can hold: none yet, or an angle in degrees.\<close>

definition angle_ok :: "real option \<Rightarrow> bool" where
  "angle_ok a = (case a of None \<Rightarrow> True | Some v \<Rightarrow> 0 \<le> v \<and> v \<le> 180)"

text \<open>\<open>math.sqrt((p.x - q.x)**2 + (p.y - q.y)**2)\<close> in \<^verbatim>\<open>detect_open_palm\<close>.\<close>

definition planar_distance :: "point \<Rightarrow> point \<Rightarrow> real" where
  "planar_distance p q = sqrt ((lm_x p - lm_x q) ^ 2 + (lm_y p - lm_y q) ^ 2)"

text \<open>The segment from one landmark to another, as \<open>np.array([b.x - a.x, b.y - a.y])\<close>.\<close>

definition segment :: "point \<Rightarrow> point \<Rightarrow> vec2" where
  "segment a b = (lm_x b - lm_x a, lm_y b - lm_y a)"

section \<open>Lemmas\<close>

lemma degrees_arccos_bounds:
  "0 \<le> degrees (arccos (max (-1) (min 1 c))) \<and> degrees (arccos (max (-1) (min 1 c))) \<le> 180"
proof -
  let ?c = "max (-1) (min 1 c)"
  have "-1 \<le> ?c" and "?c \<le> 1" by simp_all
  then have "0 \<le> arccos ?c" and "arccos ?c \<le> pi"
    by (simp_all add: arccos_lbound arccos_ubound)
  then show ?thesis by (simp add: degrees_def divide_le_eq)
qed

lemma angle_ok_Some [simp]: "angle_ok (Some v) = (0 \<le> v \<and> v \<le> 180)"
  by (simp add: angle_ok_def)

lemma angle_ok_None [simp]: "angle_ok None"
  by (simp add: angle_ok_def)

lemma py_or_zero_angle_ok: "angle_ok a \<Longrightarrow> 0 \<le> py_or_zero a \<and> py_or_zero a \<le> 180"
  by (auto simp: angle_ok_def py_or_zero_def split: option.splits)

lemma dot2_self: "dot2 v v = norm2 v * norm2 v"
  by (simp add: dot2_def norm2_def power2_eq_square [symmetric])

lemma norm2_nonneg [simp]: "0 \<le> norm2 v"
  by (simp add: norm2_def)

lemma calculate_angle_nondegenerate:
  "\<not> norm2 vec1 * norm2 vec2 < 0.001 \<Longrightarrow>
   calculate_angle a vec1 vec2 =
     (degrees (arccos (max (-1) (min 1 (dot2 vec1 vec2 / (norm2 vec1 * norm2 vec2))))),
      Some (degrees (arccos (max (-1) (min 1 (dot2 vec1 vec2 / (norm2 vec1 * norm2 vec2)))))))"
  by (simp add: calculate_angle_def Let_def)

lemma calculate_angle_same_segment:
  assumes "\<not> norm2 v * norm2 v < 0.001"
  shows "calculate_angle a v v = (0, Some 0)"
proof -
  from assms have "norm2 v * norm2 v \<noteq> 0" by auto
  then have "dot2 v v / (norm2 v * norm2 v) = 1" by (simp add: dot2_self)
  with assms show ?thesis by (simp add: calculate_angle_nondegenerate degrees_def)
qed

lemma less_sqrt_iff: "0 \<le> c \<Longrightarrow> (c < sqrt a) = (c ^ 2 < a)"
  by (metis abs_of_nonneg real_sqrt_abs real_sqrt_less_iff)

lemma planar_distance_gt_iff:
  "0 \<le> c \<Longrightarrow> (c < planar_distance p q) = (c ^ 2 < (lm_x p - lm_x q) ^ 2 + (lm_y p - lm_y q) ^ 2)"
  by (simp add: planar_distance_def less_sqrt_iff)

lemma calculate_angle_ok:
  "angle_ok a \<Longrightarrow> 0 \<le> fst (calculate_angle a v w) \<and> fst (calculate_angle a v w) \<le> 180
     \<and> angle_ok (snd (calculate_angle a v w))"
  by (cases "norm2 v * norm2 w < 0.001")
     (simp_all add: calculate_angle_def Let_def py_or_zero_angle_ok degrees_arccos_bounds)

section \<open>Properties of the angle computation\<close>

text \<open>On degenerate input (the product of the two segment lengths below \<open>0.001\<close>)
  \<open>calculate_angle\<close> does not fail: it returns the last valid angle, or \<open>0\<close> if there is
  none yet, and leaves the last valid angle unchanged (the sticky fallback).\<close>

theorem calculate_angle_sticky:
  assumes "norm2 vec1 * norm2 vec2 < 0.001"
  shows "calculate_angle a vec1 vec2 = (py_or_zero a, a)"
  using assms by (simp add: calculate_angle_def Let_def)

end
