(* ===== verification/Detectors.thy ===== *)
theory Detectors
  imports Geometry
begin

text \<open>
  The two detectors of \<^verbatim>\<open>src/gesture.py\<close> that read one frame only:
  \<^verbatim>\<open>detect_thumbs_gesture\<close> (lines 66--102) and \<^verbatim>\<open>detect_open_palm\<close> (lines 130--175).
  Each \<open>for\<close> loop of the source is a recursive function over the source's list of landmark
  pairs (triples), with the \<open>break\<close> of the thumbs loop as an early \<open>False\<close>. Gesture labels
  are the source's strings.
\<close>

section \<open>Thumbs up / thumbs down\<close>

definition finger_check_points :: "(landmark \<times> landmark) list" where
  "finger_check_points =
     [(INDEX_FINGER_TIP, INDEX_FINGER_PIP), (MIDDLE_FINGER_TIP, MIDDLE_FINGER_PIP),
      (RING_FINGER_TIP, RING_FINGER_PIP), (PINKY_TIP, PINKY_PIP)]"

text \<open>The loop \<open>for tip, pip in finger_check_points\<close>: a fingertip more than \<open>0.02\<close> above
  its PIP joint clears \<open>fingers_curled\<close> and breaks.\<close>

fun fingers_curled :: "hand \<Rightarrow> (landmark \<times> landmark) list \<Rightarrow> bool" where
  "fingers_curled h [] = True"
| "fingers_curled h ((tip, pip) # ps) =
     (if lm_y (h tip) < lm_y (h pip) - 0.02 then False else fingers_curled h ps)"

definition detect_thumbs_gesture :: "hand \<Rightarrow> string option" where
  "detect_thumbs_gesture h =
     (let thumb_tip = h THUMB_TIP; thumb_ip = h THUMB_IP; thumb_mcp = h THUMB_MCP;
          thumb_extended_vertically = (lm_y thumb_tip < lm_y thumb_ip \<and> lm_y thumb_tip < lm_y thumb_mcp);
          curled = fingers_curled h finger_check_points;
          thumb_extended_horizontally = (\<bar>lm_x thumb_tip - lm_x thumb_mcp\<bar> > 0.05)
      in if thumb_extended_vertically \<and> curled \<and> thumb_extended_horizontally then
           (let wrist_y = lm_y (h WRIST)
            in if lm_y thumb_tip < wrist_y - 0.15 then Some ''thumbs_up''
               else if lm_y thumb_tip > wrist_y + 0.15 then Some ''thumbs_down''
               else None)
         else None)"

section \<open>Open palm\<close>

definition finger_tips :: "landmark list" where
  "finger_tips = [THUMB_TIP, INDEX_FINGER_TIP, MIDDLE_FINGER_TIP, RING_FINGER_TIP, PINKY_TIP]"

definition finger_pips :: "landmark list" where
  "finger_pips = [THUMB_IP, INDEX_FINGER_PIP, MIDDLE_FINGER_PIP, RING_FINGER_PIP, PINKY_PIP]"

definition finger_mcps :: "landmark list" where
  "finger_mcps = [THUMB_MCP, INDEX_FINGER_MCP, MIDDLE_FINGER_MCP, RING_FINGER_MCP, PINKY_MCP]"

text \<open>The loop \<open>for i, (tip, pip, mcp) in enumerate(zip(...))\<close> with its counter
  \<open>fingers_open\<close>: index 0 (the thumb) counts when the tip is more than \<open>0.05\<close> to the side
  of the MCP joint, the others when the tip is more than \<open>0.01\<close> above the PIP joint.\<close>

fun count_open :: "hand \<Rightarrow> nat \<Rightarrow> nat \<Rightarrow> (landmark \<times> landmark \<times> landmark) list \<Rightarrow> nat" where
  "count_open h i fingers_open [] = fingers_open"
| "count_open h i fingers_open ((tip, pip, mcp) # fs) =
     count_open h (Suc i)
       (if i = 0 then (if \<bar>lm_x (h tip) - lm_x (h mcp)\<bar> > 0.05 then fingers_open + 1 else fingers_open)
        else (if lm_y (h tip) < lm_y (h pip) - 0.01 then fingers_open + 1 else fingers_open))
       fs"

definition detect_open_palm :: "hand \<Rightarrow> bool" where
  "detect_open_palm h =
     (let fingers_open = count_open h 0 0 (zip finger_tips (zip finger_pips finger_mcps));
          distance = planar_distance (h THUMB_TIP) (h PINKY_TIP);
          is_palm_spread = (distance > 0.15)
      in fingers_open \<ge> 4 \<and> is_palm_spread)"

section \<open>Lemmas\<close>

lemma fingers_curled_check_points:
  "fingers_curled h finger_check_points =
     (\<not> lm_y (h INDEX_FINGER_TIP) < lm_y (h INDEX_FINGER_PIP) - 0.02 \<and>
      \<not> lm_y (h MIDDLE_FINGER_TIP) < lm_y (h MIDDLE_FINGER_PIP) - 0.02 \<and>
      \<not> lm_y (h RING_FINGER_TIP) < lm_y (h RING_FINGER_PIP) - 0.02 \<and>
      \<not> lm_y (h PINKY_TIP) < lm_y (h PINKY_PIP) - 0.02)"
  by (simp add: finger_check_points_def)

text \<open>The counter loop adds one per finger that passes its test.\<close>

lemma count_open_acc: "count_open h i n fs = n + count_open h i 0 fs"
proof (induction fs arbitrary: i n)
  case Nil
  show ?case by simp
next
  case (Cons f fs)
  obtain tip pip mcp where f: "f = (tip, pip, mcp)" by (cases f) auto
  have "count_open h (Suc i) (n + 1) fs = n + 1 + count_open h (Suc i) 0 fs"
    and "count_open h (Suc i) n fs = n + count_open h (Suc i) 0 fs"
    and "count_open h (Suc i) 1 fs = 1 + count_open h (Suc i) 0 fs"
    using Cons.IH by blast+
  with f show ?case by (cases "i = 0") simp_all
qed

lemma count_open_le: "count_open h i n fs \<le> n + length fs"
  by (induction h i n fs rule: count_open.induct) (fastforce split: if_splits)+

definition thumb_open :: "hand \<Rightarrow> bool" where
  "thumb_open h = (\<bar>lm_x (h THUMB_TIP) - lm_x (h THUMB_MCP)\<bar> > 0.05)"

definition finger_open :: "hand \<Rightarrow> landmark \<Rightarrow> landmark \<Rightarrow> bool" where
  "finger_open h tip pip = (lm_y (h tip) < lm_y (h pip) - 0.01)"


lemma detect_open_palm_eq:
  "detect_open_palm h =
     (4 \<le> count_open h 0 0 (zip finger_tips (zip finger_pips finger_mcps)) \<and>
      0.0225 < (lm_x (h THUMB_TIP) - lm_x (h PINKY_TIP)) * (lm_x (h THUMB_TIP) - lm_x (h PINKY_TIP))
               + (lm_y (h THUMB_TIP) - lm_y (h PINKY_TIP)) * (lm_y (h THUMB_TIP) - lm_y (h PINKY_TIP)))"
proof -
  have "(0.15 < planar_distance (h THUMB_TIP) (h PINKY_TIP)) =
        ((0.15::real) ^ 2 < (lm_x (h THUMB_TIP) - lm_x (h PINKY_TIP)) ^ 2 + (lm_y (h THUMB_TIP) - lm_y (h PINKY_TIP)) ^ 2)"
    by (rule planar_distance_gt_iff) simp
  then show ?thesis by (simp add: detect_open_palm_def Let_def power2_eq_square)
qed

section \<open>Properties of the detectors\<close>

text \<open>C11: \<open>detect_thumbs_gesture\<close> reports a thumbs-up exactly when the thumb tip is above
  its IP and MCP joints, none of the four other fingertips is more than \<open>0.02\<close> above its
  PIP joint, the thumb tip is more than \<open>0.05\<close> to the side of its MCP joint, and the
  thumb tip is more than \<open>0.15\<close> above the wrist.\<close>

theorem detect_thumbs_up_iff:
  "(detect_thumbs_gesture h = Some ''thumbs_up'') =
     (lm_y (h THUMB_TIP) < lm_y (h THUMB_IP) \<and> lm_y (h THUMB_TIP) < lm_y (h THUMB_MCP) \<and>
      \<not> lm_y (h INDEX_FINGER_TIP) < lm_y (h INDEX_FINGER_PIP) - 0.02 \<and>
      \<not> lm_y (h MIDDLE_FINGER_TIP) < lm_y (h MIDDLE_FINGER_PIP) - 0.02 \<and>
      \<not> lm_y (h RING_FINGER_TIP) < lm_y (h RING_FINGER_PIP) - 0.02 \<and>
      \<not> lm_y (h PINKY_TIP) < lm_y (h PINKY_PIP) - 0.02 \<and>
      \<bar>lm_x (h THUMB_TIP) - lm_x (h THUMB_MCP)\<bar> > 0.05 \<and>
      lm_y (h THUMB_TIP) < lm_y (h WRIST) - 0.15)"
  by (auto simp: detect_thumbs_gesture_def Let_def fingers_curled_check_points)

text \<open>C12: a thumbs-up hand mirrored vertically (\<open>y \<mapsto> 1 - y\<close>) is not reported as a
  thumbs-down: the detector requires the thumb tip above its own joints for both labels,
  so the mirrored hand yields no gesture at all.\<close>

theorem thumbs_up_mirror_not_down:
  assumes "detect_thumbs_gesture h = Some ''thumbs_up''"
  shows "detect_thumbs_gesture (\<lambda>l. (h l)\<lparr>lm_y := 1 - lm_y (h l)\<rparr>) = None"
  using assms by (simp add: detect_thumbs_gesture_def Let_def split: if_splits)

text \<open>Any one of the four non-thumb fingertips more than \<open>0.02\<close> above its PIP joint
  rules a thumbs gesture out.\<close>

theorem straight_finger_no_thumbs:
  assumes "(tip, pip) \<in> set finger_check_points"
    and "lm_y (h tip) < lm_y (h pip) - 0.02"
  shows "detect_thumbs_gesture h = None"
proof -
  from assms have "\<not> fingers_curled h finger_check_points"
    by (induction h finger_check_points rule: fingers_curled.induct) (auto simp: finger_check_points_def)
  then show ?thesis by (simp add: detect_thumbs_gesture_def Let_def)
qed

text \<open>The finger loop of \<open>detect_thumbs_gesture\<close>, with its early \<open>break\<close>, holds
  exactly when no fingertip of its list is more than \<open>0.02\<close> above its PIP joint.\<close>

theorem fingers_curled_iff:
  "fingers_curled h ps = (\<forall>(tip, pip) \<in> set ps. \<not> lm_y (h tip) < lm_y (h pip) - 0.02)"
  by (induction h ps rule: fingers_curled.induct) auto

text \<open>The counting loop of \<open>detect_open_palm\<close> counts one for the thumb when it is
  spread sideways and one for each other finger whose tip is above its PIP joint.\<close>

theorem count_open_fingers:
  "count_open h 0 0 (zip finger_tips (zip finger_pips finger_mcps)) =
     of_bool (thumb_open h) + of_bool (finger_open h INDEX_FINGER_TIP INDEX_FINGER_PIP)
     + of_bool (finger_open h MIDDLE_FINGER_TIP MIDDLE_FINGER_PIP)
     + of_bool (finger_open h RING_FINGER_TIP RING_FINGER_PIP)
     + of_bool (finger_open h PINKY_TIP PINKY_PIP)"
  by (subst count_open_acc)
     (simp add: finger_tips_def finger_pips_def finger_mcps_def thumb_open_def finger_open_def
       count_open_acc [of _ _ 1])


end

