(* ===== verification/Swipe.thy ===== *)
theory Swipe
  imports Detectors
begin

text \<open>
  \<^verbatim>\<open>detect_swipe\<close> (\<^verbatim>\<open>src/gesture.py\<close> lines 105--128), with the two closure variables
  it writes (\<open>nonlocal last_hand_x, last_swipe_time\<close>) as a record passed in and returned.
  Its own clock read (\<open>current_time = time.time()\<close>, line 108) is the parameter
  \<open>current_time\<close>; its unused \<open>frame_width\<close> argument is dropped.
\<close>

record swipe_state =
  last_hand_x :: "real option"
  last_swipe_time :: timestamp

definition swipe_threshold :: real where
  [gesture_consts]: "swipe_threshold = 0.015"

definition swipe_cooldown :: real where
  [gesture_consts]: "swipe_cooldown = 0.2"

definition detect_swipe :: "swipe_state \<Rightarrow> timestamp \<Rightarrow> hand \<Rightarrow> string option \<times> swipe_state" where
  "detect_swipe s current_time h =
     (let current_x = lm_x (h WRIST);
          fall_through = (None, s\<lparr>last_hand_x := Some current_x\<rparr>)
      in case last_hand_x s of
           None \<Rightarrow> fall_through
         | Some prev_x \<Rightarrow>
             if current_time - last_swipe_time s > swipe_cooldown then
               (let delta_x = current_x - prev_x
                in if delta_x > swipe_threshold
                   then (Some ''swipe_right'', s\<lparr>last_swipe_time := current_time\<rparr>)
                   else if delta_x < - swipe_threshold
                   then (Some ''swipe_left'', s\<lparr>last_swipe_time := current_time\<rparr>)
                   else fall_through)
             else fall_through)"

section \<open>Lemmas\<close>

lemma detect_swipe_quiet:
  "fst (detect_swipe s t h) = None \<Longrightarrow>
   snd (detect_swipe s t h) = s\<lparr>last_hand_x := Some (lm_x (h WRIST))\<rparr>"
  by (auto simp: detect_swipe_def Let_def split: option.splits if_splits)

lemma detect_swipe_fires:
  "fst (detect_swipe s t h) \<noteq> None \<Longrightarrow> snd (detect_swipe s t h) = s\<lparr>last_swipe_time := t\<rparr>"
  by (auto simp: detect_swipe_def Let_def split: option.splits if_splits)

lemma detect_swipe_Some_iff:
  "(fst (detect_swipe s t h) = Some g) =
     (\<exists>prev_x. last_hand_x s = Some prev_x \<and> t - last_swipe_time s > swipe_cooldown \<and>
        ((lm_x (h WRIST) - prev_x > swipe_threshold \<and> g = ''swipe_right'') \<or>
         (\<not> lm_x (h WRIST) - prev_x > swipe_threshold \<and>
          lm_x (h WRIST) - prev_x < - swipe_threshold \<and> g = ''swipe_left'')))"
  by (auto simp: detect_swipe_def Let_def split: option.splits)

lemma detect_swipe_labels:
  "fst (detect_swipe s t h) \<in> {None, Some ''swipe_left'', Some ''swipe_right''}"
  by (auto simp: detect_swipe_def Let_def split: option.splits)

section \<open>Properties of the swipe detector\<close>

text \<open>On a frame where \<open>detect_swipe\<close> reports a swipe it returns before the update
  \<open>last_hand_x = current_x\<close>, so the previous wrist position is kept; only the swipe
  cooldown is restarted. (The specification says the position is updated on every frame.)\<close>

theorem detect_swipe_stale_x:
  assumes "fst (detect_swipe s t h) \<noteq> None"
  shows "last_hand_x (snd (detect_swipe s t h)) = last_hand_x s
    \<and> last_swipe_time (snd (detect_swipe s t h)) = t"
  using assms by (auto simp: detect_swipe_def Let_def split: option.splits if_splits)

text \<open>Because of the stale position, two consecutive calls of \<open>detect_swipe\<close> on the
  same wrist position, the second after the swipe cooldown, both report a swipe. In the
  frame loop this needs the hand to go unprocessed during the cooldown (it left the view):
  a frame processed within the cooldown records the current position (line 127).\<close>

theorem detect_swipe_repeats:
  assumes "last_hand_x s = Some prev_x"
    and "lm_x (h WRIST) - prev_x > swipe_threshold"
    and "t1 - last_swipe_time s > swipe_cooldown"
    and "t2 - t1 > swipe_cooldown"
  shows "fst (detect_swipe s t1 h) = Some ''swipe_right''
    \<and> fst (detect_swipe (snd (detect_swipe s t1 h)) t2 h) = Some ''swipe_right''"
  using assms by (simp add: detect_swipe_def Let_def)

end
