(* ===== verification/Scroll.thy ===== *)
theory Scroll
  imports Geometry
begin

text \<open>
  The scroll controller: the block of the per-hand loop body of \<^verbatim>\<open>gesture_recognition\<close>
  that reads the index finger (\<^verbatim>\<open>src/gesture.py\<close> lines 249--291), with the closure
  variables it owns (\<open>scroll_active\<close>, \<open>base_angle\<close>, \<open>last_scroll_time\<close>,
  \<open>last_valid_angle\<close>, \<open>scroll_buffer\<close>) as one record. The clock read of line 274 is
  the parameter \<open>current_time\<close>; a call of \<open>pyautogui.scroll(n)\<close> is the result
  \<open>Some n\<close>.
\<close>

record scroll_state =
  scroll_active :: bool
  base_angle :: "real option"
  last_scroll_time :: timestamp
  last_valid_angle :: "real option"
  scroll_buffer :: real

definition scroll_sensitivity :: real where
  [gesture_consts]: "scroll_sensitivity = 100"

definition scroll_cooldown :: real where
  [gesture_consts]: "scroll_cooldown = 0.2"

text \<open>Lines 265--286: the gesture is held. The reference angle is initialised on entry,
  the difference is accumulated, a whole number of units is scrolled once the cooldown has
  passed, and the reference angle is blended towards the current angle.\<close>

definition scroll_engaged :: "scroll_state \<Rightarrow> timestamp \<Rightarrow> real \<Rightarrow> int option \<times> scroll_state" where
  "scroll_engaged s current_time angle =
     (let base = (case base_angle s of None \<Rightarrow> angle | Some b \<Rightarrow> b);
          angle_diff = angle - base;
          buffer = scroll_buffer s + angle_diff * scroll_sensitivity * smoothing_factor;
          (emitted, s') =
            (if current_time - last_scroll_time s > scroll_cooldown then
               (if \<bar>buffer\<bar> \<ge> 1 then
                  (let scroll_amount = py_int buffer
                   in (Some scroll_amount,
                       s\<lparr>scroll_buffer := buffer - of_int scroll_amount,
                         last_scroll_time := current_time, scroll_active := True\<rparr>))
                else (None, s\<lparr>scroll_buffer := buffer\<rparr>))
             else (None, s\<lparr>scroll_buffer := buffer\<rparr>))
      in (emitted, s'\<lparr>base_angle := Some (blend smoothing_factor base angle)\<rparr>))"

text \<open>Lines 250--257: the bend angle of the index finger, MCP--PIP against PIP--TIP,
  computed by \<open>calculate_angle\<close> with its sticky fallback.\<close>

definition index_angle :: "real option \<Rightarrow> hand \<Rightarrow> real \<times> real option" where
  "index_angle last_valid h =
     (let mcp = h INDEX_FINGER_MCP; pip = h INDEX_FINGER_PIP; tip = h INDEX_FINGER_TIP;
          vec1 = segment mcp pip; vec2 = segment pip tip
      in calculate_angle last_valid vec1 vec2)"

text \<open>Lines 261--263.\<close>

definition middle_finger_curled :: "hand \<Rightarrow> bool" where
  "middle_finger_curled h =
     (let middle_tip = h MIDDLE_FINGER_TIP; middle_pip = h MIDDLE_FINGER_PIP
      in lm_y middle_tip > lm_y middle_pip + 0.03)"

text \<open>Lines 249--291: the bend angle of the index finger (MCP--PIP against PIP--TIP) and
  the middle-finger test select between holding and resetting the gesture.\<close>

definition scroll_control :: "scroll_state \<Rightarrow> timestamp \<Rightarrow> hand \<Rightarrow> int option \<times> scroll_state" where
  "scroll_control s current_time h =
     (let (angle, lva) = index_angle (last_valid_angle s) h;
          s = s\<lparr>last_valid_angle := lva\<rparr>;
          is_middle_finger_curled = middle_finger_curled h
      in if angle < 25 \<and> is_middle_finger_curled then scroll_engaged s current_time angle
         else (None, s\<lparr>scroll_active := False, base_angle := None, scroll_buffer := 0\<rparr>))"

text \<open>The invariant of the controller's state: the last valid angle is an angle, no
  buffered signal while no gesture is held, and a held reference angle lies in the
  activation range \<open>[0, 25)\<close>.\<close>

definition scroll_inv :: "scroll_state \<Rightarrow> bool" where
  "scroll_inv s =
     (angle_ok (last_valid_angle s) \<and>
      (case base_angle s of None \<Rightarrow> scroll_buffer s = 0 | Some b \<Rightarrow> 0 \<le> b \<and> b < 25))"

text \<open>The signal one frame adds to the buffer.\<close>

definition scroll_increment :: "scroll_state \<Rightarrow> real \<Rightarrow> real" where
  "scroll_increment s angle =
     (angle - (case base_angle s of None \<Rightarrow> angle | Some b \<Rightarrow> b)) * scroll_sensitivity * smoothing_factor"

section \<open>Lemmas\<close>

lemma scroll_engaged_cases:
  "scroll_engaged s t angle =
     (let buffer = scroll_buffer s + scroll_increment s angle;
          base = (case base_angle s of None \<Rightarrow> angle | Some b \<Rightarrow> b);
          s1 = s\<lparr>base_angle := Some (blend smoothing_factor base angle)\<rparr>
      in if t - last_scroll_time s > scroll_cooldown \<and> \<bar>buffer\<bar> \<ge> 1
         then (Some (py_int buffer), s1\<lparr>scroll_buffer := buffer - of_int (py_int buffer),
                 last_scroll_time := t, scroll_active := True\<rparr>)
         else (None, s1\<lparr>scroll_buffer := buffer\<rparr>))"
  by (simp add: scroll_engaged_def scroll_increment_def Let_def)

lemma scroll_control_cases:
  "index_angle (last_valid_angle s) h = (angle, lva) \<Longrightarrow>
   scroll_control s t h =
     (if angle < 25 \<and> middle_finger_curled h
      then scroll_engaged (s\<lparr>last_valid_angle := lva\<rparr>) t angle
      else (None, s\<lparr>last_valid_angle := lva, scroll_active := False, base_angle := None, scroll_buffer := 0\<rparr>))"
  by (simp add: scroll_control_def Let_def)

lemma index_angle_ok:
  "angle_ok a \<Longrightarrow> 0 \<le> fst (index_angle a h) \<and> fst (index_angle a h) \<le> 180 \<and> angle_ok (snd (index_angle a h))"
  by (simp add: index_angle_def Let_def calculate_angle_ok)

lemma scroll_engaged_inv:
  assumes "scroll_inv s" and "0 \<le> angle" and "angle < 25"
  shows "scroll_inv (snd (scroll_engaged s t angle))"
proof -
  let ?base = "case base_angle s of None \<Rightarrow> angle | Some b \<Rightarrow> b"
  have "0 \<le> ?base \<and> ?base < 25"
    using assms by (auto simp: scroll_inv_def split: option.splits)
  then have "0 \<le> blend smoothing_factor ?base angle \<and> blend smoothing_factor ?base angle < 25"
    using blend_smoothing_between [of ?base angle] assms by auto
  with assms(1) show ?thesis
    by (simp add: scroll_engaged_cases scroll_inv_def Let_def)
qed

lemma scroll_control_inv:
  assumes "scroll_inv s"
  shows "scroll_inv (snd (scroll_control s t h))"
proof -
  obtain angle lva where r: "index_angle (last_valid_angle s) h = (angle, lva)" by fastforce
  with assms index_angle_ok [of "last_valid_angle s" h]
  have a0: "0 \<le> angle" and ok: "angle_ok lva" by (simp_all add: scroll_inv_def)
  with assms have inv0: "scroll_inv (s\<lparr>last_valid_angle := lva\<rparr>)"
    by (auto simp: scroll_inv_def split: option.splits)
  show ?thesis
  proof (cases "angle < 25 \<and> middle_finger_curled h")
    case True
    with inv0 a0 show ?thesis by (simp add: scroll_control_cases [OF r] scroll_engaged_inv)
  next
    case False
    with ok show ?thesis by (auto simp: scroll_control_cases [OF r] scroll_inv_def)
  qed
qed

lemma scroll_engaged_due:
  assumes "t - last_scroll_time s > scroll_cooldown"
    and "\<bar>scroll_buffer s + scroll_increment s angle\<bar> \<ge> 1"
  shows "fst (scroll_engaged s t angle) = Some (py_int (scroll_buffer s + scroll_increment s angle))"
  using assms by (simp add: scroll_engaged_cases Let_def)

lemma scroll_engaged_not_due:
  assumes "t - last_scroll_time s \<le> scroll_cooldown"
  shows "fst (scroll_engaged s t angle) = None \<and> last_scroll_time (snd (scroll_engaged s t angle)) = last_scroll_time s"
  using assms by (simp add: scroll_engaged_cases Let_def)

section \<open>Properties of the scroll controller\<close>

text \<open>C9: when the index finger is not straight (bend angle at least 25 degrees) or the
  middle finger is not curled, the controller scrolls nothing and resets: no reference
  angle, an empty buffer, scrolling inactive; only the last valid angle is updated.\<close>

theorem scroll_control_reset:
  assumes "index_angle (last_valid_angle s) h = (angle, lva)"
    and "\<not> (angle < 25 \<and> middle_finger_curled h)"
  shows "scroll_control s t h =
           (None, s\<lparr>last_valid_angle := lva, scroll_active := False, base_angle := None, scroll_buffer := 0\<rparr>)"
  using assms by (auto simp: scroll_control_cases)

text \<open>On the first frame of a scroll gesture (no reference angle yet) nothing is scrolled
  and the buffer stays empty: the reference angle is initialised to the current angle, so
  entering the gesture causes no jump.\<close>

theorem scroll_engaged_entry:
  assumes "scroll_inv s" and "base_angle s = None"
  shows "scroll_engaged s t angle = (None, s\<lparr>base_angle := Some angle, scroll_buffer := 0\<rparr>)"
  using assms by (simp add: scroll_engaged_cases scroll_increment_def scroll_inv_def Let_def)

text \<open>C7: nothing of the scroll signal is lost: the units scrolled in a frame plus what
  stays in the buffer equal what was buffered before plus the frame's increment
  \<open>angle_diff * scroll_sensitivity * smoothing_factor\<close>.\<close>

theorem scroll_engaged_conserves:
  "scroll_buffer (snd (scroll_engaged s t angle)) + of_int (case fst (scroll_engaged s t angle) of None \<Rightarrow> 0 | Some n \<Rightarrow> n)
     = scroll_buffer s + scroll_increment s angle"
  by (simp add: scroll_engaged_cases Let_def)

text \<open>C8: a scroll is emitted only as the truncated integer part of the buffer, is never
  zero, leaves a fractional remainder of magnitude below one in the buffer, and restarts
  the scroll cooldown.\<close>

theorem scroll_engaged_emits:
  assumes "fst (scroll_engaged s t angle) = Some n"
  shows "n = py_int (scroll_buffer s + scroll_increment s angle) \<and> n \<noteq> 0
    \<and> \<bar>scroll_buffer (snd (scroll_engaged s t angle))\<bar> < 1
    \<and> last_scroll_time (snd (scroll_engaged s t angle)) = t"
proof -
  let ?b = "scroll_buffer s + scroll_increment s angle"
  from assms have due: "t - last_scroll_time s > scroll_cooldown \<and> \<bar>?b\<bar> \<ge> 1"
    and n: "n = py_int ?b"
    by (simp_all add: scroll_engaged_cases Let_def split: if_splits)
  then have "py_int ?b \<noteq> 0" by (intro py_int_nonzero) simp
  with n have "n \<noteq> 0" by simp
  with due n show ?thesis
    by (simp add: scroll_engaged_cases Let_def py_int_residual)
qed

end
