(* ===== verification/Shared_State.thy ===== *)
theory Shared_State
  imports Prelude
begin

text \<open>
  The state shared by the two threads of the assistant and the OS automation interface.
  The dictionary \<open>DEFAULT_GESTURE_STATE\<close> of \<^verbatim>\<open>src/config.py\<close> (lines 107--114), copied by
  \<^verbatim>\<open>JarvisAssistant.__init__\<close> and handed to the recognizer thread, becomes a record
  with one field per key; the key \<open>detected\<close> holds the recognizer's label strings.
  The calls of \<open>pyautogui\<close> that the recognizer makes are values of \<open>os_action\<close>.
\<close>

record gesture_state =
  active :: bool
  detected :: "string option"
  volume_level :: real
  brightness_level :: int
  mouse_control :: bool
  recording :: bool

definition DEFAULT_GESTURE_STATE :: gesture_state where
  "DEFAULT_GESTURE_STATE =
     \<lparr>active = False, detected = None, volume_level = 0.5, brightness_level = 50,
      mouse_control = False, recording = False\<rparr>"

datatype os_action =
    Press string          \<comment> \<open>\<open>pyautogui.press(key)\<close>\<close>
  | Scroll_wheel int      \<comment> \<open>\<open>pyautogui.scroll(amount)\<close>\<close>
  | Move_to real real     \<comment> \<open>\<open>pyautogui.moveTo(x, y)\<close>\<close>

text \<open>The labels the recognizer writes into \<open>detected\<close>.\<close>

definition recognizer_labels :: "string set" where
  "recognizer_labels =
     {''thumbs_up'', ''thumbs_down'', ''swipe_left'', ''swipe_right'', ''mouse_move'', ''volume_control''}"

text \<open>The shared-state invariant: \<open>detected\<close> is empty or a recognizer label, and the
  volume level is a fraction.\<close>

definition shared_ok :: "gesture_state \<Rightarrow> bool" where
  "shared_ok g =
     ((case detected g of None \<Rightarrow> True | Some l \<Rightarrow> l \<in> recognizer_labels) \<and>
      0 \<le> volume_level g \<and> volume_level g \<le> 1)"

lemma shared_ok_default: "shared_ok DEFAULT_GESTURE_STATE"
  by (simp add: shared_ok_def DEFAULT_GESTURE_STATE_def)

end
