(* ===== verification/Palm.thy ===== *)
theory Palm
  imports Detectors Shared_State
begin

text \<open>
  The open-palm branch of the per-hand loop body (\<^verbatim>\<open>src/gesture.py\<close> lines 293--336):
  mouse control when \<open>gesture_state["mouse_control"]\<close> is set, volume control otherwise,
  and the reset of the mouse smoothing when the palm is not open. The module globals
  \<open>smooth_mouse_x, smooth_mouse_y\<close> (always assigned together) are one optional pair;
  \<open>prev_mouse_x, prev_mouse_y\<close> are only ever assigned \<open>None\<close> and never read, and are
  not modelled. \<open>pyautogui.size()\<close> is the parameter \<open>screen\<close> (width, height).
\<close>

record mouse_state =
  smooth_mouse :: "(real \<times> real) option"

definition palm_control ::
  "int \<times> int \<Rightarrow> mouse_state \<Rightarrow> gesture_state \<Rightarrow> hand \<Rightarrow> mouse_state \<times> gesture_state \<times> os_action list" where
  "palm_control screen m g h =
     (if detect_open_palm h then
        if mouse_control g then
          (let g = g\<lparr>detected := Some ''mouse_move''\<rparr>;
               index_finger_tip = h INDEX_FINGER_TIP;
               screen_x = py_int (lm_x index_finger_tip * of_int (fst screen));
               screen_y = py_int (lm_y index_finger_tip * of_int (snd screen));
               pos = (case smooth_mouse m of
                        None \<Rightarrow> (of_int screen_x, of_int screen_y)
                      | Some (sx, sy) \<Rightarrow>
                          (blend smoothing_factor sx (of_int screen_x),
                           blend smoothing_factor sy (of_int screen_y)))
           in (m\<lparr>smooth_mouse := Some pos\<rparr>, g, [Move_to (fst pos) (snd pos)]))
        else
          (let palm_y = lm_y (h WRIST);
               volume_level = 1 - palm_y * 1.3;
               volume_level = max 0 (min 1 volume_level)
           in (m, g\<lparr>volume_level := volume_level, detected := Some ''volume_control''\<rparr>, []))
      else (m\<lparr>smooth_mouse := None\<rparr>, g, []))"

text \<open>The volume level the volume branch derives from the wrist height.\<close>

definition palm_volume :: "hand \<Rightarrow> real" where
  "palm_volume h = max 0 (min 1 (1 - lm_y (h WRIST) * 1.3))"

section \<open>Lemmas\<close>

lemma palm_control_mouse:
  "detect_open_palm h \<Longrightarrow> mouse_control g \<Longrightarrow>
   palm_control screen m g h =
     (let tx = of_int (py_int (lm_x (h INDEX_FINGER_TIP) * of_int (fst screen)));
          ty = of_int (py_int (lm_y (h INDEX_FINGER_TIP) * of_int (snd screen)));
          pos = (case smooth_mouse m of None \<Rightarrow> (tx, ty)
                 | Some (sx, sy) \<Rightarrow> (blend smoothing_factor sx tx, blend smoothing_factor sy ty))
      in (m\<lparr>smooth_mouse := Some pos\<rparr>, g\<lparr>detected := Some ''mouse_move''\<rparr>, [Move_to (fst pos) (snd pos)]))"
  by (simp add: palm_control_def Let_def)

lemma palm_control_shared_ok:
  "shared_ok g \<Longrightarrow> shared_ok (fst (snd (palm_control screen m g h)))"
  by (auto simp: palm_control_def shared_ok_def recognizer_labels_def Let_def)

lemma palm_control_mouse_step:
  assumes "detect_open_palm h" and "mouse_control g"
    and "tx = of_int (py_int (lm_x (h INDEX_FINGER_TIP) * of_int (fst screen)))"
    and "ty = of_int (py_int (lm_y (h INDEX_FINGER_TIP) * of_int (snd screen)))"
  shows "smooth_mouse (fst (palm_control screen m g h)) =
     Some (case smooth_mouse m of None \<Rightarrow> (tx, ty)
           | Some (sx, sy) \<Rightarrow> (blend smoothing_factor sx tx, blend smoothing_factor sy ty))"
  unfolding assms(3,4) using assms(1,2) by (simp add: palm_control_mouse Let_def)

lemma blend_geometric:
  "blend smoothing_factor (t + c * (s - t)) t = t + (4/5 * c) * (s - t)"
  by (simp add: blend_def smoothing_factor_def field_simps)

section \<open>Properties of the open-palm branch\<close>

text \<open>C13: the volume derived from the wrist height is \<open>1 - 1.3 y\<close> clamped to
  \<open>[0, 1]\<close>: full volume for a wrist at the top edge or above, silence from
  \<open>y = 1/1.3\<close> down, linear in between; it is always a fraction.\<close>

theorem palm_volume_formula:
  "0 \<le> palm_volume h \<and> palm_volume h \<le> 1 \<and>
   palm_volume h = (if lm_y (h WRIST) \<le> 0 then 1
                    else if lm_y (h WRIST) \<ge> 1 / 1.3 then 0
                    else 1 - 1.3 * lm_y (h WRIST))"
  by (simp add: palm_volume_def)

text \<open>C14: with an open palm and mouse control off, the frame sets the volume level from the
  wrist height and also writes \<open>detected = "volume_control"\<close>, overwriting any discrete
  gesture of the same frame; no OS action is issued and the mouse state is kept.\<close>

theorem palm_control_volume:
  "detect_open_palm h \<Longrightarrow> \<not> mouse_control g \<Longrightarrow>
   palm_control screen m g h = (m, g\<lparr>volume_level := palm_volume h, detected := Some ''volume_control''\<rparr>, [])"
  by (simp add: palm_control_def palm_volume_def Let_def)

text \<open>When the palm is not open, the mouse smoothing is reset (so that re-engaging mouse
  control does not start from a stale position) and the shared state is left unchanged.\<close>

theorem palm_control_closed:
  "\<not> detect_open_palm h \<Longrightarrow> palm_control screen m g h = (m\<lparr>smooth_mouse := None\<rparr>, g, [])"
  by (simp add: palm_control_def)

text \<open>C16: in mouse-control mode the cursor target is the index fingertip scaled to the
  screen. Over \<open>n\<close> frames of a hand held still, the smoothed position closes
  \<open>1 - smoothing_factor = 4/5\<close> of its remaining distance to the target per frame:
  after \<open>n\<close> frames it is \<open>target + (4/5)^n * (start - target)\<close>; with no smoothed position
  yet, the first frame jumps to the target and the cursor stays there.\<close>

theorem palm_mouse_converges:
  assumes "detect_open_palm h" and "mouse_control g"
    and "tx = of_int (py_int (lm_x (h INDEX_FINGER_TIP) * of_int (fst screen)))"
    and "ty = of_int (py_int (lm_y (h INDEX_FINGER_TIP) * of_int (snd screen)))"
  shows "smooth_mouse (((\<lambda>m. fst (palm_control screen m g h)) ^^ n) m) =
     (case smooth_mouse m of
        None \<Rightarrow> if n = 0 then None else Some (tx, ty)
      | Some (sx, sy) \<Rightarrow> Some (tx + (4/5) ^ n * (sx - tx), ty + (4/5) ^ n * (sy - ty)))"
proof (induction n)
  case 0
  then show ?case by (simp split: option.split)
next
  case (Suc n)
  have step: "smooth_mouse (((\<lambda>m. fst (palm_control screen m g h)) ^^ Suc n) m) =
     Some (case smooth_mouse (((\<lambda>m. fst (palm_control screen m g h)) ^^ n) m) of None \<Rightarrow> (tx, ty)
           | Some (sx, sy) \<Rightarrow> (blend smoothing_factor sx tx, blend smoothing_factor sy ty))"
    using palm_control_mouse_step [OF assms] by simp
  show ?case
  proof (cases "smooth_mouse m")
    case None
    then show ?thesis using Suc step by (cases n) simp_all
  next
    case (Some p)
    then show ?thesis using Suc step by (cases p) (simp add: blend_geometric)
  qed
qed

end
