(* ===== verification/Recognizer.thy ===== *)
theory Recognizer
  imports Swipe Scroll Palm
begin

text \<open>
  The temporal arbiter and the frame loop of \<^verbatim>\<open>gesture_recognition\<close>
  (\<^verbatim>\<open>src/gesture.py\<close> lines 13--356). The closure variables of the function and the
  module's mouse globals form \<open>recognizer_state\<close>, grouped by the detector that owns them;
  the dictionary shared with the command thread is \<open>gesture_state\<close>. One iteration of
  the \<open>while\<close> loop is \<open>frame_step\<close>; its inputs (the clock reads, the camera read, the
  landmark detector's answer and the key press) form \<open>frame_input\<close>. The landmark
  detector is configured with \<open>max_num_hands=1\<close>, so \<open>results.multi_hand_landmarks\<close>
  holds at most one hand and the \<open>for\<close> loop over it is an \<open>option\<close>; a \<open>results\<close>
  of \<open>None\<close> and one with no hand are processed alike and are both \<open>None\<close>.
\<close>

record recognizer_state =
  swipe :: swipe_state
  scroll :: scroll_state
  mouse :: mouse_state
  last_gesture_time :: timestamp
  prev_time :: timestamp
  results :: "hand option"

record frame_input =
  t_loop :: timestamp        \<comment> \<open>\<open>current_time = time.time()\<close>, line 193\<close>
  frame_ok :: bool           \<comment> \<open>\<open>ret\<close> of \<open>cap.read()\<close>, line 194\<close>
  detection :: "hand option" \<comment> \<open>what \<open>hands.process(rgb_frame)\<close> returns on this frame\<close>
  t_swipe :: timestamp       \<comment> \<open>the clock read inside \<open>detect_swipe\<close>, line 108\<close>
  t_scroll :: timestamp      \<comment> \<open>the clock read of line 274\<close>
  key_q :: bool              \<comment> \<open>\<open>cv2.waitKey(10) & 0xFF == ord('q')\<close>, line 351\<close>

definition gesture_cooldown :: real where
  [gesture_consts]: "gesture_cooldown = 0.7"

definition frame_interval :: real where
  [gesture_consts]: "frame_interval = 0.025"

text \<open>The state at the start of \<^verbatim>\<open>gesture_recognition\<close> (lines 25--46 and 183--184);
  the clock reads of lines 32, 41, 46 and 183 are taken to be the same instant \<open>t0\<close>.\<close>

definition recognizer_init :: "timestamp \<Rightarrow> recognizer_state" where
  "recognizer_init t0 =
     \<lparr>swipe = \<lparr>last_hand_x = None, last_swipe_time = t0\<rparr>,
      scroll = \<lparr>scroll_active = False, base_angle = None, last_scroll_time = t0,
                last_valid_angle = None, scroll_buffer = 0\<rparr>,
      mouse = \<lparr>smooth_mouse = None\<rparr>,
      last_gesture_time = t0, prev_time = t0, results = None\<rparr>"

text \<open>The thumbs stage (lines 226--233): gated by the gesture cooldown.\<close>

definition thumbs_stage ::
  "timestamp \<Rightarrow> recognizer_state \<Rightarrow> gesture_state \<Rightarrow> hand \<Rightarrow> recognizer_state \<times> gesture_state" where
  "thumbs_stage current_time st g h =
     (if current_time - last_gesture_time st > gesture_cooldown then
        (case detect_thumbs_gesture h of
           None \<Rightarrow> (st, g)
         | Some thumb_gesture \<Rightarrow>
             (st\<lparr>last_gesture_time := current_time\<rparr>, g\<lparr>detected := Some thumb_gesture\<rparr>))
      else (st, g))"

text \<open>The swipe stage (lines 235--247): \<open>detect_swipe\<close> always runs and updates its own
  state; its result is accepted only if \<open>swipe_cooldown\<close> has passed since
  \<open>last_gesture_time\<close>, the timer the thumbs stage also restarts.\<close>

definition swipe_stage ::
  "timestamp \<Rightarrow> timestamp \<Rightarrow> recognizer_state \<Rightarrow> gesture_state \<Rightarrow> hand
     \<Rightarrow> recognizer_state \<times> gesture_state \<times> os_action list" where
  "swipe_stage current_time swipe_time st g h =
     (let (swipe_gesture, sw) = detect_swipe (swipe st) swipe_time h;
          st = st\<lparr>swipe := sw\<rparr>
      in case swipe_gesture of
           None \<Rightarrow> (st, g, [])
         | Some sg \<Rightarrow>
             if current_time - last_gesture_time st > swipe_cooldown then
               (st\<lparr>last_gesture_time := current_time\<rparr>, g\<lparr>detected := Some sg\<rparr>,
                if sg = ''swipe_left'' then [Press ''left'']
                else if sg = ''swipe_right'' then [Press ''right''] else [])
             else (st, g, []))"

text \<open>The body of \<open>for hand_landmarks in results.multi_hand_landmarks\<close> (lines 216--336),
  stage after stage in the source's order; drawing and text overlays are not modelled.\<close>

definition process_hand ::
  "int \<times> int \<Rightarrow> frame_input \<Rightarrow> recognizer_state \<Rightarrow> gesture_state \<Rightarrow> hand
     \<Rightarrow> recognizer_state \<times> gesture_state \<times> os_action list" where
  "process_hand screen inp st g h =
     (let current_time = t_loop inp;
          (st, g) = thumbs_stage current_time st g h;
          (st, g, acts1) = swipe_stage current_time (t_swipe inp) st g h;
          (scroll_amount, sc) = scroll_control (scroll st) (t_scroll inp) h;
          st = st\<lparr>scroll := sc\<rparr>;
          acts2 = (case scroll_amount of None \<Rightarrow> [] | Some n \<Rightarrow> [Scroll_wheel n]);
          (m, g, acts3) = palm_control screen (mouse st) g h;
          st = st\<lparr>mouse := m\<rparr>
      in (st, g, acts1 @ acts2 @ acts3))"

text \<open>The part of an iteration after the two \<open>continue\<close>s (lines 201--336): record the
  frame time, run the landmark detector only when \<open>int(current_time * 10)\<close> is even and
  reuse the previous \<open>results\<close> otherwise, clear \<open>detected\<close>, and process the hand if
  there is one.\<close>

definition frame_process ::
  "int \<times> int \<Rightarrow> frame_input \<Rightarrow> recognizer_state \<Rightarrow> gesture_state
     \<Rightarrow> recognizer_state \<times> gesture_state \<times> os_action list" where
  "frame_process screen inp st g =
     (let current_time = t_loop inp;
          st = st\<lparr>prev_time := current_time\<rparr>;
          st = (if py_int (current_time * 10) mod 2 = 0 then st\<lparr>results := detection inp\<rparr> else st);
          g = g\<lparr>detected := None\<rparr>
      in case results st of
           None \<Rightarrow> (st, g, [])
         | Some h \<Rightarrow> process_hand screen inp st g h)"

text \<open>One iteration of \<open>while gesture_state["active"]\<close> (lines 193--353), entered with the
  loop condition true. A failed camera read and a frame that arrives within
  \<open>frame_interval\<close> of the last processed one are skipped (\<open>continue\<close>). The last
  component is \<open>True\<close> when the loop breaks on the quit key.\<close>

definition frame_step ::
  "int \<times> int \<Rightarrow> frame_input \<Rightarrow> recognizer_state \<Rightarrow> gesture_state
     \<Rightarrow> recognizer_state \<times> gesture_state \<times> os_action list \<times> bool" where
  "frame_step screen inp st g =
     (let current_time = t_loop inp
      in if \<not> frame_ok inp then (st, g, [], False)
         else if current_time - prev_time st < frame_interval then (st, g, [], False)
         else
           (let (st, g, acts) = frame_process screen inp st g
            in if key_q inp then (st, g\<lparr>active := False\<rparr>, acts, True)
               else (st, g, acts, False)))"

text \<open>The loop over a finite sequence of frames: it stops when \<open>active\<close> is false at the
  loop test, when the quit key breaks it, or when the frames run out.\<close>

fun recognizer_loop ::
  "int \<times> int \<Rightarrow> frame_input list \<Rightarrow> recognizer_state \<Rightarrow> gesture_state
     \<Rightarrow> recognizer_state \<times> gesture_state \<times> os_action list" where
  "recognizer_loop screen [] st g = (st, g, [])"
| "recognizer_loop screen (inp # inps) st g =
     (if \<not> active g then (st, g, [])
      else
        (let (st', g', acts, quit) = frame_step screen inp st g
         in if quit then (st', g', acts)
            else (let (st'', g'', acts') = recognizer_loop screen inps st' g'
                  in (st'', g'', acts @ acts'))))"

text \<open>\<^verbatim>\<open>gesture_recognition(gesture_state)\<close>: set \<open>active\<close> (line 25) and run the loop.\<close>

definition gesture_recognition ::
  "int \<times> int \<Rightarrow> timestamp \<Rightarrow> frame_input list \<Rightarrow> gesture_state
     \<Rightarrow> recognizer_state \<times> gesture_state \<times> os_action list" where
  "gesture_recognition screen t0 inps g =
     recognizer_loop screen inps (recognizer_init t0) (g\<lparr>active := True\<rparr>)"

section \<open>Stage lemmas\<close>

text \<open>The definitions unfolded to run the recognizer on a concrete frame.\<close>

lemmas frame_eval = gesture_recognition_def recognizer_init_def frame_step_def frame_process_def
  process_hand_def thumbs_stage_def swipe_stage_def detect_swipe_def scroll_control_def index_angle_def
  calculate_angle_def palm_control_def detect_open_palm_eq detect_thumbs_gesture_def Let_def
  gesture_consts segment_def norm2_def dot2_def middle_finger_curled_def py_int_def
  finger_tips_def finger_pips_def finger_mcps_def finger_check_points_def py_or_zero_def

lemma detect_thumbs_labels:
  "detect_thumbs_gesture h \<in> {None, Some ''thumbs_up'', Some ''thumbs_down''}"
  by (simp add: detect_thumbs_gesture_def Let_def)

lemma thumbs_stage_shared_ok:
  "shared_ok g \<Longrightarrow> shared_ok (snd (thumbs_stage t st g h))"
  using detect_thumbs_labels [of h]
  by (auto simp: thumbs_stage_def shared_ok_def recognizer_labels_def split: option.splits)

lemma swipe_stage_split:
  "detect_swipe (swipe st) ts h = (sg, sw) \<Longrightarrow>
   swipe_stage t ts st g h =
     (case sg of
        None \<Rightarrow> (st\<lparr>swipe := sw\<rparr>, g, [])
      | Some l \<Rightarrow>
          if t - last_gesture_time st > swipe_cooldown then
            (st\<lparr>swipe := sw, last_gesture_time := t\<rparr>, g\<lparr>detected := Some l\<rparr>,
             if l = ''swipe_left'' then [Press ''left''] else if l = ''swipe_right'' then [Press ''right''] else [])
          else (st\<lparr>swipe := sw\<rparr>, g, []))"
  by (simp add: swipe_stage_def split: option.split)

lemma swipe_stage_shared_ok:
  assumes "shared_ok g"
  shows "shared_ok (fst (snd (swipe_stage t ts st g h)))"
proof -
  obtain sg sw where d: "detect_swipe (swipe st) ts h = (sg, sw)" by fastforce
  with detect_swipe_labels [of "swipe st" ts h] have "sg \<in> {None, Some ''swipe_left'', Some ''swipe_right''}"
    by simp
  with assms show ?thesis
    by (auto simp: swipe_stage_split [OF d] shared_ok_def recognizer_labels_def)
qed

lemma process_hand_split:
  assumes "thumbs_stage (t_loop inp) st g h = (st1, g1)"
    and "swipe_stage (t_loop inp) (t_swipe inp) st1 g1 h = (st2, g2, a1)"
    and "scroll_control (scroll st2) (t_scroll inp) h = (sa, sc)"
    and "palm_control screen (mouse st2) g2 h = (m, g3, a3)"
  shows "process_hand screen inp st g h =
           (st2\<lparr>scroll := sc, mouse := m\<rparr>, g3,
            a1 @ (case sa of None \<Rightarrow> [] | Some n \<Rightarrow> [Scroll_wheel n]) @ a3)"
  using assms by (simp add: process_hand_def)

lemma process_hand_shared_ok:
  assumes "shared_ok g"
  shows "shared_ok (fst (snd (process_hand screen inp st g h)))"
proof -
  obtain st1 g1 where s1: "thumbs_stage (t_loop inp) st g h = (st1, g1)" by fastforce
  obtain st2 g2 a1 where s2: "swipe_stage (t_loop inp) (t_swipe inp) st1 g1 h = (st2, g2, a1)"
    by (metis prod.exhaust)
  obtain sa sc where s3: "scroll_control (scroll st2) (t_scroll inp) h = (sa, sc)" by fastforce
  obtain m g3 a3 where s4: "palm_control screen (mouse st2) g2 h = (m, g3, a3)"
    by (metis prod.exhaust)
  from assms s1 have "shared_ok g1" using thumbs_stage_shared_ok [of g "t_loop inp" st h] by simp
  with s2 have "shared_ok g2" using swipe_stage_shared_ok [of g1 "t_loop inp" "t_swipe inp" st1 h] by simp
  with s4 have "shared_ok g3" using palm_control_shared_ok [of g2 screen "mouse st2" h] by simp
  then show ?thesis by (simp add: process_hand_split [OF s1 s2 s3 s4])
qed

lemma shared_ok_cleared: "shared_ok g \<Longrightarrow> shared_ok (g\<lparr>detected := None\<rparr>)"
  by (simp add: shared_ok_def)

lemma shared_ok_active: "shared_ok g \<Longrightarrow> shared_ok (g\<lparr>active := b\<rparr>)"
  by (simp add: shared_ok_def)

lemma frame_process_shared_ok:
  assumes "shared_ok g"
  shows "shared_ok (fst (snd (frame_process screen inp st g)))"
proof -
  have c: "shared_ok (g\<lparr>detected := None\<rparr>)" using assms by (rule shared_ok_cleared)
  show ?thesis
    using c process_hand_shared_ok by (simp add: frame_process_def Let_def split: option.split)
qed

lemma frame_step_split:
  "frame_process screen inp st g = (st', g', acts) \<Longrightarrow>
   frame_step screen inp st g =
     (if \<not> frame_ok inp \<or> t_loop inp - prev_time st < frame_interval then (st, g, [], False)
      else if key_q inp then (st', g'\<lparr>active := False\<rparr>, acts, True) else (st', g', acts, False))"
  by (simp add: frame_step_def)

lemma frame_step_shared_ok:
  assumes "shared_ok g"
  shows "shared_ok (fst (snd (frame_step screen inp st g)))"
proof -
  obtain st' g' acts where p: "frame_process screen inp st g = (st', g', acts)" by (metis prod.exhaust)
  with assms frame_process_shared_ok [of g screen inp st] have "shared_ok g'" by simp
  with assms show ?thesis by (simp add: frame_step_split [OF p] shared_ok_active)
qed

lemma recognizer_loop_Cons:
  "frame_step screen inp st g = (st', g', acts, quit) \<Longrightarrow>
   recognizer_loop screen (inp # inps) st g =
     (if \<not> active g then (st, g, [])
      else if quit then (st', g', acts)
      else (let (st'', g'', acts') = recognizer_loop screen inps st' g' in (st'', g'', acts @ acts')))"
  by simp

text \<open>A property \<open>P\<close> of the loop's state pair that every frame keeps holds after the loop.\<close>

lemma recognizer_loop_preserves:
  assumes step: "\<And>inp st g. P st g \<Longrightarrow> active g \<Longrightarrow> P (fst (frame_step screen inp st g)) (fst (snd (frame_step screen inp st g)))"
    and start: "P st g"
  shows "P (fst (recognizer_loop screen inps st g)) (fst (snd (recognizer_loop screen inps st g)))"
  using start
proof (induction inps arbitrary: st g)
  case Nil
  then show ?case by simp
next
  case (Cons inp inps)
  obtain st' g' acts quit where f: "frame_step screen inp st g = (st', g', acts, quit)"
    by (metis prod.exhaust)
  show ?case
  proof (cases "active g")
    case True
    with Cons.prems step [of st g inp] f have P': "P st' g'" by simp
    show ?thesis
    proof (cases quit)
      case True
      with P' \<open>active g\<close> show ?thesis unfolding recognizer_loop_Cons [OF f] by simp
    next
      case False
      obtain st'' g'' acts' where r: "recognizer_loop screen inps st' g' = (st'', g'', acts')"
        by (metis prod.exhaust)
      with Cons.IH [OF P'] have "P st'' g''" by simp
      with r False \<open>active g\<close> show ?thesis unfolding recognizer_loop_Cons [OF f] by simp
    qed
  next
    case False
    with Cons.prems show ?thesis unfolding recognizer_loop_Cons [OF f] by simp
  qed
qed

lemma thumbs_stage_quiet:
  "t - last_gesture_time st \<le> gesture_cooldown \<Longrightarrow> thumbs_stage t st g h = (st, g)"
  by (simp add: thumbs_stage_def)

lemma thumbs_stage_fires:
  "t - last_gesture_time st > gesture_cooldown \<Longrightarrow> detect_thumbs_gesture h = Some l \<Longrightarrow>
   thumbs_stage t st g h = (st\<lparr>last_gesture_time := t\<rparr>, g\<lparr>detected := Some l\<rparr>)"
  by (simp add: thumbs_stage_def)

lemma swipe_stage_quiet:
  "t - last_gesture_time st \<le> swipe_cooldown \<Longrightarrow>
   swipe_stage t ts st g h = (st\<lparr>swipe := snd (detect_swipe (swipe st) ts h)\<rparr>, g, [])"
  by (cases "detect_swipe (swipe st) ts h") (simp add: swipe_stage_split split: option.split)

lemma thumbs_stage_frame:
  "scroll (fst (thumbs_stage t st g h)) = scroll st \<and> mouse (fst (thumbs_stage t st g h)) = mouse st
   \<and> results (fst (thumbs_stage t st g h)) = results st"
  by (simp add: thumbs_stage_def split: option.split)

lemma swipe_stage_frame:
  "scroll (fst (swipe_stage t ts st g h)) = scroll st \<and> mouse (fst (swipe_stage t ts st g h)) = mouse st
   \<and> results (fst (swipe_stage t ts st g h)) = results st"
  by (cases "detect_swipe (swipe st) ts h") (simp add: swipe_stage_split split: option.split)

lemma palm_control_detected:
  "detected (fst (snd (palm_control screen m g h))) \<in> {detected g, Some ''mouse_move'', Some ''volume_control''}
   \<and> (\<forall>k. Press k \<notin> set (snd (snd (palm_control screen m g h))))"
  by (simp add: palm_control_def Let_def)

lemma process_hand_scroll:
  "scroll_inv (scroll st) \<Longrightarrow> scroll_inv (scroll (fst (process_hand screen inp st g h)))"
proof -
  assume inv: "scroll_inv (scroll st)"
  obtain st1 g1 where s1: "thumbs_stage (t_loop inp) st g h = (st1, g1)" by fastforce
  obtain st2 g2 a1 where s2: "swipe_stage (t_loop inp) (t_swipe inp) st1 g1 h = (st2, g2, a1)"
    by (metis prod.exhaust)
  obtain sa sc where s3: "scroll_control (scroll st2) (t_scroll inp) h = (sa, sc)" by fastforce
  obtain m g3 a3 where s4: "palm_control screen (mouse st2) g2 h = (m, g3, a3)"
    by (metis prod.exhaust)
  from s1 s2 thumbs_stage_frame [of "t_loop inp" st g h] swipe_stage_frame [of "t_loop inp" "t_swipe inp" st1 g1 h]
  have "scroll st2 = scroll st" by simp
  with inv s3 scroll_control_inv [of "scroll st2" "t_scroll inp" h] have "scroll_inv sc" by simp
  then show ?thesis by (simp add: process_hand_split [OF s1 s2 s3 s4])
qed

lemma process_hand_results:
  "results (fst (process_hand screen inp st g h)) = results st"
proof -
  obtain st1 g1 where s1: "thumbs_stage (t_loop inp) st g h = (st1, g1)" by fastforce
  obtain st2 g2 a1 where s2: "swipe_stage (t_loop inp) (t_swipe inp) st1 g1 h = (st2, g2, a1)"
    by (metis prod.exhaust)
  obtain sa sc where s3: "scroll_control (scroll st2) (t_scroll inp) h = (sa, sc)" by fastforce
  obtain m g3 a3 where s4: "palm_control screen (mouse st2) g2 h = (m, g3, a3)"
    by (metis prod.exhaust)
  from s1 s2 thumbs_stage_frame [of "t_loop inp" st g h] swipe_stage_frame [of "t_loop inp" "t_swipe inp" st1 g1 h]
  show ?thesis by (simp add: process_hand_split [OF s1 s2 s3 s4])
qed

lemma process_hand_ignores_detection:
  "process_hand screen (inp\<lparr>detection := d\<rparr>) st g h = process_hand screen inp st g h"
  by (simp add: process_hand_def)

lemma frame_step_scroll_inv:
  assumes "scroll_inv (scroll st)"
  shows "scroll_inv (scroll (fst (frame_step screen inp st g)))"
proof -
  obtain st' g' acts where p: "frame_process screen inp st g = (st', g', acts)" by (metis prod.exhaust)
  have "scroll_inv (scroll (fst (frame_process screen inp st g)))"
    using assms process_hand_scroll by (simp add: frame_process_def Let_def split: option.split)
  with p assms show ?thesis by (simp add: frame_step_split [OF p])
qed

lemma recognizer_init_scroll_inv: "scroll_inv (scroll (recognizer_init t0))"
  by (simp add: recognizer_init_def scroll_inv_def)

lemma recognizer_loop_scroll_inv:
  "scroll_inv (scroll st) \<Longrightarrow> scroll_inv (scroll (fst (recognizer_loop screen inps st g)))"
  using recognizer_loop_preserves [where P = "\<lambda>st _. scroll_inv (scroll st)" and st = st and g = g]
  by (simp add: frame_step_scroll_inv)

lemma frame_process_hand:
  "py_int (t_loop inp * 10) mod 2 = 0 \<Longrightarrow> detection inp = Some h \<Longrightarrow>
   frame_process screen inp st g =
     process_hand screen inp (st\<lparr>prev_time := t_loop inp, results := Some h\<rparr>) (g\<lparr>detected := None\<rparr>) h"
  by (simp add: frame_process_def Let_def)

lemma scroll_actions_no_press:
  "Press k \<notin> set (case sa of None \<Rightarrow> [] | Some n \<Rightarrow> [Scroll_wheel n])"
  by (simp split: option.split)

section \<open>Properties of the recognizer\<close>

text \<open>C1: whatever frames the recognizer thread processes, the shared dictionary stays
  well formed: \<open>detected\<close> is empty or one of the six labels the recognizer writes
  (thumbs up/down, swipe left/right, mouse move, volume control), and the volume level
  stays a fraction in \<open>[0, 1]\<close>.\<close>

theorem gesture_recognition_shared_ok:
  assumes "shared_ok g"
  shows "shared_ok (fst (snd (gesture_recognition screen t0 inps g)))"
proof -
  have "shared_ok (g\<lparr>active := True\<rparr>)" using assms by (rule shared_ok_active)
  then show ?thesis
    unfolding gesture_recognition_def
    using recognizer_loop_preserves [where P = "\<lambda>_ g. shared_ok g" and st = "recognizer_init t0" and g = "g\<lparr>active := True\<rparr>"]
    by (simp add: frame_step_shared_ok)
qed

text \<open>C3: no discrete gesture is emitted twice within the swipe cooldown: a frame processed
  less than \<open>swipe_cooldown\<close> after the last accepted thumbs or swipe gesture leaves
  \<open>detected\<close> empty or set by the open-palm branch, presses no key and keeps the gesture
  timer.\<close>

theorem frame_process_cooldown:
  assumes "t_loop inp - last_gesture_time st \<le> swipe_cooldown"
  shows "detected (fst (snd (frame_process screen inp st g))) \<in> {None, Some ''mouse_move'', Some ''volume_control''}
    \<and> last_gesture_time (fst (frame_process screen inp st g)) = last_gesture_time st
    \<and> (\<forall>k. Press k \<notin> set (snd (snd (frame_process screen inp st g))))"
proof -
  have q: "t_loop inp - last_gesture_time st \<le> gesture_cooldown"
    using assms by (simp add: gesture_consts)
  have "detected (fst (snd (process_hand screen inp st' (g\<lparr>detected := None\<rparr>) h)))
          \<in> {None, Some ''mouse_move'', Some ''volume_control''}
        \<and> last_gesture_time (fst (process_hand screen inp st' (g\<lparr>detected := None\<rparr>) h)) = last_gesture_time st'
        \<and> (\<forall>k. Press k \<notin> set (snd (snd (process_hand screen inp st' (g\<lparr>detected := None\<rparr>) h))))"
    if "last_gesture_time st' = last_gesture_time st" for st' h
  proof -
    let ?g = "g\<lparr>detected := None\<rparr>"
    let ?st2 = "st'\<lparr>swipe := snd (detect_swipe (swipe st') (t_swipe inp) h)\<rparr>"
    have s1: "thumbs_stage (t_loop inp) st' ?g h = (st', ?g)"
      using q that by (simp add: thumbs_stage_quiet)
    have s2: "swipe_stage (t_loop inp) (t_swipe inp) st' ?g h = (?st2, ?g, [])"
      using assms that by (simp add: swipe_stage_quiet)
    obtain sa sc where s3: "scroll_control (scroll ?st2) (t_scroll inp) h = (sa, sc)" by fastforce
    obtain m g3 a3 where s4: "palm_control screen (mouse ?st2) ?g h = (m, g3, a3)"
      by (metis prod.exhaust)
    from s4 palm_control_detected [of screen "mouse ?st2" ?g h]
    have "detected g3 \<in> {None, Some ''mouse_move'', Some ''volume_control''} \<and> (\<forall>k. Press k \<notin> set a3)"
      by simp
    then show ?thesis by (auto simp: process_hand_split [OF s1 s2 s3 s4] split: option.split)
  qed
  then show ?thesis by (simp add: frame_process_def Let_def split: option.split)
qed

text \<open>C5: a swipe cannot override a thumbs gesture of the same frame: when the thumbs stage
  fires it restarts \<open>last_gesture_time\<close>, which the swipe stage also tests, so the swipe
  stage keeps the thumbs label and presses no key. (The specification describes the two as
  last-writer-wins.)\<close>

theorem swipe_blocked_by_thumbs:
  assumes "t - last_gesture_time st > gesture_cooldown"
    and "detect_thumbs_gesture h = Some l"
    and "thumbs_stage t st g h = (st1, g1)"
  shows "detected (fst (snd (swipe_stage t ts st1 g1 h))) = Some l
    \<and> snd (snd (swipe_stage t ts st1 g1 h)) = []"
proof -
  from assms have "st1 = st\<lparr>last_gesture_time := t\<rparr>" and "g1 = g\<lparr>detected := Some l\<rparr>"
    by (simp_all add: thumbs_stage_fires)
  then have "t - last_gesture_time st1 \<le> swipe_cooldown" by (simp add: gesture_consts)
  then show ?thesis using \<open>g1 = _\<close> by (simp add: swipe_stage_quiet)
qed

text \<open>C6: along any run of the recognizer the scroll controller's state satisfies its
  invariant: the last valid angle is an angle in \<open>[0, 180]\<close>, the buffer is empty whenever
  no reference angle is held, and a held reference angle lies in \<open>[0, 25)\<close>.\<close>

theorem gesture_recognition_scroll_inv:
  "scroll_inv (scroll (fst (gesture_recognition screen t0 inps g)))"
  unfolding gesture_recognition_def
  by (rule recognizer_loop_scroll_inv) (rule recognizer_init_scroll_inv)

text \<open>C10: the bend angle computed on any frame after any run lies in \<open>[0, 180]\<close>
  degrees, degenerate finger segments included.\<close>

theorem index_angle_range_after_run:
  "0 \<le> fst (index_angle (last_valid_angle (scroll (fst (gesture_recognition screen t0 inps g)))) h)
   \<and> fst (index_angle (last_valid_angle (scroll (fst (gesture_recognition screen t0 inps g)))) h) \<le> 180"
proof -
  have "scroll_inv (scroll (fst (gesture_recognition screen t0 inps g)))"
    unfolding gesture_recognition_def
    by (intro recognizer_loop_scroll_inv recognizer_init_scroll_inv)
  then show ?thesis using index_angle_ok by (simp add: scroll_inv_def)
qed

text \<open>A failed camera read, or a frame less than \<open>frame_interval\<close> (25 ms) after the
  last processed one, changes nothing: no state, no shared field, no OS action.\<close>

theorem frame_step_skipped:
  assumes "\<not> frame_ok inp \<or> t_loop inp - prev_time st < frame_interval"
  shows "frame_step screen inp st g = (st, g, [], False)"
  using assms by (auto simp: frame_step_def)

text \<open>On a tick where \<open>int(current_time * 10)\<close> is odd the landmark detector's output
  is not used: the frame is processed on the previous \<open>results\<close>, whatever the detector
  would have returned.\<close>

theorem frame_process_odd_tick:
  assumes "py_int (t_loop inp * 10) mod 2 \<noteq> 0"
  shows "frame_process screen (inp\<lparr>detection := d\<rparr>) st g = frame_process screen inp st g
    \<and> results (fst (frame_process screen inp st g)) = results st"
  using assms by (simp add: frame_process_def Let_def process_hand_ignores_detection process_hand_results
    split: option.split)

text \<open>The quit key ends the loop: the frame on which it is seen is processed, \<open>active\<close>
  is cleared, and no later frame is processed.\<close>

theorem recognizer_loop_quit:
  assumes "active g" and "frame_ok inp" and "\<not> t_loop inp - prev_time st < frame_interval"
    and "key_q inp" and "frame_process screen inp st g = (st', g', acts)"
  shows "recognizer_loop screen (inp # inps) st g = (st', g'\<lparr>active := False\<rparr>, acts)
    \<and> \<not> active (g'\<lparr>active := False\<rparr>)"
  using assms by (simp add: frame_step_split)

text \<open>C4: a processed frame whose hand is no thumbs gesture and no open palm, with the
  wrist more than \<open>swipe_threshold\<close> right of the position \<open>detect_swipe\<close> recorded and
  both the swipe timer and the gesture timer past \<open>swipe_cooldown\<close>, reports exactly one
  right swipe: \<open>detected = "swipe_right"\<close>, the gesture timer restarts, and the only key
  press of the frame is the right arrow (besides any scroll of the same frame).\<close>

theorem swipe_frame_presses:
  assumes "py_int (t_loop inp * 10) mod 2 = 0" and "detection inp = Some h"
    and "detect_thumbs_gesture h = None" and "\<not> detect_open_palm h"
    and "last_hand_x (swipe st) = Some x0" and "lm_x (h WRIST) - x0 > swipe_threshold"
    and "t_swipe inp - last_swipe_time (swipe st) > swipe_cooldown"
    and "t_loop inp - last_gesture_time st > swipe_cooldown"
  shows "detected (fst (snd (frame_process screen inp st g))) = Some ''swipe_right''
    \<and> last_gesture_time (fst (frame_process screen inp st g)) = t_loop inp
    \<and> filter (\<lambda>a. a \<notin> range Scroll_wheel) (snd (snd (frame_process screen inp st g))) = [Press ''right'']"
proof -
  let ?st = "st\<lparr>prev_time := t_loop inp, results := Some h\<rparr>"
  let ?g = "g\<lparr>detected := None\<rparr>"
  let ?sw = "(swipe st)\<lparr>last_swipe_time := t_swipe inp\<rparr>"
  have d: "detect_swipe (swipe ?st) (t_swipe inp) h = (Some ''swipe_right'', ?sw)"
    using assms(5-7) by (simp add: detect_swipe_def Let_def)
  have s1: "thumbs_stage (t_loop inp) ?st ?g h = (?st, ?g)"
    using assms(3) by (simp add: thumbs_stage_def)
  have s2: "swipe_stage (t_loop inp) (t_swipe inp) ?st ?g h
      = (?st\<lparr>swipe := ?sw, last_gesture_time := t_loop inp\<rparr>, ?g\<lparr>detected := Some ''swipe_right''\<rparr>, [Press ''right''])"
    using assms(8) by (simp add: swipe_stage_split [OF d])
  obtain sa sc where s3: "scroll_control (scroll (?st\<lparr>swipe := ?sw, last_gesture_time := t_loop inp\<rparr>)) (t_scroll inp) h = (sa, sc)"
    by fastforce
  have s4: "palm_control screen (mouse (?st\<lparr>swipe := ?sw, last_gesture_time := t_loop inp\<rparr>))
        (?g\<lparr>detected := Some ''swipe_right''\<rparr>) h
      = ((mouse ?st)\<lparr>smooth_mouse := None\<rparr>, ?g\<lparr>detected := Some ''swipe_right''\<rparr>, [])"
    using assms(4) by (simp add: palm_control_def)
  have n: "filter (\<lambda>a. a \<notin> range Scroll_wheel) (case sa of None \<Rightarrow> [] | Some n \<Rightarrow> [Scroll_wheel n]) = []"
    by (simp split: option.split)
  have r: "Press ''right'' \<notin> range Scroll_wheel" by auto
  show ?thesis
    using n r by (simp add: frame_process_hand [OF assms(1,2)] process_hand_split [OF s1 s2 s3 s4])
qed

text \<open>C15: a hand can be a thumbs-up and an open palm at once (fingertips between the two
  detectors' thresholds). On any processed frame of such a hand, outside the gesture
  cooldown and with mouse control off, the thumbs stage fires and restarts the gesture
  timer, but the open-palm branch then overwrites \<open>detected\<close> with \<open>volume_control\<close>:
  the consumer never sees the thumbs-up, and the next one is blocked for 0.7 s.\<close>

theorem thumbs_lost_to_open_palm:
  assumes "py_int (t_loop inp * 10) mod 2 = 0" and "detection inp = Some h"
    and "detect_thumbs_gesture h = Some ''thumbs_up''" and "detect_open_palm h" and "\<not> mouse_control g"
    and "t_loop inp - last_gesture_time st > gesture_cooldown"
  shows "detected (fst (snd (frame_process screen inp st g))) = Some ''volume_control''
    \<and> last_gesture_time (fst (frame_process screen inp st g)) = t_loop inp
    \<and> (\<forall>k. Press k \<notin> set (snd (snd (frame_process screen inp st g))))"
proof -
  let ?st = "st\<lparr>prev_time := t_loop inp, results := Some h\<rparr>"
  let ?g = "g\<lparr>detected := None\<rparr>"
  let ?st1 = "?st\<lparr>last_gesture_time := t_loop inp\<rparr>"
  let ?g1 = "?g\<lparr>detected := Some ''thumbs_up''\<rparr>"
  let ?st2 = "?st1\<lparr>swipe := snd (detect_swipe (swipe ?st1) (t_swipe inp) h)\<rparr>"
  have s1: "thumbs_stage (t_loop inp) ?st ?g h = (?st1, ?g1)"
    using assms(3,6) by (simp add: thumbs_stage_fires)
  have s2: "swipe_stage (t_loop inp) (t_swipe inp) ?st1 ?g1 h = (?st2, ?g1, [])"
    by (simp add: swipe_stage_quiet gesture_consts)
  obtain sa sc where s3: "scroll_control (scroll ?st2) (t_scroll inp) h = (sa, sc)" by fastforce
  have s4: "palm_control screen (mouse ?st2) ?g1 h
      = (mouse ?st2, ?g1\<lparr>volume_level := palm_volume h, detected := Some ''volume_control''\<rparr>, [])"
    using assms(4,5) by (simp add: palm_control_def palm_volume_def Let_def)
  show ?thesis
    by (simp add: frame_process_hand [OF assms(1,2)] process_hand_split [OF s1 s2 s3 s4] scroll_actions_no_press)
qed

end
