(* ===== verification/Intents.thy ===== *)
theory Intents
  imports Prelude "HOL-Library.Sublist"
begin

text \<open>
  The voice side's routing tables and routing functions: the tables of \<^verbatim>\<open>src/config.py\<close>
  (\<open>SYSTEM_COMMANDS\<close>, \<open>APP_PATHS\<close>, \<open>SPECIAL_FOLDERS\<close>, \<open>WEB_URLS\<close>,
  \<open>CANDIDATE_INTENTS\<close>) as association lists in the source's order, the substring
  matching of \<^verbatim>\<open>JarvisAssistant.execute_command\<close> (\<^verbatim>\<open>src/app.py\<close> lines 131--136), and
  the routing of \<^verbatim>\<open>execute_specific_command\<close> (\<^verbatim>\<open>src/jarvis_commands.py\<close> lines 25--92)
  to the command it runs. The command implementations themselves are OS calls and are
  values of \<open>command_action\<close>. A call of a method that \<open>JarvisAssistant\<close> does not define
  is the error \<open>AttributeError\<close>.
\<close>

section \<open>Python strings\<close>

text \<open>\<open>needle in haystack\<close> on Python strings: a contiguous substring test.\<close>

fun str_in :: "string \<Rightarrow> string \<Rightarrow> bool" where
  "str_in needle [] = (needle = [])"
| "str_in needle (c # cs) = (prefix needle (c # cs) \<or> str_in needle cs)"

text \<open>\<open>s.split()[0]\<close> on the single-spaced intents it is applied to.\<close>

definition first_word :: "string \<Rightarrow> string" where
  "first_word s = takeWhile (\<lambda>c. c \<noteq> CHR '' '') s"

datatype py_error = AttributeError string | ValueError string

section \<open>Configuration tables (\<^verbatim>\<open>src/config.py\<close>)\<close>

definition SYSTEM_COMMANDS :: "(string \<times> string list) list" where
  "SYSTEM_COMMANDS =
    [(''shutdown'', [''shutdown'', ''/s'', ''/t'', ''10'']),
     (''restart'', [''shutdown'', ''/r'', ''/t'', ''10'']),
     (''sleep'', [''rundll32.exe'', ''powrprof.dll,SetSuspendState'', ''0,1,0'']),
     (''lock'', [''rundll32.exe'', ''user32.dll,LockWorkStation'']),
     (''logout'', [''shutdown'', ''/l'']),
     (''hibernate'', [''shutdown'', ''/h''])]"

definition APP_PATHS :: "(string \<times> string) list" where
  "APP_PATHS =
    [(''calculator'', ''calc.exe''),
     (''notepad'', ''notepad.exe''),
     (''command prompt'', ''cmd.exe''),
     (''task manager'', ''taskmgr.exe''),
     (''paint'', ''mspaint.exe''),
     (''word'', ''winword.exe''),
     (''excel'', ''excel.exe''),
     (''powerpoint'', ''powerpnt.exe''),
     (''outlook'', ''outlook.exe''),
     (''control panel'', ''control.exe''),
     (''file explorer'', ''explorer.exe''),
     (''photos'', ''ms-photos:''),
     (''camera'', ''microsoft.windows.camera:''),
     (''calendar'', ''outlookcal:'')]"

text \<open>\<open>SPECIAL_FOLDERS\<close> maps each name to a folder under \<open>%USERPROFILE%\<close>; the value here
  is the folder's name below it (the environment lookup is not modelled).\<close>

definition SPECIAL_FOLDERS :: "(string \<times> string) list" where
  "SPECIAL_FOLDERS =
    [(''documents'', ''Documents''),
     (''downloads'', ''Downloads''),
     (''pictures'', ''Pictures''),
     (''music'', ''Music''),
     (''videos'', ''Videos''),
     (''desktop'', ''Desktop'')]"

definition WEB_URLS :: "(string \<times> string) list" where
  "WEB_URLS =
    [(''youtube'', ''https://www.youtube.com''),
     (''google'', ''https://www.google.com''),
     (''gmail'', ''https://mail.google.com''),
     (''facebook'', ''https://www.facebook.com''),
     (''twitter'', ''https://twitter.com''),
     (''instagram'', ''https://www.instagram.com''),
     (''whatsapp'', ''https://web.whatsapp.com''),
     (''linkedin'', ''https://www.linkedin.com''),
     (''wikipedia'', ''https://www.wikipedia.org''),
     (''amazon'', ''https://www.amazon.com''),
     (''netflix'', ''https://www.netflix.com''),
     (''spotify'', ''https://www.spotify.com''),
     (''github'', ''https://www.github.com''),
     (''stackoverflow'', ''https://stackoverflow.com'')]"

definition CANDIDATE_INTENTS :: "string list" where
  "CANDIDATE_INTENTS =
    [''shutdown'', ''restart'', ''sleep'', ''lock'', ''logout'',
     ''hibernate'', ''system info'', ''battery status'', ''disk usage'', ''system diagnostics'',
     ''open calculator'', ''open notepad'', ''open command prompt'', ''open task manager'', ''open paint'',
     ''open word'', ''open excel'', ''open powerpoint'', ''open outlook'', ''open settings'',
     ''open control panel'', ''open file explorer'', ''open photos'', ''open camera'', ''open calendar'',
     ''open mail'', ''open documents'', ''open downloads'', ''open pictures'', ''open music'',
     ''open videos'', ''open desktop'', ''open youtube'', ''open google'', ''open gmail'',
     ''open facebook'', ''open twitter'', ''open instagram'', ''open whatsapp'', ''open linkedin'',
     ''open wikipedia'', ''open amazon'', ''open netflix'', ''open spotify'', ''open github'',
     ''open stackoverflow'', ''search web'', ''search youtube'', ''play music'', ''pause music'',
     ''next track'', ''previous track'', ''increase volume'', ''decrease volume'', ''mute volume'',
     ''unmute volume'', ''set volume to'', ''take screenshot'', ''record screen'', ''start recording'',
     ''stop recording'', ''list files'', ''create folder'', ''delete file'', ''copy file'',
     ''move file'', ''rename file'', ''open file'', ''show file info'', ''current time'',
     ''current date'', ''set alarm'', ''set timer'', ''check calendar'', ''create reminder'',
     ''check weather'', ''check news'', ''create note'', ''tell joke'', ''ip address'',
     ''what can you do'', ''help'', ''thank you'', ''who are you'', ''who made you'',
     ''how are you'', ''enable gestures'', ''disable gestures'', ''gesture help'']"

text \<open>\<open>CANDIDATE_INTENTS\<close> of the standalone \<^verbatim>\<open>src/commands.py\<close> (lines 23--30) as Python
  evaluates the literal: the adjacent literals \<open>"take screenshot" "increase volume"\<close>
  (no comma between them) are one string.\<close>

definition CANDIDATE_INTENTS_commands :: "string list" where
  "CANDIDATE_INTENTS_commands =
    [''open browser'', ''search web'', ''play music'', ''monitor system'',
     ''control brightness'', ''restart wifi'', ''shutdown'', ''open file'',
     ''copy file'', ''move file'', ''extract text'', ''write in word'',
     ''exit'', ''maximize window'', ''minimize window'', ''open calculator'',
     ''open settings'', ''take screenshotincrease volume'', ''decrease volume'', ''mute volume'',
     ''unmute volume'']"

section \<open>Intent matching and routing\<close>

text \<open>\<open>for possible_intent in CANDIDATE_INTENTS: if possible_intent in command: ... break\<close>:
  the first candidate contained in the command.\<close>

definition match_intent :: "string \<Rightarrow> string option" where
  "match_intent command = find (\<lambda>possible_intent. str_in possible_intent command) CANDIDATE_INTENTS"

datatype command_action =
    System_info | Battery_status
  | Open_application string | Open_special_folder string | Open_website string
  | Media_control string | Adjust_volume string | Take_screenshot
  | Start_recording | Stop_recording | List_files | Create_folder | Delete_file
  | Current_time | Current_date | Set_timer | Tell_joke | Ip_address
  | Show_capabilities | Show_help | Toggle_gestures bool | Speak_text string

text \<open>\<^verbatim>\<open>execute_specific_command(assistant, intent, command)\<close>: the \<open>if\<close>/\<open>elif\<close> chain in
  the source's order. Its first branch calls \<open>assistant.control_system(intent)\<close>, a method
  \<open>JarvisAssistant\<close> does not have (the function of that name is a module function of
  \<^verbatim>\<open>jarvis_commands\<close> taking the assistant as an argument), so it raises.\<close>

definition execute_specific_command :: "string \<Rightarrow> py_error + command_action" where
  "execute_specific_command intent =
     (let rest = drop 5 intent; is_open = prefix ''open '' intent in
      if map_of SYSTEM_COMMANDS intent \<noteq> None then Inl (AttributeError ''control_system'')
      else if intent = ''system info'' then Inr System_info
      else if intent = ''battery status'' then Inr Battery_status
      else if is_open \<and> map_of APP_PATHS rest \<noteq> None then Inr (Open_application rest)
      else if is_open \<and> map_of SPECIAL_FOLDERS rest \<noteq> None then Inr (Open_special_folder rest)
      else if is_open \<and> map_of WEB_URLS rest \<noteq> None then Inr (Open_website rest)
      else if intent \<in> set [''play music'', ''pause music'', ''next track'', ''previous track'']
        then Inr (Media_control (first_word intent))
      else if intent \<in> set [''increase volume'', ''decrease volume'', ''mute volume'', ''unmute volume'']
        then Inr (Adjust_volume (first_word intent))
      else if intent = ''take screenshot'' then Inr Take_screenshot
      else if intent \<in> set [''start recording'', ''record screen''] then Inr Start_recording
      else if intent \<in> set [''stop recording''] then Inr Stop_recording
      else if intent = ''list files'' then Inr List_files
      else if intent = ''create folder'' then Inr Create_folder
      else if intent = ''delete file'' then Inr Delete_file
      else if intent = ''current time'' then Inr Current_time
      else if intent = ''current date'' then Inr Current_date
      else if intent = ''set timer'' then Inr Set_timer
      else if intent = ''tell joke'' then Inr Tell_joke
      else if intent = ''ip address'' then Inr Ip_address
      else if intent = ''what can you do'' then Inr Show_capabilities
      else if intent = ''help'' then Inr Show_help
      else if intent = ''enable gestures'' then Inr (Toggle_gestures True)
      else if intent = ''disable gestures'' then Inr (Toggle_gestures False)
      else if intent = ''gesture help''
        then Inr (Speak_text ''Supported gestures: thumbs up/down, volume up/down, brightness up/down'')
      else Inr (Speak_text ''I understood the command but haven't implemented that yet''))"

section \<open>The standalone command module (\<^verbatim>\<open>src/commands.py\<close>)\<close>

text \<open>The keys of \<open>INTENT_FUNCTIONS\<close> (lines 69--86) with the function each runs.\<close>

definition INTENT_FUNCTIONS :: "(string \<times> string) list" where
  "INTENT_FUNCTIONS =
    [(''open browser'', ''open_browser''), (''search web'', ''search_web''),
     (''play music'', ''play_music''), (''monitor system'', ''monitor_system''),
     (''control brightness'', ''control_brightness''), (''restart wifi'', ''restart_wifi''),
     (''shutdown'', ''control_system''), (''maximize window'', ''maximize_window''),
     (''minimize window'', ''minimize_window''), (''open calculator'', ''open_calculator''),
     (''open settings'', ''open_settings''), (''take screenshot'', ''take_screenshot''),
     (''increase volume'', ''increase_volume''), (''decrease volume'', ''decrease_volume''),
     (''mute volume'', ''mute_volume''), (''unmute volume'', ''unmute_volume'')]"

datatype commands_outcome = Run_function string | Say string

text \<open>\<^verbatim>\<open>execute_command(command)\<close> of \<^verbatim>\<open>src/commands.py\<close> (lines 60--91). The zero-shot
  classifier is the parameter \<open>classify\<close>, returning the best label and its score.\<close>

definition commands_execute :: "(string \<Rightarrow> string \<times> real) \<Rightarrow> string \<Rightarrow> commands_outcome" where
  "commands_execute classify command =
     (let (intent, score) = classify command
      in if score < 0.3 then Say ''I'm not sure what you mean.''
         else case map_of INTENT_FUNCTIONS intent of
                Some f \<Rightarrow> Run_function f
              | None \<Rightarrow> Say ''Command not supported.'')"

section \<open>Lemmas\<close>

lemma str_in_sublist: "str_in needle hay = sublist needle hay"
  by (induction needle hay rule: str_in.induct) (auto simp: sublist_Cons_right)

lemma find_shadowed:
  assumes "P b \<Longrightarrow> P a" and "a \<noteq> b"
  shows "find P (us @ a # vs) \<noteq> Some b \<or> b \<in> set us"
  using assms by (induction us) (auto simp: find_Some_iff)

lemma str_in_mono: "str_in a b \<Longrightarrow> str_in b c \<Longrightarrow> str_in a c"
  using sublist_order.order_trans by (simp add: str_in_sublist)

lemma find_first_shadow:
  assumes "xs = us @ a # vs" and "b \<notin> set us" and "a \<noteq> b" and "str_in a b"
  shows "find (\<lambda>i. str_in i c) xs \<noteq> Some b"
  using find_shadowed [of "\<lambda>i. str_in i c" b a us vs] assms str_in_mono [of a b c] by auto

section \<open>Properties of intent matching and routing\<close>

text \<open>C21: the intents \<open>unmute volume\<close> and \<open>gesture help\<close> can never be matched: the
  earlier candidates \<open>mute volume\<close> and \<open>help\<close> are substrings of them, so every command
  that contains them is routed to the earlier one.\<close>

theorem shadowed_intents_unreachable:
  "match_intent command \<noteq> Some ''unmute volume'' \<and> match_intent command \<noteq> Some ''gesture help''"
proof -
  have "find (\<lambda>i. str_in i command) CANDIDATE_INTENTS \<noteq> Some ''unmute volume''"
    by (rule find_first_shadow [where us = "take 54 CANDIDATE_INTENTS" and vs = "drop 55 CANDIDATE_INTENTS"
        and a = "''mute volume''"]) (simp_all add: CANDIDATE_INTENTS_def)
  moreover have "find (\<lambda>i. str_in i command) CANDIDATE_INTENTS \<noteq> Some ''gesture help''"
    by (rule find_first_shadow [where us = "take 81 CANDIDATE_INTENTS" and vs = "drop 82 CANDIDATE_INTENTS"
        and a = "''help''"]) (simp_all add: CANDIDATE_INTENTS_def)
  ultimately show ?thesis by (simp add: match_intent_def)
qed

text \<open>C23: every system intent (\<open>shutdown\<close>, \<open>restart\<close>, \<open>sleep\<close>, \<open>lock\<close>,
  \<open>logout\<close>, \<open>hibernate\<close>) ends in an \<open>AttributeError\<close>: the dispatcher calls
  \<open>assistant.control_system\<close>, which the assistant does not have, so the voice/thumbs-up
  confirmation of \<^verbatim>\<open>control_system\<close> is never reached.\<close>

theorem system_intents_raise:
  assumes "map_of SYSTEM_COMMANDS intent \<noteq> None"
  shows "execute_specific_command intent = Inl (AttributeError ''control_system'')"
  using assms by (simp add: execute_specific_command_def)

text \<open>C32: in \<^verbatim>\<open>src/commands.py\<close> the handlers of \<open>take screenshot\<close> and \<open>increase volume\<close>
  never run: a missing comma fuses the two candidate labels into one, so a classifier that
  answers with one of its candidate labels never returns either key.\<close>

theorem commands_fused_intents_unreachable:
  assumes "\<And>c. fst (classify c) \<in> set CANDIDATE_INTENTS_commands"
  shows "commands_execute classify command \<noteq> Run_function ''take_screenshot''
    \<and> commands_execute classify command \<noteq> Run_function ''increase_volume''"
proof -
  obtain intent score where c: "classify command = (intent, score)" by fastforce
  with assms [of command] have "intent \<in> set CANDIDATE_INTENTS_commands" by simp
  then have "map_of INTENT_FUNCTIONS intent \<noteq> Some ''take_screenshot'' \<and>
             map_of INTENT_FUNCTIONS intent \<noteq> Some ''increase_volume''"
    by (auto simp: CANDIDATE_INTENTS_commands_def INTENT_FUNCTIONS_def)
  with c show ?thesis by (auto simp: commands_execute_def split: option.split)
qed

end
