(* ===== verification/Consumer.thy ===== *)
theory Consumer
  imports Shared_State Intents
begin

text \<open>
  The command thread of \<^verbatim>\<open>src/app.py\<close> (\<^verbatim>\<open>JarvisAssistant\<close>): \<^verbatim>\<open>handle_gestures\<close>
  (lines 78--104), \<^verbatim>\<open>toggle_gestures\<close> (106--110), \<^verbatim>\<open>execute_command\<close> (112--151) and
  the main loop \<^verbatim>\<open>run\<close> (153--178). The shared dictionary is passed in and returned; what
  the assistant says, prints and runs is a list of \<open>consumer_effect\<close>s. An exception that
  a \<open>try\<close> catches becomes a printed message; one that escapes is the \<open>Inl\<close> of the
  result. Speech recognition (\<^verbatim>\<open>listen\<close>) is the list of its results, the transformer
  classifier a parameter; the diagnostic print of the detected intent is not modelled.
\<close>

datatype consumer_effect = Speak string | Print_error string | Run command_action

definition error_text :: "py_error \<Rightarrow> string" where
  "error_text e = (case e of AttributeError a \<Rightarrow> ''AttributeError: '' @ a | ValueError v \<Rightarrow> ''ValueError: '' @ v)"

text \<open>The \<open>if\<close>/\<open>elif\<close> chain of \<^verbatim>\<open>handle_gestures\<close>. \<open>self.adjust_volume\<close> and
  \<open>self.adjust_brightness\<close> are not attributes of \<open>JarvisAssistant\<close>: those branches raise.\<close>

definition gesture_handler :: "string \<Rightarrow> py_error + consumer_effect list" where
  "gesture_handler gesture =
     (if gesture = ''volume_up'' then Inl (AttributeError ''adjust_volume'')
      else if gesture = ''volume_down'' then Inl (AttributeError ''adjust_volume'')
      else if gesture = ''thumbs_up'' then Inr [Speak ''Gesture confirmed!'']
      else if gesture = ''thumbs_down'' then Inr [Speak ''Gesture rejected!'']
      else if gesture = ''brightness_up'' then Inl (AttributeError ''adjust_brightness'')
      else if gesture = ''brightness_down'' then Inl (AttributeError ''adjust_brightness'')
      else Inr [])"

text \<open>\<^verbatim>\<open>handle_gestures\<close>: nothing unless the session is active and a non-empty label is
  present; the label is cleared only after its branch ran without an exception.\<close>

definition handle_gestures :: "gesture_state \<Rightarrow> gesture_state \<times> consumer_effect list" where
  "handle_gestures g =
     (if \<not> active g then (g, [])
      else case detected g of
             None \<Rightarrow> (g, [])
           | Some gesture \<Rightarrow>
               if gesture = [] then (g, [])
               else case gesture_handler gesture of
                      Inl e \<Rightarrow> (g, [Print_error (''Gesture handling error: '' @ error_text e)])
                    | Inr effects \<Rightarrow> (g\<lparr>detected := None\<rparr>, effects))"

definition toggle_gestures :: "gesture_state \<Rightarrow> bool \<Rightarrow> gesture_state \<times> consumer_effect list" where
  "toggle_gestures g enable =
     (g\<lparr>active := enable\<rparr>,
      [Speak (''Gesture control '' @ (if enable then ''enabled'' else ''disabled''))])"

text \<open>\<open>int(''.join(filter(str.isdigit, command))) / 100\<close>: \<open>ValueError\<close> when the command
  has no digit (ASCII digits are modelled).\<close>

definition is_digit :: "char \<Rightarrow> bool" where
  "is_digit c = ((48::nat) \<le> of_char c \<and> of_char c \<le> (57::nat))"

definition digits_value :: "string \<Rightarrow> nat" where
  "digits_value ds = foldl (\<lambda>n c. 10 * n + (of_char c - 48)) 0 ds"

definition set_volume_level :: "string \<Rightarrow> py_error + real" where
  "set_volume_level command =
     (let digits = filter is_digit command
      in if digits = [] then Inl (ValueError ''invalid literal for int()'')
         else Inr (real (digits_value digits) / 100))"

text \<open>\<open>self.adjust_volume(level=level)\<close>: not an attribute of \<open>JarvisAssistant\<close>.\<close>

definition assistant_adjust_volume :: "real \<Rightarrow> py_error + consumer_effect list" where
  "assistant_adjust_volume level = Inl (AttributeError ''adjust_volume'')"

text \<open>Running a routed command: the gesture toggles change the shared state; every other
  action is run.\<close>

definition perform_action :: "gesture_state \<Rightarrow> command_action \<Rightarrow> gesture_state \<times> consumer_effect list" where
  "perform_action g act =
     (case act of
        Toggle_gestures enable \<Rightarrow> toggle_gestures g enable
      | Speak_text t \<Rightarrow> (g, [Speak t])
      | _ \<Rightarrow> (g, [Run act]))"

type_synonym classifier = "(string \<Rightarrow> py_error + (string \<times> real)) option"

text \<open>\<^verbatim>\<open>execute_command(command)\<close>: gestures first, the volume special case (whose every
  outcome is an exception caught by the bare \<open>except\<close>), substring matching, then the
  classifier, then dispatch when the confidence exceeds 0.5. An exception of
  \<^verbatim>\<open>execute_specific_command\<close> is not caught here: it is the third component, and the
  shared state and effects up to that point are kept, as the dictionary is mutated in place.\<close>

definition execute_command ::
  "classifier \<Rightarrow> gesture_state \<Rightarrow> string \<Rightarrow> gesture_state \<times> consumer_effect list \<times> py_error option" where
  "execute_command classify g command =
     (if command = [] then (g, [], None)
      else
        (let (g, e1) = handle_gestures g
         in if str_in ''set volume to'' command then
              (let r = (case set_volume_level command of
                          Inl e \<Rightarrow> Inl e
                        | Inr level \<Rightarrow> assistant_adjust_volume level)
               in case r of
                    Inl _ \<Rightarrow> (g, e1 @ [Speak ''Please specify a volume level between 0 and 100''], None)
                  | Inr e2 \<Rightarrow> (g, e1 @ e2, None))
            else
              (let (intent, confidence, e2) =
                     (case match_intent command of
                        Some i \<Rightarrow> (Some i, 1, [])
                      | None \<Rightarrow>
                          (case classify of
                             None \<Rightarrow> (None, 0, [])
                           | Some cl \<Rightarrow>
                               (case cl command of
                                  Inl e \<Rightarrow> (None, 0, [Print_error (''Classification error: '' @ error_text e)])
                                | Inr (label, score) \<Rightarrow> (Some label, score, []))))
               in if confidence > (0.5::real) then
                    (case intent of
                       None \<Rightarrow> (g, e1 @ e2, None)
                     | Some i \<Rightarrow>
                         (case execute_specific_command i of
                            Inl e \<Rightarrow> (g, e1 @ e2, Some e)
                          | Inr act \<Rightarrow> (let (g', e3) = perform_action g act in (g', e1 @ e2 @ e3, None))))
                  else (g, e1 @ e2 @ [Speak ''I didn't understand.''], None))))"

datatype run_end = Exited | Crashed py_error | Listening

text \<open>\<^verbatim>\<open>run()\<close>: one element per \<^verbatim>\<open>listen()\<close> result (\<open>None\<close> for a timeout or an
  unrecognised utterance). The loop ends on \<open>exit\<close>/\<open>quit\<close>; an exception other than
  \<open>KeyboardInterrupt\<close> escapes it. The \<open>finally\<close> clause clears \<open>active\<close> and says
  goodbye on both exits.\<close>

fun run_loop ::
  "classifier \<Rightarrow> gesture_state \<Rightarrow> string option list \<Rightarrow> gesture_state \<times> consumer_effect list \<times> run_end" where
  "run_loop classify g [] = (g, [], Listening)"
| "run_loop classify g (None # heard) = run_loop classify g heard"
| "run_loop classify g (Some command # heard) =
     (if command = [] then run_loop classify g heard
      else if str_in ''exit'' command \<or> str_in ''quit'' command then
        (g\<lparr>active := False\<rparr>, [Speak ''Goodbye!''], Exited)
      else
        (case execute_command classify g command of
           (g', effects, Some e) \<Rightarrow> (g'\<lparr>active := False\<rparr>, effects @ [Speak ''Goodbye!''], Crashed e)
         | (g', effects, None) \<Rightarrow>
             (let (g'', effects', r) = run_loop classify g' heard in (g'', effects @ effects', r))))"

definition assistant_run ::
  "classifier \<Rightarrow> gesture_state \<Rightarrow> string option list \<Rightarrow> gesture_state \<times> consumer_effect list \<times> run_end" where
  "assistant_run classify g heard =
     (let (g', effects, r) = run_loop classify g heard
      in (g', Speak ''Jarvis assistant activated. How can I help you today?'' # effects, r))"

text \<open>\<^verbatim>\<open>control_system(assistant, action)\<close> of \<^verbatim>\<open>src/jarvis_commands.py\<close> (lines
  95--117), the confirmation the dispatcher means to reach. Each iteration of its
  \<open>while time.time() - start_time < 3 and assistant.running\<close> loop is observed as a
  \<open>confirm_poll\<close>: the clock and \<open>running\<close> at the loop test, the answer of
  \<open>assistant.listen(timeout=1)\<close>, and the value of \<open>gesture_state["detected"]\<close> it reads.
  \<open>subprocess.run(SYSTEM_COMMANDS[action])\<close> is \<open>System_run\<close>; leaving the loop is
  \<open>System_cancelled\<close> (the assistant says so). The loop is run over a finite list of
  polls: \<open>None\<close> means the list ended while the loop was still waiting.\<close>

record confirm_poll =
  poll_time :: timestamp
  poll_running :: bool
  poll_heard :: "string option"
  poll_detected :: "string option"

datatype control_outcome = Not_system_action | System_run "string list" | System_cancelled
  | System_failed string

fun confirm_loop :: "string list \<Rightarrow> timestamp \<Rightarrow> confirm_poll list \<Rightarrow> control_outcome option" where
  "confirm_loop cmd start_time [] = None"
| "confirm_loop cmd start_time (p # polls) =
     (if \<not> (poll_time p - start_time < 3 \<and> poll_running p) then Some System_cancelled
      else if (case poll_heard p of None \<Rightarrow> False | Some c \<Rightarrow> c \<noteq> [] \<and> str_in ''confirm'' c)
        then Some (System_run cmd)
      else if poll_detected p = Some ''thumbs_up'' then Some (System_run cmd)
      else confirm_loop cmd start_time polls)"

definition control_system :: "string \<Rightarrow> timestamp \<Rightarrow> confirm_poll list \<Rightarrow> control_outcome option" where
  "control_system action start_time polls =
     (case map_of SYSTEM_COMMANDS action of
        None \<Rightarrow> Some Not_system_action
      | Some cmd \<Rightarrow> confirm_loop cmd start_time polls)"

text \<open>The whole call, with what it says and prints: the prompt of line 99, the
  \<open>subprocess.run\<close> that starts the command (given by \<open>launch\<close>: \<open>None\<close> when the process
  starts, \<open>Some e\<close> when it raises, e.g. \<open>FileNotFoundError\<close> for a program the host does
  not have), the cancellation message of line 114, and the \<open>except\<close> handler of lines
  116--118, which catches the failed launch. \<open>assistant.listen\<close> catches its own errors and
  the other reads cannot raise, so the launch is the one statement that reaches the
  handler.\<close>

definition control_system_call ::
  "(string list \<Rightarrow> string option) \<Rightarrow> string \<Rightarrow> timestamp \<Rightarrow> confirm_poll list
     \<Rightarrow> control_outcome option \<times> consumer_effect list" where
  "control_system_call launch action start_time polls =
     (case map_of SYSTEM_COMMANDS action of
        None \<Rightarrow> (Some Not_system_action, [])
      | Some cmd \<Rightarrow>
          (let ask = [Speak (''Please confirm '' @ action @ '' with voice or thumbs up gesture'')]
           in case control_system action start_time polls of
                None \<Rightarrow> (None, ask)
              | Some (System_run c) \<Rightarrow>
                  (case launch c of
                     None \<Rightarrow> (Some (System_run c), ask)
                   | Some e \<Rightarrow> (Some (System_failed e),
                               ask @ [Print_error (''System control error: '' @ e),
                                      Speak (''Sorry, I couldn't '' @ action @ '' the system'')]))
              | Some System_cancelled \<Rightarrow> (Some System_cancelled, ask @ [Speak (action @ '' cancelled'')])
              | Some r \<Rightarrow> (Some r, ask)))"

text \<open>The two tests of the loop body that run the command.\<close>

definition poll_confirms :: "confirm_poll \<Rightarrow> bool" where
  "poll_confirms p =
     ((case poll_heard p of None \<Rightarrow> False | Some c \<Rightarrow> c \<noteq> [] \<and> str_in ''confirm'' c) \<or>
      poll_detected p = Some ''thumbs_up'')"

section \<open>Lemmas\<close>

lemma gesture_handler_label:
  "l \<in> recognizer_labels \<Longrightarrow>
   gesture_handler l = Inr (if l = ''thumbs_up'' then [Speak ''Gesture confirmed!'']
                            else if l = ''thumbs_down'' then [Speak ''Gesture rejected!''] else [])"
  by (auto simp: recognizer_labels_def gesture_handler_def)

lemma handle_gestures_shared_ok: "shared_ok g \<Longrightarrow> shared_ok (fst (handle_gestures g))"
  by (auto simp: handle_gestures_def shared_ok_def split: option.split sum.split)

lemma perform_action_shared_ok: "shared_ok g \<Longrightarrow> shared_ok (fst (perform_action g act))"
  by (simp add: perform_action_def toggle_gestures_def shared_ok_def split: command_action.split)

text \<open>A property of the shared dictionary that \<open>handle_gestures\<close> and every routed action
  keep is kept by \<open>execute_command\<close>, whatever the command and the classifier.\<close>

lemma execute_command_preserves:
  assumes g: "P g"
    and h: "\<And>g. P g \<Longrightarrow> P (fst (handle_gestures g))"
    and a: "\<And>g act. P g \<Longrightarrow> P (fst (perform_action g act))"
  shows "P (fst (execute_command classify g command))"
proof -
  obtain g1 e1 where h1: "handle_gestures g = (g1, e1)" by fastforce
  with g h [of g] have ok1: "P g1" by simp
  have ok2: "P (fst (perform_action g1 act))" for act by (rule a [OF ok1])
  show ?thesis
    unfolding execute_command_def Let_def h1
    using g ok1 ok2
    by (auto split: prod.split option.split sum.split if_split) (metis fst_conv ok2)+
qed

lemma execute_command_shared_ok:
  "shared_ok g \<Longrightarrow> shared_ok (fst (execute_command classify g command))"
  by (rule execute_command_preserves) (simp_all add: handle_gestures_shared_ok perform_action_shared_ok)

lemma execute_command_detected:
  "detected (fst (execute_command classify g command)) \<in> {None, detected g}"
proof -
  have "detected (fst (execute_command classify g command)) \<in> {None, d}"
    if "detected g \<in> {None, d}" for d
    by (rule execute_command_preserves [where P = "\<lambda>g. detected g \<in> {None, d}", OF that])
       (auto simp: handle_gestures_def perform_action_def toggle_gestures_def
             split: option.split sum.split command_action.split)
  then show ?thesis by simp
qed

lemma match_intent_toggle:
  "match_intent ''disable gestures'' = Some ''disable gestures'' \<and>
   match_intent ''enable gestures'' = Some ''enable gestures''"
  by (simp add: match_intent_def CANDIDATE_INTENTS_def)

lemma execute_specific_command_toggle:
  "execute_specific_command ''disable gestures'' = Inr (Toggle_gestures False) \<and>
   execute_specific_command ''enable gestures'' = Inr (Toggle_gestures True)"
  by (simp add: execute_specific_command_def SYSTEM_COMMANDS_def)

lemma confirm_loop_append_stop:
  "\<not> (poll_time p - start_time < 3 \<and> poll_running p) \<or> poll_confirms p \<Longrightarrow>
   confirm_loop cmd start_time (ps @ p # qs) \<noteq> None"
  by (induction ps) (auto simp: poll_confirms_def split: option.splits)

lemma confirm_loop_outcome:
  "confirm_loop cmd start_time polls \<in> {None, Some System_cancelled, Some (System_run cmd)}"
  by (induction polls) auto

text \<open>What \<open>control_system\<close> says for each way its loop ends: it asks for confirmation
  first; a cancelled loop says so; a command that started says nothing more; a launch that
  raises is printed and apologised for, and the outcome is the failure.\<close>

lemma control_system_call_effects:
  assumes "map_of SYSTEM_COMMANDS action = Some cmd"
  shows "control_system_call launch action start_time polls =
     (let ask = [Speak (''Please confirm '' @ action @ '' with voice or thumbs up gesture'')]
      in case confirm_loop cmd start_time polls of
           None \<Rightarrow> (None, ask)
         | Some System_cancelled \<Rightarrow> (Some System_cancelled, ask @ [Speak (action @ '' cancelled'')])
         | Some _ \<Rightarrow>
             (case launch cmd of
                None \<Rightarrow> (Some (System_run cmd), ask)
              | Some e \<Rightarrow> (Some (System_failed e),
                          ask @ [Print_error (''System control error: '' @ e),
                                 Speak (''Sorry, I couldn't '' @ action @ '' the system'')])))"
  using confirm_loop_outcome [of cmd start_time polls] assms
  by (auto simp: control_system_call_def control_system_def Let_def)

section \<open>Properties of the command thread\<close>

text \<open>C17: a gesture the recognizer reports while control is active is consumed by the next
  command: \<open>detected\<close> is cleared, the thumbs gestures are acknowledged aloud, and every
  other recognizer label (swipes, mouse and volume control) is dropped silently, because
  the handler's volume and brightness labels are never produced by the recognizer.\<close>

theorem handle_gestures_consumes:
  assumes "shared_ok g" and "active g" and "detected g = Some l"
  shows "handle_gestures g =
           (g\<lparr>detected := None\<rparr>,
            if l = ''thumbs_up'' then [Speak ''Gesture confirmed!'']
            else if l = ''thumbs_down'' then [Speak ''Gesture rejected!''] else [])"
proof -
  from assms(1,3) have l: "l \<in> recognizer_labels" by (simp add: shared_ok_def)
  then have "l \<noteq> []" by (auto simp: recognizer_labels_def)
  with assms(2,3) gesture_handler_label [OF l] show ?thesis
    by (simp add: handle_gestures_def)
qed

text \<open>C25: a command containing \<open>set volume to\<close> never changes the volume: whatever
  digits it holds, the assistant asks for a level between 0 and 100 (no digit raises
  \<open>ValueError\<close>, a level calls the missing \<open>adjust_volume\<close> method, and the bare
  \<open>except\<close> turns both into the same answer).\<close>

theorem volume_set_never_applied:
  assumes "str_in ''set volume to'' command"
  shows "execute_command classify g command =
           (fst (handle_gestures g),
            snd (handle_gestures g) @ [Speak ''Please specify a volume level between 0 and 100''], None)"
proof -
  from assms have "command \<noteq> []" by auto
  with assms show ?thesis
    by (simp add: execute_command_def assistant_adjust_volume_def split: prod.split sum.split)
qed

text \<open>C24: a command whose first matching intent is a system intent ends the assistant:
  the \<open>AttributeError\<close> of \<open>execute_specific_command\<close> escapes \<open>run\<close>, whose \<open>finally\<close>
  clears \<open>active\<close> and says goodbye; the gesture handled before it keeps its effect.\<close>

theorem system_intent_ends_run:
  assumes "match_intent command = Some i" and "map_of SYSTEM_COMMANDS i \<noteq> None"
    and "\<not> str_in ''set volume to'' command"
    and "\<not> str_in ''exit'' command" and "\<not> str_in ''quit'' command" and "command \<noteq> []"
  shows "run_loop classify g (Some command # heard) =
           ((fst (handle_gestures g))\<lparr>active := False\<rparr>, snd (handle_gestures g) @ [Speak ''Goodbye!''],
            Crashed (AttributeError ''control_system''))"
  using assms by (simp add: execute_command_def execute_specific_command_def split: prod.split)

text \<open>The voice command \<open>disable gestures\<close> clears \<open>active\<close> after handling a
  pending gesture, and announces it.\<close>

theorem disable_gestures_command:
  "execute_command classify g ''disable gestures'' =
     ((fst (handle_gestures g))\<lparr>active := False\<rparr>,
      snd (handle_gestures g) @ [Speak ''Gesture control disabled''], None)"
  by (simp add: execute_command_def match_intent_toggle execute_specific_command_toggle
      perform_action_def toggle_gestures_def split: prod.split)

text \<open>C31: the confirmation loop of \<open>control_system\<close> ends once its clock has passed the
  three-second window: on any sequence of polls one of which is taken at or after
  \<open>start_time + 3\<close>, it returns an outcome (the command ran, or it was cancelled).\<close>

theorem control_system_terminates:
  assumes "\<exists>p \<in> set polls. \<not> poll_time p - start_time < 3"
  shows "control_system action start_time polls \<noteq> None"
proof (cases "map_of SYSTEM_COMMANDS action")
  case None
  then show ?thesis by (simp add: control_system_def)
next
  case (Some cmd)
  from assms obtain ps p qs where "polls = ps @ p # qs" and "\<not> poll_time p - start_time < 3"
    by (metis split_list)
  with Some show ?thesis by (simp add: control_system_def confirm_loop_append_stop)
qed

text \<open>The first poll inside the window that hears \<open>confirm\<close> or reads a thumbs-up
  runs the system command; polls before it that confirm nothing change nothing.\<close>

theorem control_system_first_confirmation:
  assumes "map_of SYSTEM_COMMANDS action = Some cmd"
    and "\<forall>q \<in> set ps. poll_time q - start_time < 3 \<and> poll_running q \<and> \<not> poll_confirms q"
    and "poll_time p - start_time < 3" and "poll_running p"
  shows "control_system action start_time (ps @ p # qs) =
           (if poll_confirms p then Some (System_run cmd) else confirm_loop cmd start_time qs)"
  using assms(2-4) unfolding control_system_def assms(1) option.case
  by (induction ps) (auto simp: poll_confirms_def split: option.splits)

end
