(* ===== verification/System.thy ===== *)
theory System
  imports Recognizer Consumer
begin

text \<open>
  The whole assistant as two threads sharing one dictionary: \<^verbatim>\<open>JarvisAssistant.__init__\<close>
  (\<^verbatim>\<open>src/app.py\<close> lines 15--21) copies \<open>DEFAULT_GESTURE_STATE\<close> and starts
  \<^verbatim>\<open>gesture_recognition\<close> in a daemon thread (lines 38--45); \<^verbatim>\<open>run\<close> is the main
  thread. Each step of the relation \<open>sys_step\<close> is one step of one thread: the recognizer's
  start (line 25 of \<^verbatim>\<open>src/gesture.py\<close>, which sets \<open>active\<close>), one loop iteration
  (\<open>frame_step\<close>), or its exit when the loop test finds \<open>active\<close> false; one command of
  \<^verbatim>\<open>run\<close>, its crash on an escaping exception, or its \<open>exit\<close>/\<open>quit\<close>. Steps are atomic;
  the threads interleave in any order.
\<close>

datatype thread_status = Thread_starting | Thread_running | Thread_finished

record system_state =
  rec_st :: recognizer_state
  shared :: gesture_state
  rec_thread :: thread_status
  cmd_thread :: thread_status

text \<open>After \<open>__init__\<close>: the dictionary is a copy of the defaults (\<open>active\<close> false) and the
  recognizer thread has been started but has not yet run line 25; its closure variables
  are set when it does.\<close>

definition system_init :: "timestamp \<Rightarrow> system_state" where
  "system_init t0 =
     \<lparr>rec_st = recognizer_init t0, shared = DEFAULT_GESTURE_STATE,
      rec_thread = Thread_starting, cmd_thread = Thread_running\<rparr>"

definition is_exit_command :: "string \<Rightarrow> bool" where
  "is_exit_command command = (str_in ''exit'' command \<or> str_in ''quit'' command)"

inductive sys_step :: "int \<times> int \<Rightarrow> classifier \<Rightarrow> system_state \<Rightarrow> system_state \<Rightarrow> bool"
  for screen classify where
  rec_start:
    "rec_thread s = Thread_starting \<Longrightarrow>
     sys_step screen classify s
       (s\<lparr>rec_st := recognizer_init t, shared := (shared s)\<lparr>active := True\<rparr>, rec_thread := Thread_running\<rparr>)"
| rec_frame:
    "rec_thread s = Thread_running \<Longrightarrow> active (shared s) \<Longrightarrow>
     frame_step screen inp (rec_st s) (shared s) = (st', g', acts, quit) \<Longrightarrow>
     sys_step screen classify s
       (s\<lparr>rec_st := st', shared := g', rec_thread := (if quit then Thread_finished else Thread_running)\<rparr>)"
| rec_exit:
    "rec_thread s = Thread_running \<Longrightarrow> \<not> active (shared s) \<Longrightarrow>
     sys_step screen classify s (s\<lparr>rec_thread := Thread_finished\<rparr>)"
| cmd_exec:
    "cmd_thread s = Thread_running \<Longrightarrow> command \<noteq> [] \<Longrightarrow> \<not> is_exit_command command \<Longrightarrow>
     execute_command classify (shared s) command = (g', effects, None) \<Longrightarrow>
     sys_step screen classify s (s\<lparr>shared := g'\<rparr>)"
| cmd_crash:
    "cmd_thread s = Thread_running \<Longrightarrow> command \<noteq> [] \<Longrightarrow> \<not> is_exit_command command \<Longrightarrow>
     execute_command classify (shared s) command = (g', effects, Some e) \<Longrightarrow>
     sys_step screen classify s (s\<lparr>shared := g'\<lparr>active := False\<rparr>, cmd_thread := Thread_finished\<rparr>)"
| cmd_exit:
    "cmd_thread s = Thread_running \<Longrightarrow> is_exit_command command \<Longrightarrow>
     sys_step screen classify s (s\<lparr>shared := (shared s)\<lparr>active := False\<rparr>, cmd_thread := Thread_finished\<rparr>)"

inductive sys_reach :: "int \<times> int \<Rightarrow> classifier \<Rightarrow> timestamp \<Rightarrow> system_state \<Rightarrow> bool"
  for screen classify t0 where
  init: "sys_reach screen classify t0 (system_init t0)"
| step: "sys_reach screen classify t0 s \<Longrightarrow> sys_step screen classify s s' \<Longrightarrow> sys_reach screen classify t0 s'"

inductive_cases sys_step_cases: "sys_step screen classify s s'"

section \<open>Lemmas\<close>

lemma sys_step_shared_ok:
  assumes "sys_step screen classify s s'" and "shared_ok (shared s)"
  shows "shared_ok (shared s')"
  using assms
proof (induction rule: sys_step.induct)
  case (rec_frame s inp st' g' acts quit)
  then show ?case using frame_step_shared_ok [of "shared s" screen inp "rec_st s"] by simp
next
  case (cmd_exec s command g' effects)
  then show ?case using execute_command_shared_ok [of "shared s" classify command] by simp
next
  case (cmd_crash s command g' effects e)
  then show ?case using execute_command_shared_ok [of "shared s" classify command]
    by (simp add: shared_ok_active)
qed (simp_all add: shared_ok_active)

lemma sys_step_finished:
  assumes "sys_step screen classify s s'" and "rec_thread s = Thread_finished"
  shows "rec_thread s' = Thread_finished \<and> detected (shared s') \<in> {None, detected (shared s)}"
  using assms
proof (induction rule: sys_step.induct)
  case (cmd_exec s command g' effects)
  then show ?case using execute_command_detected [of classify "shared s" command] by simp
next
  case (cmd_crash s command g' effects e)
  then show ?case using execute_command_detected [of classify "shared s" command] by simp
qed simp_all

lemma execute_toggle_idle:
  assumes "\<not> active g \<or> detected g = None"
  shows "execute_command classify g ''disable gestures'' = (g\<lparr>active := False\<rparr>, [Speak ''Gesture control disabled''], None)"
    and "execute_command classify g ''enable gestures'' = (g\<lparr>active := True\<rparr>, [Speak ''Gesture control enabled''], None)"
  using assms
  by (auto simp: execute_command_def handle_gestures_def match_intent_toggle execute_specific_command_toggle
      perform_action_def toggle_gestures_def)

section \<open>Properties of the interleaving\<close>

text \<open>C2: under every interleaving of the two threads the shared dictionary satisfies
  \<open>shared_ok\<close>: \<open>detected\<close> is empty or one of the recognizer's labels and the volume
  level stays in \<open>[0, 1]\<close>.\<close>

theorem reachable_shared_ok:
  assumes "sys_reach screen classify t0 s"
  shows "shared_ok (shared s)"
  using assms
  by induction (simp_all add: system_init_def shared_ok_default sys_step_shared_ok)

text \<open>C18: the voice command \<open>enable gestures\<close> does not bring gesture control back once
  it has been disabled long enough for the recognizer's loop to see it: there is a run
  (disable, the recognizer exits its loop, enable) that ends with \<open>active\<close> set, the
  command thread listening and the recognizer thread finished.\<close>

theorem reenable_leaves_recognizer_stopped:
  "\<exists>s. sys_reach screen classify t0 s \<and> active (shared s) \<and>
       rec_thread s = Thread_finished \<and> cmd_thread s = Thread_running"
proof -
  let ?g = "DEFAULT_GESTURE_STATE\<lparr>active := True\<rparr>"
  let ?s1 = "(system_init t0)\<lparr>rec_st := recognizer_init t0, shared := ?g, rec_thread := Thread_running\<rparr>"
  let ?s2 = "?s1\<lparr>shared := ?g\<lparr>active := False\<rparr>\<rparr>"
  let ?s3 = "?s2\<lparr>rec_thread := Thread_finished\<rparr>"
  let ?s4 = "?s3\<lparr>shared := ?g\<lparr>active := False, active := True\<rparr>\<rparr>"
  have idle: "detected ?g = None" "\<not> active (?g\<lparr>active := False\<rparr>)"
    by (simp_all add: DEFAULT_GESTURE_STATE_def)
  have no_exit: "\<not> is_exit_command ''disable gestures''" "\<not> is_exit_command ''enable gestures''"
    by (simp_all add: is_exit_command_def)
  have "sys_reach screen classify t0 ?s1"
    using sys_reach.step [OF sys_reach.init sys_step.rec_start [where s = "system_init t0" and t = t0]]
    by (simp add: system_init_def)
  then have "sys_reach screen classify t0 ?s2"
    by (rule sys_reach.step, intro sys_step.cmd_exec [where command = "''disable gestures''"])
       (simp_all add: system_init_def no_exit execute_toggle_idle idle)
  then have "sys_reach screen classify t0 ?s3"
    by (rule sys_reach.step, intro sys_step.rec_exit) (simp_all add: system_init_def idle)
  then have "sys_reach screen classify t0 ?s4"
    by (rule sys_reach.step, intro sys_step.cmd_exec [where command = "''enable gestures''"])
       (simp_all add: system_init_def no_exit execute_toggle_idle idle)
  then show ?thesis by (intro exI [of _ ?s4]) (simp add: system_init_def)
qed

text \<open>C19: once the recognizer thread has finished, nothing sets \<open>detected\<close> again: in
  every continuation the thread stays finished and \<open>detected\<close> is either cleared or the
  label it held when the thread ended, so no new gesture is ever reported.\<close>

theorem gestures_dead_after_recognizer_exit:
  assumes "(sys_step screen classify)\<^sup>*\<^sup>* s s'" and "rec_thread s = Thread_finished"
  shows "rec_thread s' = Thread_finished \<and> detected (shared s') \<in> {None, detected (shared s)}"
  using assms
proof (induction rule: rtranclp_induct)
  case base
  then show ?case by simp
next
  case (step s' s'')
  then show ?case using sys_step_finished [of screen classify s' s''] by auto
qed

end
