(* ===== verification/Host_Queries.thy ===== *)
theory Host_Queries
  imports Consumer
begin

text \<open>
  What the assistant reads from outside the program and the handlers of
  \<^verbatim>\<open>src/jarvis_commands.py\<close> that only report it: \<^verbatim>\<open>get_system_info\<close> (lines 120--150),
  \<^verbatim>\<open>get_battery_status\<close> (152--165), \<^verbatim>\<open>search_web\<close> (205--219), the clock, joke and IP
  handlers (363--411); and the two \<^verbatim>\<open>listen\<close> functions of \<^verbatim>\<open>src/app.py\<close> (56--76) and
  \<^verbatim>\<open>src/commands.py\<close> (37--47). The answers of \<open>platform\<close>, \<open>psutil\<close>, the clock,
  \<open>pyjokes\<close>, the network and the speech recognizer form \<open>host_readings\<close> and
  \<open>recognition\<close>; a call that raises is an \<open>Inl\<close> holding the exception's text. A float
  reading is given as the text \<open>str()\<close> prints for it; integer readings (bytes,
  seconds) are \<open>int\<close>s, with Python's \<open>//\<close> as \<open>div\<close> (both floor). Also here: the
  Python string helpers and the effects shared by all handlers.
\<close>

section \<open>Python's \<open>str\<close> on integers and \<open>str.join\<close>\<close>

fun str_nat :: "nat \<Rightarrow> string" where
  "str_nat n = (if n < 10 then [char_of (48 + n)] else str_nat (n div 10) @ [char_of (48 + n mod 10)])"

declare str_nat.simps [simp del]

definition str_int :: "int \<Rightarrow> string" where
  "str_int i = (if i < 0 then CHR ''-'' # str_nat (nat (- i)) else str_nat (nat i))"

fun py_join :: "string \<Rightarrow> string list \<Rightarrow> string" where
  "py_join sep [] = []"
| "py_join sep [x] = x"
| "py_join sep (x # y # xs) = x @ sep @ py_join sep (y # xs)"

text \<open>\<open>str.lower()\<close> on ASCII letters (other characters are kept).\<close>

definition py_lower_char :: "char \<Rightarrow> char" where
  "py_lower_char c = (if (65::nat) \<le> of_char c \<and> of_char c \<le> (90::nat) then char_of (of_char c + (32::nat)) else c)"

definition py_lower :: "string \<Rightarrow> string" where
  "py_lower s = map py_lower_char s"

section \<open>Effects of the handlers\<close>

datatype handler_effect =
    Say string | Log string
  | Popen string | Startfile string | Browser_open string | Press_key string
  | Save_screenshot string | Make_dirs string | Remove_file string | Sleep_for nat
  | Os_system string | Window_op string | Play_on_youtube string

section \<open>Readings of the host\<close>

text \<open>\<open>psutil.sensors_battery()\<close>: the percentage as printed, whether the charger is plugged
  in, and \<open>secsleft\<close>, which psutil sets to \<open>POWER_TIME_UNKNOWN = -1\<close> or
  \<open>POWER_TIME_UNLIMITED = -2\<close> when it has no estimate.\<close>

record battery_reading =
  bat_percent :: string
  power_plugged :: bool
  secsleft :: int

text \<open>The other readings of \<^verbatim>\<open>get_system_info\<close>: \<open>platform.uname()\<close>, the CPU, memory
  and disk percentages as printed, the memory sizes in bytes, and the boot time as
  formatted by \<open>strftime("%Y-%m-%d %H:%M:%S")\<close>.\<close>

record system_snapshot =
  sys_system :: string
  sys_release :: string
  sys_machine :: string
  sys_processor :: string
  cpu_text :: string
  mem_percent_text :: string
  mem_used :: int
  mem_total :: int
  disk_percent_text :: string
  boot_text :: string

record host_readings =
  snapshot :: "string + system_snapshot"
  battery_query :: "string + battery_reading option"
  clock_time :: string        \<comment> \<open>\<open>now.strftime('%I:%M %p')\<close>\<close>
  clock_date :: string        \<comment> \<open>\<open>now.strftime('%A, %B %d, %Y')\<close>\<close>
  joke :: string              \<comment> \<open>\<open>pyjokes.get_joke()\<close>\<close>
  public_ip :: "string + string"  \<comment> \<open>\<open>requests.get(...).json()['ip']\<close>\<close>
  health_cpu :: string        \<comment> \<open>\<open>psutil.cpu_percent(interval=1)\<close> of \<^verbatim>\<open>commands.py\<close>\<close>
  health_ram :: string        \<comment> \<open>\<open>psutil.virtual_memory().percent\<close> of \<^verbatim>\<open>commands.py\<close>\<close>

section \<open>The reporting handlers\<close>

text \<open>One line of the triple-quoted \<open>info\<close> string: a newline and the eight spaces of the
  source's indentation before the text.\<close>

definition info_line :: "string \<Rightarrow> string" where
  "info_line s = CHR 0x0A # replicate 8 (CHR '' '') @ s"

definition battery_info :: "battery_reading \<Rightarrow> string" where
  "battery_info b =
     ''Battery: '' @ bat_percent b @ ''%''
     @ (if power_plugged b then '' (plugged in)''
        else '' ('' @ str_int (secsleft b div 60) @ '' minutes remaining)'')"

definition get_system_info :: "host_readings \<Rightarrow> handler_effect list" where
  "get_system_info r =
     (case (snapshot r, battery_query r) of
        (Inr s, Inr bat) \<Rightarrow>
          (let info =
             info_line (''System: '' @ sys_system s @ '' '' @ sys_release s)
             @ info_line (''Machine: '' @ sys_machine s)
             @ info_line (''Processor: '' @ sys_processor s)
             @ info_line (''CPU Usage: '' @ cpu_text s @ ''%'')
             @ info_line (''Memory: '' @ mem_percent_text s @ ''% used (''
                          @ str_int (mem_used s div 1024 ^ 2) @ ''MB of ''
                          @ str_int (mem_total s div 1024 ^ 2) @ ''MB)'')
             @ info_line (''Disk: '' @ disk_percent_text s @ ''% used on C: drive'')
             @ info_line (''Boot Time: '' @ boot_text s)
             @ info_line []
           in [Say (case bat of None \<Rightarrow> info | Some b \<Rightarrow> info @ battery_info b)])
      | (Inl e, _) \<Rightarrow> [Log (''System info error: '' @ e), Say ''Sorry, I couldn't get system information'']
      | (_, Inl e) \<Rightarrow> [Log (''System info error: '' @ e), Say ''Sorry, I couldn't get system information''])"

definition get_battery_status :: "host_readings \<Rightarrow> handler_effect list" where
  "get_battery_status r =
     (case battery_query r of
        Inl e \<Rightarrow> [Log (''Battery error: '' @ e), Say ''Sorry, I couldn't check battery status'']
      | Inr None \<Rightarrow> [Say ''No battery information available'']
      | Inr (Some b) \<Rightarrow>
          Say (''Battery is at '' @ bat_percent b @ ''% and ''
               @ (if power_plugged b then ''plugged in'' else ''on battery''))
          # (if \<not> power_plugged b
             then [Say (''Estimated remaining time: '' @ str_int (secsleft b div 60) @ '' minutes'')] else []))"

definition get_current_time :: "host_readings \<Rightarrow> handler_effect list" where
  "get_current_time r = [Say (''The current time is '' @ clock_time r)]"

definition get_current_date :: "host_readings \<Rightarrow> handler_effect list" where
  "get_current_date r = [Say (''Today is '' @ clock_date r)]"

definition tell_joke :: "host_readings \<Rightarrow> handler_effect list" where
  "tell_joke r = [Say (joke r)]"

definition get_ip_address :: "host_readings \<Rightarrow> handler_effect list" where
  "get_ip_address r =
     (case public_ip r of
        Inr ip \<Rightarrow> [Say (''Your public IP address is '' @ ip)]
      | Inl e \<Rightarrow> [Log (''IP address error: '' @ e), Say ''Sorry, I couldn't retrieve your IP address''])"

text \<open>\<^verbatim>\<open>search_web(assistant, query=None)\<close>: without a query it asks and listens; an empty or
  missing answer ends it. The query goes into the URL unencoded. No branch of the dispatcher
  calls it.\<close>

definition jarvis_search_web :: "string option \<Rightarrow> string option \<Rightarrow> handler_effect list" where
  "jarvis_search_web query heard =
     (let search = (\<lambda>q. [Browser_open (''https://www.google.com/search?q='' @ q),
                         Say (''Searching the web for '' @ q)]);
          asked = Say ''What would you like to search for?''
                  # (case heard of None \<Rightarrow> [] | Some q \<Rightarrow> if q = [] then [] else search q)
      in case query of
           Some q \<Rightarrow> if q \<noteq> [] then search q else asked
         | None \<Rightarrow> asked)"

section \<open>Speech input\<close>

text \<open>What one \<open>recognizer.listen\<close> and \<open>recognize_google\<close> call produce: a transcript, or
  one of the exceptions the two \<^verbatim>\<open>listen\<close> functions distinguish.\<close>

datatype recognition =
    Recognized string | Wait_timeout | Unknown_value | Request_failed | Listen_failed string

text \<open>\<^verbatim>\<open>JarvisAssistant.listen()\<close>: the lower-cased transcript, or \<open>None\<close> after the message
  each exception calls for.\<close>

definition app_listen :: "recognition \<Rightarrow> string option \<times> handler_effect list" where
  "app_listen r =
     (case r of
        Recognized t \<Rightarrow> (Some (py_lower t), [Log ''Listening...'', Log (''You said: '' @ py_lower t)])
      | Wait_timeout \<Rightarrow> (None, [Log ''Listening...''])
      | Unknown_value \<Rightarrow> (None, [Log ''Listening...'', Say ''I didn't catch that. Could you repeat?''])
      | Request_failed \<Rightarrow>
          (None, [Log ''Listening...'', Say ''Speech service unavailable. Please check your internet connection.''])
      | Listen_failed e \<Rightarrow> (None, [Log ''Listening...'', Log (''Listening error: '' @ e)]))"

text \<open>\<^verbatim>\<open>listen()\<close> of \<^verbatim>\<open>commands.py\<close>: the lower-cased transcript, \<open>""\<close> on any exception.\<close>

definition commands_listen :: "recognition \<Rightarrow> string" where
  "commands_listen r = (case r of Recognized t \<Rightarrow> py_lower t | _ \<Rightarrow> [])"

section \<open>Loading the classifier\<close>

text \<open>\<^verbatim>\<open>JarvisAssistant._initialize_classifier\<close> (\<^verbatim>\<open>src/app.py\<close> lines 23--28): the
  pipeline, or \<open>None\<close> after printing the loading error; \<open>execute_command\<close> then only
  matches substrings.\<close>

definition initialize_classifier ::
  "string + (string \<Rightarrow> py_error + (string \<times> real)) \<Rightarrow> classifier \<times> handler_effect list" where
  "initialize_classifier loaded =
     (case loaded of
        Inr pipeline \<Rightarrow> (Some pipeline, [])
      | Inl e \<Rightarrow> (None, [Log (''Model loading error: '' @ e)]))"

section \<open>Lemmas\<close>

lemma is_digit_digit [simp]: "(d::nat) < 10 \<Longrightarrow> is_digit (char_of (48 + d))"
  by (simp add: is_digit_def)

lemma str_nat_small: "n < 10 \<Longrightarrow> str_nat n = [char_of (48 + n)]"
  by (simp add: str_nat.simps)

lemma str_nat_large: "\<not> n < 10 \<Longrightarrow> str_nat n = str_nat (n div 10) @ [char_of (48 + n mod 10)]"
  by (subst str_nat.simps) simp

lemma digits_value_snoc: "digits_value (xs @ [c]) = 10 * digits_value xs + (of_char c - 48)"
  by (simp add: digits_value_def)

lemma str_nat_digits: "filter is_digit (str_nat n) = str_nat n"
proof (induction n rule: str_nat.induct)
  case (1 n)
  then show ?case by (cases "n < 10") (simp_all add: str_nat_small str_nat_large)
qed

lemma digits_value_str_nat: "digits_value (str_nat n) = n"
proof (induction n rule: str_nat.induct)
  case (1 n)
  show ?case
  proof (cases "n < 10")
    case True
    then show ?thesis by (simp add: str_nat_small digits_value_def)
  next
    case False
    with 1 show ?thesis by (simp add: str_nat_large digits_value_snoc)
  qed
qed

lemma str_nat_not_Nil [simp]: "str_nat n \<noteq> []"
  by (cases "n < 10") (simp_all add: str_nat_small str_nat_large)

lemma filter_digits_embedded:
  "filter is_digit pre = [] \<Longrightarrow> filter is_digit rest = [] \<Longrightarrow>
   filter is_digit (pre @ str_nat n @ rest) = str_nat n"
  by (simp add: str_nat_digits)

lemma str_int_minus_one: "str_int (-1) = ''-1''"
  by code_simp

section \<open>Properties of the reporting handlers\<close>

text \<open>C29: on battery power, when psutil has no estimate of the remaining time
  (\<open>secsleft\<close> is \<open>POWER_TIME_UNKNOWN = -1\<close> or \<open>POWER_TIME_UNLIMITED = -2\<close>), the
  floor division \<open>secsleft // 60\<close> is \<open>-1\<close>: \<^verbatim>\<open>get_battery_status\<close> announces an estimated
  remaining time of \<open>-1\<close> minutes, and \<^verbatim>\<open>get_system_info\<close> reports
  \<open>(-1 minutes remaining)\<close>.\<close>

theorem battery_sentinel_reported:
  assumes "battery_query r = Inr (Some b)" and "\<not> power_plugged b" and "secsleft b \<in> {-2, -1}"
  shows "get_battery_status r =
           [Say (''Battery is at '' @ bat_percent b @ ''% and on battery''),
            Say ''Estimated remaining time: -1 minutes'']
    \<and> battery_info b = ''Battery: '' @ bat_percent b @ ''% (-1 minutes remaining)''"
proof -
  from assms(3) have "secsleft b div 60 = -1" by auto
  then have "str_int (secsleft b div 60) = ''-1''" by (simp add: str_int_minus_one)
  with assms(1,2) show ?thesis by (simp add: get_battery_status_def battery_info_def)
qed

end
