(* ===== verification/Handlers.thy ===== *)
theory Handlers
  imports Host_Queries "HOL-Library.List_Lexorder" "HOL-Library.Char_ord" "HOL-Library.Multiset"
begin

text \<open>
  The command handlers of \<^verbatim>\<open>src/jarvis_commands.py\<close> that \<^verbatim>\<open>execute_specific_command\<close>
  reaches, and the interpretation of the \<open>command_action\<close> values of \<open>Intents\<close> by them.
  The part of the host the handlers change is \<open>host_state\<close>: the audio sessions that
  \<open>pycaw\<close> enumerates, the entries of the working directory, and the attributes of the
  \<open>JarvisAssistant\<close> object that the recording handlers read and write. What a handler
  says, prints or asks the OS to do is a list of \<open>handler_effect\<close>s. The answer of
  \<open>assistant.listen()\<close> a handler waits for, the clock read of
  \<open>strftime("%Y%m%d_%H%M%S")\<close> and the readings the reporting handlers of
  \<open>Host_Queries\<close> speak are \<open>handler_input\<close>.
\<close>

section \<open>The host state\<close>

text \<open>One session of \<open>AudioUtilities.GetAllSessions()\<close>: the name of its process
  (\<open>None\<close> for a session without one), its \<open>ISimpleAudioVolume\<close> master level and mute flag.\<close>

record audio_session =
  session_process :: "string option"
  master_volume :: real
  session_muted :: bool

type_synonym mixer = "audio_session list"

datatype path_kind = Regular_file | Directory

text \<open>\<open>recording_attr\<close> is the attribute \<open>assistant.recording\<close> (\<open>None\<close> while it has never
  been assigned; \<open>JarvisAssistant.__init__\<close> does not assign it), and likewise
  \<open>recording_filename_attr\<close>; \<open>has_fourcc\<close> tells whether \<open>assistant.fourcc\<close> exists.\<close>

record host_state =
  mixer :: mixer
  cwd_entries :: "(string \<times> path_kind) list"
  recording_attr :: "bool option"
  recording_filename_attr :: "string option"
  has_fourcc :: bool

record handler_input =
  answer :: "string option"
  stamp :: string
  readings :: host_readings

section \<open>Application, folder and web handlers (lines 165--203)\<close>

definition open_application :: "string \<Rightarrow> handler_effect list" where
  "open_application app_name =
     (case map_of APP_PATHS app_name of
        Some path \<Rightarrow> [Popen path, Say (''Opening '' @ app_name)]
      | None \<Rightarrow> [Say (''I don't know how to open '' @ app_name)])"

definition open_special_folder :: "string \<Rightarrow> handler_effect list" where
  "open_special_folder folder_name =
     (case map_of SPECIAL_FOLDERS folder_name of
        Some path \<Rightarrow> [Startfile path, Say (''Opening '' @ folder_name @ '' folder'')]
      | None \<Rightarrow> [Say (''I don't know how to open '' @ folder_name @ '' folder'')])"

definition open_website :: "string \<Rightarrow> handler_effect list" where
  "open_website site_name =
     (case map_of WEB_URLS site_name of
        Some url \<Rightarrow> [Browser_open url, Say (''Opening '' @ site_name)]
      | None \<Rightarrow> [Say (''I don't know how to open '' @ site_name)])"

section \<open>Media and volume (lines 222--262)\<close>

definition media_control :: "string \<Rightarrow> handler_effect list" where
  "media_control action =
     (if action = ''play'' then [Press_key ''playpause'', Say ''Playing media'']
      else if action = ''pause'' then [Press_key ''playpause'', Say ''Media paused'']
      else if action = ''next'' then [Press_key ''nexttrack'', Say ''Next track'']
      else if action = ''previous'' then [Press_key ''prevtrack'', Say ''Previous track'']
      else [])"

text \<open>The body of \<open>for session in sessions\<close> in \<^verbatim>\<open>adjust_volume\<close>.\<close>

definition adjust_session :: "string option \<Rightarrow> real option \<Rightarrow> audio_session \<Rightarrow> audio_session" where
  "adjust_session action level s =
     (case level of
        Some l \<Rightarrow> s\<lparr>master_volume := l\<rparr>
      | None \<Rightarrow>
          if action = Some ''increase'' then s\<lparr>master_volume := min (master_volume s + 0.1) 1\<rparr>
          else if action = Some ''decrease'' then s\<lparr>master_volume := max (master_volume s - 0.1) 0\<rparr>
          else if action = Some ''mute'' then s\<lparr>session_muted := True\<rparr>
          else if action = Some ''unmute'' then s\<lparr>session_muted := False\<rparr>
          else s)"

definition adjust_volume :: "mixer \<Rightarrow> string option \<Rightarrow> real option \<Rightarrow> mixer \<times> handler_effect list" where
  "adjust_volume sessions action level =
     (map (adjust_session action level) sessions,
      case level of
        Some l \<Rightarrow> [Say (''Volume set to '' @ str_int (py_int (l * 100)) @ ''%'')]
      | None \<Rightarrow>
          (case action of
             Some a \<Rightarrow> if a \<in> set [''increase'', ''decrease'', ''mute'', ''unmute''] then [Say (''Volume '' @ a @ ''d'')] else []
           | None \<Rightarrow> []))"

section \<open>Screenshots and recording (lines 264--310)\<close>

definition take_screenshot :: "handler_input \<Rightarrow> handler_effect list" where
  "take_screenshot inp =
     (let filename = ''screenshot_'' @ stamp inp @ ''.png''
      in [Save_screenshot filename, Say (''Screenshot saved as '' @ filename)])"

definition recording_error :: "string \<Rightarrow> string \<Rightarrow> py_error \<Rightarrow> handler_effect list" where
  "recording_error what verb e = [Log (''Recording error: '' @ error_text e), Say (''Sorry, I couldn't '' @ verb @ '' recording'')]"

definition start_recording :: "handler_input \<Rightarrow> host_state \<Rightarrow> host_state \<times> handler_effect list" where
  "start_recording inp h =
     (case recording_attr h of
        None \<Rightarrow> (h, recording_error ''start'' ''start'' (AttributeError ''recording''))
      | Some True \<Rightarrow> (h, [Say ''Recording is already in progress''])
      | Some False \<Rightarrow>
          (let h = h\<lparr>recording_filename_attr := Some (''recording_'' @ stamp inp @ ''.avi'')\<rparr>
           in if \<not> has_fourcc h then (h, recording_error ''start'' ''start'' (AttributeError ''fourcc''))
              else (h\<lparr>recording_attr := Some True\<rparr>, [Say ''Screen recording started''])))"

definition stop_recording :: "host_state \<Rightarrow> host_state \<times> handler_effect list" where
  "stop_recording h =
     (case recording_attr h of
        None \<Rightarrow> (h, recording_error ''stop'' ''stop'' (AttributeError ''recording''))
      | Some False \<Rightarrow> (h, [Say ''No recording in progress''])
      | Some True \<Rightarrow>
          (let h = h\<lparr>recording_attr := Some False\<rparr>
           in case recording_filename_attr h of
                None \<Rightarrow> (h, recording_error ''stop'' ''stop'' (AttributeError ''recording_filename''))
              | Some f \<Rightarrow> (h, [Say (''Screen recording saved as '' @ f)])))"

section \<open>File operations (lines 313--364)\<close>

text \<open>\<^verbatim>\<open>list_files(assistant, directory=".")\<close>: the first five names of \<open>os.listdir\<close> and,
  above five, their number.\<close>

definition list_files :: "host_state \<Rightarrow> handler_effect list" where
  "list_files h =
     (let files = map fst (cwd_entries h)
      in if files = [] then [Say ''The directory is empty'']
         else Say (''Files in .: '' @ py_join '', '' (take 5 files))
              # (if length files > 5 then [Say (''There are '' @ str_nat (length files) @ '' total files'')] else []))"

text \<open>The working directory is on NTFS, where names compare without regard to case
  (\<open>os.path.exists("report.txt")\<close> finds \<open>Report.txt\<close>); \<open>cwd_lookup\<close> is that
  comparison, ASCII case folding as \<open>py_lower\<close>.\<close>

definition cwd_lookup :: "(string \<times> path_kind) list \<Rightarrow> string \<Rightarrow> path_kind option" where
  "cwd_lookup entries name = map_of (map (\<lambda>(n, k). (py_lower n, k)) entries) (py_lower name)"

text \<open>The dispatcher passes no name, so both handlers ask and listen; an empty or missing
  answer ends them silently. Names are taken as single path components.
  \<open>os.makedirs(name, exist_ok=True)\<close> fails on an existing regular file and \<open>os.remove\<close>
  on a directory (\<open>PermissionError\<close> on Windows); the handlers catch both.\<close>

definition create_folder :: "handler_input \<Rightarrow> host_state \<Rightarrow> host_state \<times> handler_effect list" where
  "create_folder inp h =
     (let ask = [Say ''What should I name the folder?'']
      in case answer inp of
           None \<Rightarrow> (h, ask)
         | Some folder_name \<Rightarrow>
             if folder_name = [] then (h, ask)
             else (case cwd_lookup (cwd_entries h) folder_name of
                     Some Regular_file \<Rightarrow>
                       (h, ask @ [Log ''Error creating folder: FileExistsError'',
                                  Say (''Sorry, I couldn't create the folder '' @ folder_name)])
                   | Some Directory \<Rightarrow> (h, ask @ [Make_dirs folder_name, Say (''Created folder: '' @ folder_name)])
                   | None \<Rightarrow>
                       (h\<lparr>cwd_entries := cwd_entries h @ [(folder_name, Directory)]\<rparr>,
                        ask @ [Make_dirs folder_name, Say (''Created folder: '' @ folder_name)])))"

definition delete_file :: "handler_input \<Rightarrow> host_state \<Rightarrow> host_state \<times> handler_effect list" where
  "delete_file inp h =
     (let ask = [Say ''Which file should I delete?'']
      in case answer inp of
           None \<Rightarrow> (h, ask)
         | Some filename \<Rightarrow>
             if filename = [] then (h, ask)
             else (case cwd_lookup (cwd_entries h) filename of
                     None \<Rightarrow> (h, ask @ [Say (''File '' @ filename @ '' not found'')])
                   | Some Regular_file \<Rightarrow>
                       (h\<lparr>cwd_entries := filter (\<lambda>e. py_lower (fst e) \<noteq> py_lower filename) (cwd_entries h)\<rparr>,
                        ask @ [Remove_file filename, Say (''Deleted file: '' @ filename)])
                   | Some Directory \<Rightarrow>
                       (h, ask @ [Log ''Error deleting file: PermissionError'',
                                  Say (''Sorry, I couldn't delete '' @ filename)])))"

section \<open>Productivity and utilities (lines 366--435)\<close>

text \<open>\<open>int(''.join(filter(str.isdigit, duration)))\<close>, and \<open>1\<close> when it raises
  (no digit in the answer).\<close>

definition timer_minutes :: "string \<Rightarrow> nat" where
  "timer_minutes duration =
     (let digits = filter is_digit duration in if digits = [] then 1 else digits_value digits)"

definition set_timer :: "handler_input \<Rightarrow> handler_effect list" where
  "set_timer inp =
     (let ask = [Say ''For how many minutes?'']
      in case answer inp of
           None \<Rightarrow> ask
         | Some duration \<Rightarrow>
             if duration = [] then ask
             else (let minutes = timer_minutes duration
                   in ask @ [Say (''Timer set for '' @ str_nat minutes @ '' minutes''), Sleep_for (minutes * 60),
                             Say ''Time's up! Your timer has finished'']))"

definition HELP_CATEGORIES :: "(string \<times> string list) list" where
  "HELP_CATEGORIES =
    [(''System'', [''shutdown'', ''restart'', ''lock'', ''system info'']),
     (''Apps'', [''open calculator'', ''open notepad'', ''open command prompt'']),
     (''Web'', [''open youtube'', ''open google'', ''search web'']),
     (''Media'', [''play music'', ''increase volume'', ''take screenshot'']),
     (''Productivity'', [''current time'', ''current date'', ''set timer'']),
     (''Utilities'', [''tell joke'', ''ip address'', ''what can you do''])]"

definition show_help :: "handler_effect list" where
  "show_help =
     Say ''Here are the main command categories:''
     # map (\<lambda>(category, commands). Say (category @ '': '' @ py_join '', '' (take 3 commands) @ ''...'')) HELP_CATEGORIES
     @ [Say ''Say 'what can you do' for full command list'']"

text \<open>\<open>for i, intent in enumerate(sorted(CANDIDATE_INTENTS), 1)\<close>: Python orders strings by
  code points, lexicographically with a proper prefix first, which is the order of
  \<^verbatim>\<open>List_Lexorder\<close> over \<^verbatim>\<open>Char_ord\<close>.\<close>

fun capability_lines :: "nat \<Rightarrow> string list \<Rightarrow> handler_effect list" where
  "capability_lines i [] = []"
| "capability_lines i (intent # intents) =
     (if i mod 5 = 0 then [Sleep_for 1] else []) @ [Log (''- '' @ intent)] @ capability_lines (Suc i) intents"

definition show_capabilities :: "handler_effect list" where
  "show_capabilities =
     Say ''I can perform these actions:'' # capability_lines 1 (sort CANDIDATE_INTENTS)
     @ [Say ''That's all I can do for now!'']"

section \<open>Running a routed action\<close>

text \<open>The handler \<^verbatim>\<open>execute_specific_command\<close> calls for each action. The gesture toggles
  and spoken texts are carried out by \<open>perform_action\<close> of \<open>Consumer\<close> and never reach here.\<close>

definition run_action :: "handler_input \<Rightarrow> host_state \<Rightarrow> command_action \<Rightarrow> host_state \<times> handler_effect list" where
  "run_action inp h act =
     (case act of
        System_info \<Rightarrow> (h, get_system_info (readings inp))
      | Battery_status \<Rightarrow> (h, get_battery_status (readings inp))
      | Open_application a \<Rightarrow> (h, open_application a)
      | Open_special_folder f \<Rightarrow> (h, open_special_folder f)
      | Open_website w \<Rightarrow> (h, open_website w)
      | Media_control a \<Rightarrow> (h, media_control a)
      | Adjust_volume a \<Rightarrow> (let (m, e) = adjust_volume (mixer h) (Some a) None in (h\<lparr>mixer := m\<rparr>, e))
      | Take_screenshot \<Rightarrow> (h, take_screenshot inp)
      | Start_recording \<Rightarrow> start_recording inp h
      | Stop_recording \<Rightarrow> stop_recording h
      | List_files \<Rightarrow> (h, list_files h)
      | Create_folder \<Rightarrow> create_folder inp h
      | Delete_file \<Rightarrow> delete_file inp h
      | Current_time \<Rightarrow> (h, get_current_time (readings inp))
      | Current_date \<Rightarrow> (h, get_current_date (readings inp))
      | Set_timer \<Rightarrow> (h, set_timer inp)
      | Tell_joke \<Rightarrow> (h, tell_joke (readings inp))
      | Ip_address \<Rightarrow> (h, get_ip_address (readings inp))
      | Show_capabilities \<Rightarrow> (h, show_capabilities)
      | Show_help \<Rightarrow> (h, show_help)
      | Toggle_gestures _ \<Rightarrow> (h, [])
      | Speak_text t \<Rightarrow> (h, [Say t]))"

text \<open>The effects of one command of \<open>Consumer\<close> in order, each routed action run by its handler.\<close>

fun perform_effects :: "handler_input \<Rightarrow> host_state \<Rightarrow> consumer_effect list \<Rightarrow> host_state \<times> handler_effect list" where
  "perform_effects inp h [] = (h, [])"
| "perform_effects inp h (Speak t # effects) = (let (h', out) = perform_effects inp h effects in (h', Say t # out))"
| "perform_effects inp h (Print_error t # effects) = (let (h', out) = perform_effects inp h effects in (h', Log t # out))"
| "perform_effects inp h (Run act # effects) =
     (let (h1, out1) = run_action inp h act; (h2, out2) = perform_effects inp h1 effects in (h2, out1 @ out2))"

text \<open>One voice command of the assistant, on the shared dictionary and the host together.\<close>

definition assistant_command ::
  "classifier \<Rightarrow> handler_input \<Rightarrow> gesture_state \<times> host_state \<Rightarrow> string
     \<Rightarrow> (gesture_state \<times> host_state) \<times> handler_effect list \<times> py_error option" where
  "assistant_command classify inp gh command =
     (let (g, effects, exc) = execute_command classify (fst gh) command;
          (h, out) = perform_effects inp (snd gh) effects
      in ((g, h), out, exc))"

text \<open>The main loop \<^verbatim>\<open>run()\<close> over the shared dictionary and the host together. Each
  element is what one \<open>listen()\<close> call returned, what it printed or said, and the input
  the handler of that command reads.\<close>

fun host_loop ::
  "classifier \<Rightarrow> gesture_state \<times> host_state \<Rightarrow> (string option \<times> handler_effect list \<times> handler_input) list
     \<Rightarrow> (gesture_state \<times> host_state) \<times> handler_effect list \<times> run_end" where
  "host_loop classify gh [] = (gh, [], Listening)"
| "host_loop classify gh ((None, heard_out, inp) # heard) =
     (let (gh', out, r) = host_loop classify gh heard in (gh', heard_out @ out, r))"
| "host_loop classify gh ((Some command, heard_out, inp) # heard) =
     (if command = [] then (let (gh', out, r) = host_loop classify gh heard in (gh', heard_out @ out, r))
      else if str_in ''exit'' command \<or> str_in ''quit'' command then
        (((fst gh)\<lparr>active := False\<rparr>, snd gh), heard_out @ [Say ''Goodbye!''], Exited)
      else
        (case assistant_command classify inp gh command of
           ((g', h'), out, Some e) \<Rightarrow> ((g'\<lparr>active := False\<rparr>, h'), heard_out @ out @ [Say ''Goodbye!''], Crashed e)
         | (gh', out, None) \<Rightarrow>
             (let (gh'', out', r) = host_loop classify gh' heard in (gh'', heard_out @ out @ out', r))))"

text \<open>\<^verbatim>\<open>JarvisAssistant.run()\<close> from its greeting on, each \<open>listen()\<close> call given by what the
  recognizer produced.\<close>

definition assistant_main ::
  "classifier \<Rightarrow> gesture_state \<times> host_state \<Rightarrow> (recognition \<times> handler_input) list
     \<Rightarrow> (gesture_state \<times> host_state) \<times> handler_effect list \<times> run_end" where
  "assistant_main classify gh recs =
     (let (gh', out, r) = host_loop classify gh (map (\<lambda>(rec, inp). (fst (app_listen rec), snd (app_listen rec), inp)) recs)
      in (gh', Say ''Jarvis assistant activated. How can I help you today?''
               # Log ''Say 'exit' to quit or 'help' for commands list'' # out, r))"

text \<open>The actions the dispatcher can produce: the arguments its handlers look up are keys of
  their tables, and the media and volume verbs are those the handlers know.\<close>

definition action_ok :: "command_action \<Rightarrow> bool" where
  "action_ok act =
     (case act of
        Open_application a \<Rightarrow> map_of APP_PATHS a \<noteq> None
      | Open_special_folder f \<Rightarrow> map_of SPECIAL_FOLDERS f \<noteq> None
      | Open_website w \<Rightarrow> map_of WEB_URLS w \<noteq> None
      | Media_control a \<Rightarrow> a \<in> set [''play'', ''pause'', ''next'', ''previous'']
      | Adjust_volume a \<Rightarrow> a \<in> set [''increase'', ''decrease'', ''mute'', ''unmute'']
      | _ \<Rightarrow> True)"

section \<open>Lemmas\<close>

lemma first_word_media:
  "first_word ''play music'' = ''play'' \<and> first_word ''pause music'' = ''pause'' \<and>
   first_word ''next track'' = ''next'' \<and> first_word ''previous track'' = ''previous''"
  by (simp add: first_word_def)
lemma first_word_volume:
  "first_word ''increase volume'' = ''increase'' \<and> first_word ''decrease volume'' = ''decrease'' \<and>
   first_word ''mute volume'' = ''mute'' \<and> first_word ''unmute volume'' = ''unmute''"
  by (simp add: first_word_def)
lemma first_word_media_ok:
  "intent \<in> set [''play music'', ''pause music'', ''next track'', ''previous track''] \<Longrightarrow>
   first_word intent \<in> set [''play'', ''pause'', ''next'', ''previous'']"
  using first_word_media by auto

lemma first_word_volume_ok:
  "intent \<in> set [''increase volume'', ''decrease volume'', ''mute volume'', ''unmute volume''] \<Longrightarrow>
   first_word intent \<in> set [''increase'', ''decrease'', ''mute'', ''unmute'']"
  using first_word_volume by auto

lemma execute_specific_command_cases_ok:
  "case execute_specific_command intent of Inl _ \<Rightarrow> True | Inr act \<Rightarrow> action_ok act"
  unfolding execute_specific_command_def Let_def
  by (simp add: action_ok_def first_word_media_ok first_word_volume_ok del: list.set split: if_split)

lemma assistant_command_shared:
  "fst (fst (assistant_command classify inp gh command)) = fst (execute_command classify (fst gh) command)
   \<and> snd (snd (assistant_command classify inp gh command)) = snd (snd (execute_command classify (fst gh) command))"
  by (simp add: assistant_command_def split: prod.split)

lemma run_action_recording:
  "recording_attr h = None \<Longrightarrow> recording_attr (fst (run_action inp h act)) = None"
  by (cases act)
     (simp_all add: run_action_def start_recording_def stop_recording_def create_folder_def
       delete_file_def Let_def split: option.split prod.split path_kind.split)

lemma perform_effects_preserves:
  assumes "\<And>h act. P h \<Longrightarrow> P (fst (run_action inp h act))" and "P h"
  shows "P (fst (perform_effects inp h effects))"
  using assms(2)
proof (induction effects arbitrary: h)
  case (Cons e effects)
  then show ?case using assms(1)
    by (cases e) (simp_all add: prod.case_eq_if Let_def)
qed simp

lemma assistant_command_host:
  "snd (fst (assistant_command classify inp gh command))
     = fst (perform_effects inp (snd gh) (fst (snd (execute_command classify (fst gh) command))))"
  by (simp add: assistant_command_def prod.case_eq_if Let_def)

lemma host_loop_preserves:
  assumes "\<And>inp h act. P h \<Longrightarrow> P (fst (run_action inp h act))" and "P (snd gh)"
  shows "P (snd (fst (host_loop classify gh heard)))"
  using assms(2)
proof (induction classify gh heard rule: host_loop.induct)
  case (3 classify gh command heard_out inp heard)
  obtain g' h' out exc where a: "assistant_command classify inp gh command = ((g', h'), out, exc)"
    by (metis prod.exhaust)
  have "P h'"
    using perform_effects_preserves [of P inp, OF assms(1) 3(3)] assistant_command_host [of classify inp gh command] a
    by simp
  with 3 a show ?case by (cases exc) (auto split: prod.split)
qed (simp_all add: prod.case_eq_if)

lemma perform_effects_append:
  "perform_effects inp h (xs @ ys) =
     (let (h1, out1) = perform_effects inp h xs; (h2, out2) = perform_effects inp h1 ys in (h2, out1 @ out2))"
proof (induction xs arbitrary: h)
  case (Cons e xs)
  then show ?case by (cases e) (simp_all add: prod.case_eq_if Let_def)
qed (simp add: prod.case_eq_if)

lemma perform_effects_speech:
  "\<forall>e \<in> set effects. \<forall>a. e \<noteq> Run a \<Longrightarrow> fst (perform_effects inp h effects) = h"
proof (induction effects)
  case (Cons e effects)
  then show ?case by (cases e) (simp_all add: prod.case_eq_if Let_def)
qed simp

lemma handle_gestures_speech: "\<forall>e \<in> set (snd (handle_gestures g)). \<forall>a. e \<noteq> Run a"
  by (auto simp: handle_gestures_def gesture_handler_def split: option.split sum.split if_splits)

lemma execute_command_unmute:
  "execute_command classify g ''unmute volume'' =
     (fst (handle_gestures g), snd (handle_gestures g) @ [Run (Adjust_volume ''mute'')], None)"
proof -
  have m: "match_intent ''unmute volume'' = Some ''mute volume''"
    by (simp add: match_intent_def CANDIDATE_INTENTS_def)
  have x: "execute_specific_command ''mute volume'' = Inr (Adjust_volume ''mute'')"
    by (simp add: execute_specific_command_def SYSTEM_COMMANDS_def first_word_def)
  show ?thesis
    by (simp add: execute_command_def m x perform_action_def split: prod.split)
qed

lemma adjust_session_mute_unmute:
  "adjust_session (Some ''mute'') None = (\<lambda>s. s\<lparr>session_muted := True\<rparr>)
   \<and> adjust_session (Some ''unmute'') None = (\<lambda>s. s\<lparr>session_muted := False\<rparr>)"
  by (simp add: adjust_session_def fun_eq_iff)

section \<open>Properties of the handlers and of the whole assistant\<close>

text \<open>C20: the dispatcher only produces well-formed actions: the name an \<open>open\<close> handler looks up is a key of its table, and the media and volume verbs are those the handlers know, so their \<open>I don't know how to open\<close> branches and the silent fall-through of \<^verbatim>\<open>media_control\<close> are dead.\<close>

theorem execute_specific_command_well_typed:
  assumes "execute_specific_command intent = Inr act"
  shows "action_ok act"
  using execute_specific_command_cases_ok [of intent] assms by simp

text \<open>C26: a number spoken as its decimal digits between words without digits is read back exactly, by \<^verbatim>\<open>set_timer\<close> as minutes and by the \<open>set volume to\<close> case of \<^verbatim>\<open>execute_command\<close> as a level (\<open>n / 100\<close>).\<close>

theorem spoken_number_roundtrip:
  assumes "filter is_digit pre = []" and "filter is_digit rest = []"
  shows "timer_minutes (pre @ str_nat n @ rest) = n
    \<and> set_volume_level (pre @ str_nat n @ rest) = Inr (real n / 100)"
  using filter_digits_embedded [OF assms, of n]
  by (simp add: timer_minutes_def set_volume_level_def digits_value_str_nat)

text \<open>C27: muting and then unmuting through \<^verbatim>\<open>adjust_volume\<close> restores every session: the master levels are untouched and only the mute flags end cleared.\<close>

theorem adjust_volume_mute_unmute:
  "fst (adjust_volume (fst (adjust_volume m (Some ''mute'') None)) (Some ''unmute'') None)
     = map (\<lambda>s. s\<lparr>session_muted := False\<rparr>) m"
  by (simp add: adjust_volume_def adjust_session_mute_unmute)

text \<open>C28: the relative volume commands keep every master level in \<open>[0, 1]\<close>.\<close>

theorem adjust_volume_bounds:
  assumes "\<forall>s \<in> set m. 0 \<le> master_volume s \<and> master_volume s \<le> 1"
  shows "\<forall>s \<in> set (fst (adjust_volume m (Some a) None)). 0 \<le> master_volume s \<and> master_volume s \<le> 1"
  using assms by (auto simp: adjust_volume_def adjust_session_def)

text \<open>The assistant over the shared dictionary and the host refines the command-thread model: running the handlers never changes the shared dictionary or how \<^verbatim>\<open>run\<close> ends, so every property of \<open>run_loop\<close> holds of the whole assistant.\<close>

theorem host_loop_refines_run_loop:
  "fst (fst (host_loop classify gh heard)) = fst (run_loop classify (fst gh) (map fst heard))
   \<and> snd (snd (host_loop classify gh heard)) = snd (snd (run_loop classify (fst gh) (map fst heard)))"
proof (induction classify gh heard rule: host_loop.induct)
  case (3 classify gh command heard_out inp heard)
  show ?case
  proof (cases "command = [] \<or> str_in ''exit'' command \<or> str_in ''quit'' command")
    case True
    with 3(1) show ?thesis by (auto simp: prod.case_eq_if)
  next
    case False
    obtain g' h' out exc where a: "assistant_command classify inp gh command = ((g', h'), out, exc)"
      by (metis prod.exhaust)
    from assistant_command_shared [of classify inp gh command] a
    have e: "fst (execute_command classify (fst gh) command) = g'"
            "snd (snd (execute_command classify (fst gh) command)) = exc"
      by simp_all
    show ?thesis
    proof (cases exc)
      case None
      have ih: "fst (fst (host_loop classify (g', h') heard)) = fst (run_loop classify g' (map fst heard))
          \<and> snd (snd (host_loop classify (g', h') heard)) = snd (snd (run_loop classify g' (map fst heard)))"
        using 3(2) [of "(g', h')" "(out, exc)" g' h' out exc] False a None by simp
      obtain g2 e2 where x: "execute_command classify (fst gh) command = (g2, e2, None)"
        using e None by (metis prod.exhaust_sel)
      from x e have "g2 = g'" by simp
      with False a None ih x show ?thesis by (auto split: prod.split)
    next
      case (Some err)
      obtain g2 e2 where x: "execute_command classify (fst gh) command = (g2, e2, Some err)"
        using e Some by (metis prod.exhaust_sel)
      from x e have "g2 = g'" by simp
      with False a Some x show ?thesis by auto
    qed
  qed
qed (simp_all add: prod.case_eq_if)

text \<open>C30: along any run of the assistant that starts without the attribute \<open>assistant.recording\<close> (as \<open>JarvisAssistant.__init__\<close> leaves it) the attribute is never assigned: \<open>start recording\<close> always ends in the \<open>AttributeError\<close> its handler catches, so screen recording never starts.\<close>

theorem recording_never_starts:
  assumes "recording_attr (snd gh) = None"
  shows "recording_attr (snd (fst (host_loop classify gh heard))) = None"
  by (rule host_loop_preserves [where P = "\<lambda>h. recording_attr h = None", OF run_action_recording assms])

text \<open>C22: saying \<open>unmute volume\<close> mutes every audio session: the command matches the earlier candidate \<open>mute volume\<close>. Any command containing \<open>unmute volume\<close> mutes likewise; unmuting is reached only when a phrasing that contains no candidate intent is classified as \<open>unmute volume\<close> by the transformer.\<close>

theorem unmute_command_mutes:
  "mixer (snd (fst (assistant_command classify inp (g, h) ''unmute volume'')))
     = map (\<lambda>s. s\<lparr>session_muted := True\<rparr>) (mixer h)"
  using perform_effects_speech [OF handle_gestures_speech [of g], of inp h]
  by (simp add: assistant_command_def execute_command_unmute perform_effects_append run_action_def
      adjust_volume_def adjust_session_mute_unmute prod.case_eq_if Let_def)

text \<open>The help text advertises \<open>search web\<close>, which is a candidate intent but has no branch in the dispatcher: the assistant answers that it is not implemented.\<close>

theorem help_advertises_unimplemented:
  "Say ''Web: open youtube, open google, search web...'' \<in> set show_help
   \<and> match_intent ''search web'' = Some ''search web''
   \<and> execute_specific_command ''search web''
       = Inr (Speak_text ''I understood the command but haven't implemented that yet'')"
  by (simp add: show_help_def HELP_CATEGORIES_def match_intent_def CANDIDATE_INTENTS_def
      execute_specific_command_def SYSTEM_COMMANDS_def)

end
