(* ===== verification/Commands.thy ===== *)
theory Commands
  imports Handlers
begin

text \<open>
  The standalone voice assistant of \<^verbatim>\<open>src/commands.py\<close>: its command functions
  (lines 100--256), the argument extraction of \<^verbatim>\<open>execute_command\<close> (lines 49--91) and its
  listener loop (lines 32--47, 93--98). The routing itself, \<open>commands_execute\<close>, and the
  intent tables are in \<open>Intents\<close>; the classifier answer and the tokens spaCy
  produces for a command are inputs. What a function says or asks of the OS is a list of
  \<open>handler_effect\<close>s of \<open>Handlers\<close>.
\<close>

section \<open>Python string methods\<close>

text \<open>\<open>s.replace(old, new)\<close>: every non-overlapping occurrence, left to right (for a
  non-empty \<open>old\<close>, the only case the module uses).\<close>

function py_replace :: "string \<Rightarrow> string \<Rightarrow> string \<Rightarrow> string" where
  "py_replace old new [] = []"
| "py_replace old new (c # cs) =
     (if old \<noteq> [] \<and> prefix old (c # cs) then new @ py_replace old new (drop (length old) (c # cs))
      else c # py_replace old new cs)"
  by pat_completeness auto
termination
  by (relation "measure (\<lambda>(_, _, s). length s)") auto

definition py_isspace :: "char \<Rightarrow> bool" where
  "py_isspace c = (of_char c = (32::nat) \<or> ((9::nat) \<le> of_char c \<and> of_char c \<le> (13::nat)))"

definition py_strip :: "string \<Rightarrow> string" where
  "py_strip s = rev (dropWhile py_isspace (rev (dropWhile py_isspace s)))"

text \<open>\<open>int(text)\<close> on a string: surrounding whitespace, an optional sign and ASCII digits
  (digit-group underscores are not modelled); anything else raises \<open>ValueError\<close>.\<close>

definition py_int_of_str :: "string \<Rightarrow> py_error + int" where
  "py_int_of_str s =
     (let t = py_strip s;
          (sign, ds) = (case t of CHR ''-'' # r \<Rightarrow> (-1, r) | CHR ''+'' # r \<Rightarrow> (1, r) | _ \<Rightarrow> (1, t))
      in if ds \<noteq> [] \<and> list_all is_digit ds then Inr (sign * int (digits_value ds))
         else Inl (ValueError (''invalid literal for int() with base 10: '' @ s)))"

section \<open>\<^verbatim>\<open>dependency_parse\<close> (lines 49--53)\<close>

text \<open>A token of \<open>nlp(command)\<close>: its text and spaCy's \<open>like_num\<close> flag, which is also set
  for number words (\<open>five\<close>) and numerals with separators (\<open>1,000\<close>).\<close>

record spacy_token =
  tok_text :: string
  like_num :: bool

text \<open>\<open>[int(token.text) for token in doc if token.like_num]\<close>: the first token \<open>int\<close>
  rejects raises.\<close>

fun parse_numbers :: "spacy_token list \<Rightarrow> py_error + int list" where
  "parse_numbers [] = Inr []"
| "parse_numbers (t # ts) =
     (if like_num t then
        (case py_int_of_str (tok_text t) of
           Inl e \<Rightarrow> Inl e
         | Inr n \<Rightarrow> (case parse_numbers ts of Inl e \<Rightarrow> Inl e | Inr ns \<Rightarrow> Inr (n # ns)))
      else parse_numbers ts)"

section \<open>The command functions (lines 100--256)\<close>

text \<open>What the functions read of the host: the audio sessions, \<open>os.name\<close>, whether
  \<open>pywhatkit\<close> can be imported, \<open>os.getcwd()\<close>, whether \<open>gw.getActiveWindow()\<close>
  finds a window, and the \<open>psutil\<close> readings \<^verbatim>\<open>monitor_system\<close> speaks.\<close>

record commands_host =
  cmd_mixer :: mixer
  os_name :: string
  has_pywhatkit :: bool
  cwd :: string
  active_window :: bool
  cmd_readings :: host_readings

definition system_session :: "audio_session \<Rightarrow> bool" where
  "system_session s = (session_process s = Some ''System'')"

text \<open>The loops of \<^verbatim>\<open>increase_volume\<close>, \<^verbatim>\<open>decrease_volume\<close>, \<^verbatim>\<open>mute_volume\<close> and
  \<^verbatim>\<open>unmute_volume\<close> (lines 219--256): only sessions of the process named \<open>System\<close>, with
  the level computed in percent.\<close>

definition on_system_sessions :: "(real \<Rightarrow> real) \<Rightarrow> mixer \<Rightarrow> mixer" where
  "on_system_sessions f m = map (\<lambda>s. if system_session s then s\<lparr>master_volume := f (master_volume s)\<rparr> else s) m"

definition commands_increase_volume :: "mixer \<Rightarrow> mixer \<times> handler_effect list" where
  "commands_increase_volume m =
     (on_system_sessions (\<lambda>v. min 100 (v * 100 + 10) / 100) m, [Say ''Volume increased.''])"

definition commands_decrease_volume :: "mixer \<Rightarrow> mixer \<times> handler_effect list" where
  "commands_decrease_volume m =
     (on_system_sessions (\<lambda>v. max 0 (v * 100 - 10) / 100) m, [Say ''Volume decreased.''])"

definition commands_mute_volume :: "mixer \<Rightarrow> mixer \<times> handler_effect list" where
  "commands_mute_volume m = (on_system_sessions (\<lambda>v. 0) m, [Say ''System volume muted.''])"

definition commands_unmute_volume :: "mixer \<Rightarrow> mixer \<times> handler_effect list" where
  "commands_unmute_volume m = (on_system_sessions (\<lambda>v. 0.5) m, [Say ''System volume unmuted.''])"

text \<open>\<^verbatim>\<open>set_volume(level)\<close> (lines 209--216), which no intent reaches: the level in percent,
  not clamped.\<close>

definition commands_set_volume :: "int \<Rightarrow> mixer \<Rightarrow> mixer \<times> handler_effect list" where
  "commands_set_volume level m =
     (on_system_sessions (\<lambda>v. of_int level / 100) m, [Say (''Volume set to '' @ str_int level @ '' percent.'')])"

definition os_specific :: "commands_host \<Rightarrow> string \<Rightarrow> string \<Rightarrow> handler_effect list" where
  "os_specific h nt_cmd posix_cmd =
     (if os_name h = ''nt'' then [Os_system nt_cmd] else if os_name h = ''posix'' then [Os_system posix_cmd] else [])"

definition window_op :: "commands_host \<Rightarrow> string \<Rightarrow> string \<Rightarrow> handler_effect list" where
  "window_op h op done_text =
     (if active_window h then [Window_op op, Say done_text] else [Say ''No active window found.''])"

text \<open>The function \<open>INTENT_FUNCTIONS[intent]\<close> names, applied as the dictionary's lambdas
  apply it: \<open>search_web\<close> and \<open>play_music\<close> get the command with every \<open>search\<close> or
  \<open>play\<close> removed and stripped, \<open>control_brightness\<close> the first number or 50.\<close>

definition commands_call ::
  "commands_host \<Rightarrow> string \<Rightarrow> string \<Rightarrow> int list \<Rightarrow> commands_host \<times> handler_effect list" where
  "commands_call h f command numbers =
     (if f = ''open_browser'' then (h, [Browser_open ''https://www.google.com'', Say ''Opening the browser.''])
      else if f = ''search_web'' then
        (let query = py_strip (py_replace ''search'' [] command)
         in (h, [Browser_open (''https://www.google.com/search?q='' @ query), Say (''Searching for '' @ query @ ''.'')]))
      else if f = ''play_music'' then
        (let song = py_strip (py_replace ''play'' [] command)
         in (h, if has_pywhatkit h then [Play_on_youtube song, Say (''Playing '' @ song @ '' on YouTube.'')]
                else [Say ''Sorry, the required module to play music is not installed.'']))
      else if f = ''monitor_system'' then
        (h, [Say (''System health: CPU usage is at '' @ health_cpu (cmd_readings h) @ ''% and RAM usage is at ''
                  @ health_ram (cmd_readings h) @ ''%.'')])
      else if f = ''control_brightness'' then
        (let level = (case numbers of [] \<Rightarrow> 50 | n # _ \<Rightarrow> n)
         in (h, [Say (''Setting brightness to '' @ str_int level @ '' percent.'')]))
      else if f = ''restart_wifi'' then
        (h, [Say ''Restarting WiFi.'', Os_system ''netsh interface set interface name='Wi-Fi' admin=disable'',
             Os_system ''netsh interface set interface name='Wi-Fi' admin=enable'', Say ''WiFi restarted.''])
      else if f = ''control_system'' then (h, [Say ''Shutting down the system.'', Os_system ''shutdown /s /t 1''])
      else if f = ''maximize_window'' then (h, window_op h ''maximize'' ''Window maximized.'')
      else if f = ''minimize_window'' then (h, window_op h ''minimize'' ''Window minimized.'')
      else if f = ''open_calculator'' then (h, os_specific h ''start calc'' ''gnome-calculator'' @ [Say ''Opening calculator.''])
      else if f = ''open_settings'' then
        (h, os_specific h ''start ms-settings:'' ''gnome-control-center'' @ [Say ''Opening settings.''])
      else if f = ''take_screenshot'' then
        (let filepath = cwd h @ [CHR 0x5C] @ ''screenshot.png''
         in (h, [Save_screenshot filepath, Say (''Screenshot saved at '' @ filepath @ ''.'')]))
      else
        (let (m, out) = (if f = ''increase_volume'' then commands_increase_volume (cmd_mixer h)
                         else if f = ''decrease_volume'' then commands_decrease_volume (cmd_mixer h)
                         else if f = ''mute_volume'' then commands_mute_volume (cmd_mixer h)
                         else if f = ''unmute_volume'' then commands_unmute_volume (cmd_mixer h)
                         else (cmd_mixer h, []))
         in (h\<lparr>cmd_mixer := m\<rparr>, out)))"

section \<open>\<^verbatim>\<open>classify_intent\<close> (lines 55--58)\<close>

text \<open>The zero-shot pipeline answers with the candidate labels ranked by score;
  \<open>result['labels'][0], result['scores'][0]\<close> is its first entry, and an empty answer
  would raise \<open>IndexError\<close> (\<open>None\<close> here).\<close>

definition classify_intent ::
  "(string \<Rightarrow> string list \<Rightarrow> (string \<times> real) list) \<Rightarrow> string \<Rightarrow> (string \<times> real) option" where
  "classify_intent zero_shot command =
     (case zero_shot command CANDIDATE_INTENTS_commands of [] \<Rightarrow> None | best # _ \<Rightarrow> Some best)"

section \<open>\<^verbatim>\<open>execute_command\<close> and the listener\<close>

text \<open>\<^verbatim>\<open>execute_command(command)\<close>: \<open>dependency_parse\<close> runs first and is not guarded, so
  its \<open>ValueError\<close> escapes; then the routing of \<open>commands_execute\<close>.\<close>

definition commands_execute_command ::
  "(string \<Rightarrow> string \<times> real) \<Rightarrow> spacy_token list \<Rightarrow> commands_host \<Rightarrow> string
     \<Rightarrow> py_error + commands_host \<times> handler_effect list" where
  "commands_execute_command classify tokens h command =
     (case parse_numbers tokens of
        Inl e \<Rightarrow> Inl e
      | Inr numbers \<Rightarrow>
          (case commands_execute classify command of
             commands_outcome.Say t \<Rightarrow> Inr (h, [handler_effect.Say t])
           | Run_function f \<Rightarrow> Inr (commands_call h f command numbers)))"

datatype listener_end = Listener_crashed py_error | Listener_waiting

text \<open>\<^verbatim>\<open>command_listener()\<close> over the results of \<^verbatim>\<open>listen()\<close> (\<open>""\<close> on any recognition
  failure), each with the tokens of the command; \<^verbatim>\<open>listen\<close> says \<open>Listening...\<close> each
  time. The loop never ends by itself: it stops only when an exception escapes.\<close>

fun listener_loop ::
  "(string \<Rightarrow> string \<times> real) \<Rightarrow> commands_host \<Rightarrow> (string \<times> spacy_token list) list
     \<Rightarrow> commands_host \<times> handler_effect list \<times> listener_end" where
  "listener_loop classify h [] = (h, [], Listener_waiting)"
| "listener_loop classify h ((command, tokens) # heard) =
     (if command = [] then
        (let (h', out, r) = listener_loop classify h heard in (h', Say ''Listening...'' # out, r))
      else
        (case commands_execute_command classify tokens h command of
           Inl e \<Rightarrow> (h, [Say ''Listening...''], Listener_crashed e)
         | Inr (h1, out1) \<Rightarrow>
             (let (h', out, r) = listener_loop classify h1 heard in (h', Say ''Listening...'' # out1 @ out, r))))"

definition command_listener ::
  "(string \<Rightarrow> string \<times> real) \<Rightarrow> commands_host \<Rightarrow> (recognition \<times> spacy_token list) list
     \<Rightarrow> commands_host \<times> handler_effect list \<times> listener_end" where
  "command_listener classify h recs =
     (let (h', out, r) = listener_loop classify h (map (\<lambda>(rec, tokens). (commands_listen rec, tokens)) recs)
      in (h', Say ''Hello! How can I assist you?'' # out, r))"

section \<open>Lemmas\<close>

lemma percent_step:
  "min 100 (v * 100 + 10) / 100 = min (v + 0.1) (1::real)"
  "max 0 (v * 100 - 10) / 100 = max (v - 0.1) (0::real)"
  by (simp_all add: min_def max_def)

lemma parse_numbers_rejects:
  assumes "t \<in> set tokens" and "like_num t" and "\<forall>n. py_int_of_str (tok_text t) \<noteq> Inr n"
  shows "\<exists>e. parse_numbers tokens = Inl e"
  using assms
proof (induction tokens)
  case (Cons u tokens)
  show ?case
  proof (cases "u = t")
    case True
    with Cons.prems obtain e where "py_int_of_str (tok_text t) = Inl e"
      by (cases "py_int_of_str (tok_text t)") auto
    with True Cons.prems show ?thesis by simp
  next
    case False
    with Cons obtain e where "parse_numbers tokens = Inl e" by auto
    then show ?thesis by (auto split: sum.split)
  qed
qed simp

text \<open>Unlike \<^verbatim>\<open>adjust_volume\<close> of \<^verbatim>\<open>jarvis_commands.py\<close>, muting and unmuting here is not a
  round trip: the \<open>System\<close> sessions end at half volume, whatever their level was.\<close>

lemma commands_mute_unmute_lossy:
  "fst (commands_unmute_volume (fst (commands_mute_volume m))) = on_system_sessions (\<lambda>v. 0.5) m"
  by (simp add: commands_mute_volume_def commands_unmute_volume_def on_system_sessions_def comp_def
      system_session_def)

text \<open>A pipeline that ranks the labels it is given answers \<^verbatim>\<open>classify_intent\<close> with one of
  the candidates, which is the hypothesis of the fused-label property of \<open>Intents\<close>.\<close>

lemma py_replace_absent:
  "\<not> sublist old s \<Longrightarrow> py_replace old new s = s"
proof (induction old new s rule: py_replace.induct)
  case (2 old new c cs)
  then have "\<not> prefix old (c # cs)" and "\<not> sublist old cs"
    by (auto simp: sublist_Cons_right)
  with 2 show ?case by simp
qed simp

lemma py_replace_delete_length:
  "old \<noteq> [] \<Longrightarrow> new = [] \<Longrightarrow> length (py_replace old new s) \<le> length s
   \<and> (sublist old s \<longrightarrow> length (py_replace old new s) < length s)"
proof (induction old new s rule: py_replace.induct)
  case (2 old new c cs)
  show ?case
  proof (cases "prefix old (c # cs)")
    case True
    have l: "length old \<le> length (c # cs)" using True by (rule prefix_length_le)
    have p: "0 < length old" using 2(3) by simp
    have "length (py_replace old new (drop (length old) (c # cs))) \<le> length (c # cs) - length old"
      using 2 True by simp
    with l p have "length (py_replace old new (drop (length old) (c # cs))) < length (c # cs)"
      by linarith
    with True 2 show ?thesis by simp
  next
    case False
    with 2 show ?thesis by (auto simp: sublist_Cons_right)
  qed
qed simp

lemma py_strip_length: "length (py_strip s) \<le> length s"
  by (simp add: py_strip_def) (metis length_dropWhile_le length_rev order_trans)

lemma py_strip_space: "py_strip (CHR '' '' # s) = py_strip s"
  by (simp add: py_strip_def py_isspace_def)

lemma search_prefix_replaced:
  "py_replace ''search'' [] (''search '' @ q) = CHR '' '' # py_replace ''search'' [] q"
  by simp

lemma search_web_query:
  assumes "parse_numbers tokens = Inr numbers" and "classify command = (''search web'', score)"
    and "\<not> score < 0.3"
  shows "commands_execute_command classify tokens h command
           = Inr (h, [Browser_open (''https://www.google.com/search?q='' @ py_strip (py_replace ''search'' [] command)),
                      Say (''Searching for '' @ py_strip (py_replace ''search'' [] command) @ ''.'')])"
  using assms by (simp add: commands_execute_command_def commands_execute_def INTENT_FUNCTIONS_def commands_call_def Let_def)

lemma classify_intent_candidate:
  assumes "set (map fst (zero_shot command CANDIDATE_INTENTS_commands)) \<subseteq> set CANDIDATE_INTENTS_commands"
    and "classify_intent zero_shot command = Some (label, score)"
  shows "label \<in> set CANDIDATE_INTENTS_commands"
  using assms by (auto simp: classify_intent_def split: list.splits)

section \<open>Properties of the standalone module\<close>

text \<open>C33: the percent arithmetic of \<^verbatim>\<open>increase_volume\<close> and \<^verbatim>\<open>decrease_volume\<close> of \<^verbatim>\<open>commands.py\<close> implements the fraction arithmetic of \<^verbatim>\<open>adjust_volume\<close> of \<^verbatim>\<open>jarvis_commands.py\<close> on the sessions of the \<open>System\<close> process, and leaves the other sessions alone.\<close>

theorem commands_volume_refines:
  "fst (commands_increase_volume m)
     = map (\<lambda>s. if system_session s then adjust_session (Some ''increase'') None s else s) m
   \<and> fst (commands_decrease_volume m)
     = map (\<lambda>s. if system_session s then adjust_session (Some ''decrease'') None s else s) m"
  by (simp add: commands_increase_volume_def commands_decrease_volume_def on_system_sessions_def
      adjust_session_def percent_step)

text \<open>C34: a command in which spaCy flags a token as number-like that \<open>int()\<close> rejects (a number word such as \<open>five\<close>, a numeral with a separator) raises \<open>ValueError\<close> in \<^verbatim>\<open>dependency_parse\<close>, before any classification, and the exception ends the listener.\<close>

theorem number_word_crashes_listener:
  assumes "t \<in> set tokens" and "like_num t" and "\<forall>n. py_int_of_str (tok_text t) \<noteq> Inr n"
    and "command \<noteq> []"
  shows "\<exists>e. commands_execute_command classify tokens h command = Inl e
    \<and> listener_loop classify h ((command, tokens) # heard) = (h, [Say ''Listening...''], Listener_crashed e)"
proof -
  obtain e where "parse_numbers tokens = Inl e" using parse_numbers_rejects [OF assms(1-3)] by blast
  with assms(4) show ?thesis by (simp add: commands_execute_command_def)
qed

text \<open>C35: the search query is the command with every occurrence of \<open>search\<close> removed,
  also inside words. For a command \<open>search q\<close> routed to \<open>search_web\<close> (any tokens
  \<open>dependency_parse\<close> accepts, \<open>q\<close> without surrounding blanks), the browser is sent to
  exactly \<open>q\<close> if and only if \<open>search\<close> does not occur in \<open>q\<close>: \<open>search research
  papers\<close> searches for \<open>re papers\<close>.\<close>

theorem search_query_mangled:
  assumes "parse_numbers tokens = Inr numbers" and "classify (''search '' @ q) = (''search web'', score)"
    and "\<not> score < 0.3" and "py_strip q = q"
  shows "commands_execute_command classify tokens h (''search '' @ q)
           = Inr (h, [Browser_open (''https://www.google.com/search?q='' @ q), Say (''Searching for '' @ q @ ''.'')])
         \<longleftrightarrow> \<not> sublist ''search'' q"
proof -
  define query where "query = py_strip (py_replace ''search'' [] q)"
  have r: "commands_execute_command classify tokens h (''search '' @ q)
             = Inr (h, [Browser_open (''https://www.google.com/search?q='' @ query), Say (''Searching for '' @ query @ ''.'')])"
    using search_web_query [of tokens numbers classify "''search '' @ q" score h, OF assms(1-3)] by (simp add: query_def py_strip_space)
  show ?thesis
  proof (cases "sublist ''search'' q")
    case True
    then have "length query < length q"
      using py_replace_delete_length [of "''search''" "[]" q] py_strip_length [of "py_replace ''search'' [] q"]
      by (simp add: query_def)
    then show ?thesis using True r by auto
  next
    case False
    then show ?thesis using r assms(4) by (simp add: query_def py_replace_absent)
  qed
qed

end
