(* ===== verification/Spec2Isabelle.thy ===== *)
theory Spec2Isabelle
  imports System Commands
begin

text \<open>
  \<^bold>\<open>A verification model of the Automind assistant: its gesture recognizer, its
  command thread and their interleaving.\<close>

  The repository is a voice- and gesture-driven desktop assistant. Its algorithmic core is
  \<^verbatim>\<open>gesture_recognition\<close> in \<^verbatim>\<open>src/gesture.py\<close>: a thread that reads camera frames, asks
  MediaPipe for the landmarks of at most one hand, runs four detectors on them (thumbs
  up/down, horizontal swipe, index-finger scroll, open palm for volume or mouse), arbitrates
  between them with cooldown timers, and writes the outcome into a dictionary shared with
  the command thread of \<^verbatim>\<open>src/app.py\<close> (\<^verbatim>\<open>JarvisAssistant\<close>), which polls
  \<open>gesture_state["detected"]\<close> when it handles a voice command.

  \<^bold>\<open>Theories and what they model.\<close>
  \<^item> \<open>Prelude\<close>: Python's \<open>int()\<close> on floats (\<open>py_int\<close>, truncation towards zero),
    \<open>x or 0\<close> (\<open>py_or_zero\<close>), the exponential smoothing step \<open>blend\<close> written out in
    the source, \<open>smoothing_factor\<close>, and the collection \<open>gesture_consts\<close> of the
    recognizer's numeric constants.
  \<^item> \<open>Geometry\<close>: the landmark frame (\<open>landmark\<close>, \<open>point\<close>, \<open>hand\<close>), the closure
    \<open>calculate_angle\<close> (lines 48--64) with its captured \<open>last_valid_angle\<close> passed in and
    returned, and the planar distance of \<open>detect_open_palm\<close>.
  \<^item> \<open>Detectors\<close>: \<open>detect_thumbs_gesture\<close> (66--102) with its \<open>break\<close>ing finger loop
    \<open>fingers_curled\<close>, and \<open>detect_open_palm\<close> (130--175) with its counting loop
    \<open>count_open\<close>.
  \<^item> \<open>Swipe\<close>: \<open>detect_swipe\<close> (105--128) over the record of its two nonlocal variables.
  \<^item> \<open>Scroll\<close>: the scroll block of the loop body (249--291): \<open>index_angle\<close>,
    \<open>middle_finger_curled\<close>, \<open>scroll_engaged\<close> and \<open>scroll_control\<close> over the record of the
    five closure variables it owns; a \<open>pyautogui.scroll(n)\<close> is the result \<open>Some n\<close>.
  \<^item> \<open>Shared_State\<close>: \<open>DEFAULT_GESTURE_STATE\<close> of \<^verbatim>\<open>src/config.py\<close> as the record
    \<open>gesture_state\<close>, and the OS calls the recognizer makes as \<open>os_action\<close>.
  \<^item> \<open>Palm\<close>: the open-palm branch (293--336): mouse control with smoothing against the
    module globals, or volume from the wrist height, or the reset of the smoothing.
  \<^item> \<open>Recognizer\<close>: the arbiter and the loop. \<open>thumbs_stage\<close>, \<open>swipe_stage\<close> and
    \<open>process_hand\<close> are the loop body in the source's order; \<open>frame_process\<close> and
    \<open>frame_step\<close> one iteration of \<open>while gesture_state["active"]\<close> (throttling at 25 ms,
    landmark inference on even tenths of a second only); \<open>recognizer_loop\<close> the loop over a
    finite list of frames; \<open>gesture_recognition\<close> the whole function.
  \<^item> \<open>Intents\<close>: the tables of \<^verbatim>\<open>src/config.py\<close> (\<open>SYSTEM_COMMANDS\<close>, \<open>APP_PATHS\<close>,
    \<open>SPECIAL_FOLDERS\<close>, \<open>WEB_URLS\<close>, \<open>CANDIDATE_INTENTS\<close>), Python's \<open>in\<close> on strings
    (\<open>str_in\<close>, proved equal to \<open>sublist\<close>), the first-match loop of
    \<open>JarvisAssistant.execute_command\<close> (\<open>match_intent\<close>), the \<open>if\<close>/\<open>elif\<close> dispatch
    \<open>execute_specific_command\<close> of \<^verbatim>\<open>src/jarvis_commands.py\<close> (a handler call is a
    \<open>command_action\<close>, a raised exception an \<open>Inl\<close> of \<open>py_error\<close>), and the routing of
    the standalone \<^verbatim>\<open>src/commands.py\<close> (\<open>commands_execute\<close>).
  \<^item> \<open>Consumer\<close>: the command thread of \<^verbatim>\<open>src/app.py\<close>: \<open>handle_gestures\<close>,
    \<open>toggle_gestures\<close>, \<open>execute_command\<close> (which returns the shared dictionary, the
    effects so far and the exception that escapes, if any) and the main loop \<open>run_loop\<close>
    over the list of \<open>listen()\<close> results; the transformer classifier is a parameter.
    Also \<open>control_system\<close> of \<^verbatim>\<open>jarvis_commands.py\<close>, the voice or thumbs-up confirmation
    loop, over the finite list of its polls (\<open>None\<close> when the list ends inside the
    three-second window), and \<open>control_system_call\<close>, the whole call with its messages and
    the \<open>except\<close> handler of a command that fails to start.
  \<^item> \<open>System\<close>: the two threads as an inductive step relation \<open>sys_step\<close> on
    \<open>system_state\<close> (recognizer state, shared dictionary, the status of each thread):
    recognizer start (line 25 of \<^verbatim>\<open>gesture.py\<close>), one frame, loop exit; one command, a
    crash, or \<open>exit\<close>; \<open>sys_reach\<close> is reachability from \<open>__init__\<close>. Steps are
    atomic and interleave in any order.
  \<^item> \<open>Host_Queries\<close>: what the assistant reads from outside as \<open>host_readings\<close>
    (\<open>platform\<close>, \<open>psutil\<close>, the clock, \<open>pyjokes\<close>, the network; a float as the text
    \<open>str()\<close> prints, a failing call as its exception text) and the handlers that report it
    (\<^verbatim>\<open>get_system_info\<close>, \<^verbatim>\<open>get_battery_status\<close>, the clock, joke and IP handlers), the
    two \<^verbatim>\<open>listen\<close> functions over what the recognizer produced (\<open>recognition\<close>), the
    classifier's loading, the Python string helpers and the effects of all handlers.
  \<^item> \<open>Handlers\<close>: the handlers of \<^verbatim>\<open>src/jarvis_commands.py\<close> over \<open>host_state\<close> (the
    \<open>pycaw\<close> audio sessions, the working directory with its names compared without
    regard to case as on NTFS (\<open>cwd_lookup\<close>), the attributes of the assistant
    object they read and write); \<open>run_action\<close> interprets each \<open>command_action\<close> by its
    handler, \<open>assistant_command\<close> runs one voice command end to end, and \<open>host_loop\<close> is
    \<^verbatim>\<open>run()\<close> over the shared dictionary and the host together, each step given the
    result of one \<open>listen()\<close> call (\<open>assistant_main\<close> adds the greeting).
  \<^item> \<open>Commands\<close>: the standalone \<^verbatim>\<open>src/commands.py\<close>: Python's \<open>str.replace\<close>,
    \<open>str.strip\<close> and \<open>int()\<close> on strings, \<open>dependency_parse\<close> over spaCy's tokens, the
    command functions (\<open>commands_call\<close>), \<open>classify_intent\<close>, \<open>execute_command\<close> and
    \<open>command_listener\<close> over the recognizer's results.
  Time is an input: each \<open>time.time()\<close> of an iteration is a field of \<open>frame_input\<close>
  (the loop's read, the one inside \<open>detect_swipe\<close>, the one of line 274), and the four reads
  at start-up are taken as one instant \<open>t0\<close>. Floats are exact reals (no IEEE rounding);
  \<open>sqrt\<close> and \<open>arccos\<close> are HOL's. Every loop runs over a finite list of its inputs
  (frames, \<open>listen()\<close> results, confirmation polls, sessions), so every definition is
  total and structural and no fuel is needed: running out of inputs models a loop still
  running. The decimal printer \<open>str_nat\<close> terminates by \<open>fun\<close>'s own measure.

  \<^bold>\<open>What is proved\<close> (claims C1--C35).
  The shared state: C1 \<open>detected\<close> only holds a recognizer label and the volume a fraction
  along every run of the recognizer, C2 also under every interleaving of the two threads.
  Cooldown arbitration: C3 no two discrete gestures within the swipe cooldown, C4 a frame
  with a wrist movement past the threshold reports exactly one swipe and one key press,
  C5 a swipe cannot override a thumbs event of the same frame. The scroll controller: C6
  its invariant along every run, C7 conservation of the scroll signal, C8 emission bounds,
  C9 reset; C10 the bend angle is in \<open>[0, 180]\<close>. The detectors: C11 the thumbs-up
  characterisation, C12 a mirrored thumbs-up is no thumbs-down. The open palm: C13 the
  volume mapping, C14 it writes \<open>volume_control\<close> into \<open>detected\<close>, C15 so a hand that is
  thumbs-up and open palm at once loses its thumbs-up, C16 the mouse smoothing closes 4/5
  of the distance per frame. The command thread and the threads together: C17 gesture
  consumption, C18 re-enabling after the recognizer's exit leaves it stopped, C19 after
  that exit no gesture is ever reported. Dispatch and handlers: C20 the dispatcher's
  actions are well formed, C21 two intents shadowed by substrings, C22 so \<open>unmute
  volume\<close> mutes, C23 every system intent raises, C24 which ends \<open>run\<close> (even \<open>lock\<close>
  inside \<open>o'clock\<close>), C25 \<open>set volume to\<close> never works, C26 a spoken number is read back
  exactly, C27 mute/unmute is a round trip, C28 the relative volume commands stay in
  \<open>[0, 1]\<close>, C29 psutil's unknown battery time is announced as \<open>-1\<close> minutes, C30 screen
  recording never starts, C31 the confirmation loop of \<^verbatim>\<open>control_system\<close> ends once its
  window has passed. \<^verbatim>\<open>commands.py\<close>: C32 two labels fused by a missing comma, C33 its
  volume arithmetic refines that of \<^verbatim>\<open>jarvis_commands.py\<close>, C34 a number word crashes
  the listener, C35 the search query is the spoken one exactly when it does not contain
  \<open>search\<close>. Further lemmas state the stale \<open>last_hand_x\<close> after a swipe
  (\<open>detect_swipe_stale_x\<close>, \<open>detect_swipe_repeats\<close>), the finger loop against its
  declarative reading (\<open>fingers_curled_iff\<close>), that the assistant over the host agrees
  with the command-thread model (\<open>host_loop_refines_run_loop\<close>), the specification's
  three-frame swipe test (\<open>swipe_sequence_single_swipe\<close>) and the help text advertising an
  unimplemented command (\<open>help_advertises_unimplemented\<close>).

  \<^bold>\<open>Not modelled.\<close> Camera capture, MediaPipe's inference (its answer is an input), drawing
  and text overlays; the speech engine and recognizer, spaCy's tokenizer and the
  transformer pipeline (what they produce is an input: \<open>recognition\<close>, tokens, the ranked
  labels); the libraries the handlers call (their answers are \<open>host_readings\<close>, their
  side effects \<open>handler_effect\<close> values), and IEEE rounding of the floats they return. The
  module imports, the module-level set-up of the libraries (\<^verbatim>\<open>commands.py\<close> lines
  17--20, the drawing set-up of \<^verbatim>\<open>gesture.py\<close>) and the \<^verbatim>\<open>__main__\<close> guards carry
  no behaviour beyond what the models take as given; \<^verbatim>\<open>speak()\<close> of \<^verbatim>\<open>commands.py\<close>
  is the \<open>Say\<close> effect itself. A thread switch inside a frame or a command is not
  modelled. Every other line of \<^verbatim>\<open>src/\<close> is translated by a definition.
\<close>

section \<open>Scenario fixtures\<close>

text \<open>Hands and frames used by the scenario theorems and the witnesses. A point hand has
  every landmark at one point: no finger is extended, every segment is degenerate.\<close>

abbreviation point_hand :: "real \<Rightarrow> hand" where
  "point_hand x \<equiv> (\<lambda>_. \<lparr>lm_x = x, lm_y = 0.5\<rparr>)"

abbreviation still_frame :: "timestamp \<Rightarrow> hand \<Rightarrow> frame_input" where
  "still_frame t h \<equiv>
     \<lparr>t_loop = t, frame_ok = True, detection = Some h, t_swipe = t, t_scroll = t, key_q = False\<rparr>"

abbreviation thumbs_hand :: hand where
  "thumbs_hand \<equiv> (\<lambda>_. \<lparr>lm_x = 0.5, lm_y = 0.5\<rparr>)(WRIST := \<lparr>lm_x = 0.5, lm_y = 0.8\<rparr>,
     THUMB_MCP := \<lparr>lm_x = 0.4, lm_y = 0.6\<rparr>, THUMB_IP := \<lparr>lm_x = 0.35, lm_y = 0.5\<rparr>,
     THUMB_TIP := \<lparr>lm_x = 0.3, lm_y = 0.4\<rparr>)"

text \<open>A thumbs-up whose other fingertips sit 0.015 above their PIP joints: curled for the
  thumbs detector (threshold 0.02), open for the palm detector (threshold 0.01).\<close>

abbreviation open_thumbs_hand :: hand where
  "open_thumbs_hand \<equiv> thumbs_hand(INDEX_FINGER_TIP := \<lparr>lm_x = 0.5, lm_y = 0.485\<rparr>,
     MIDDLE_FINGER_TIP := \<lparr>lm_x = 0.5, lm_y = 0.485\<rparr>, RING_FINGER_TIP := \<lparr>lm_x = 0.5, lm_y = 0.485\<rparr>,
     PINKY_TIP := \<lparr>lm_x = 0.7, lm_y = 0.485\<rparr>)"

abbreviation swipe_frames :: "frame_input list" where
  "swipe_frames \<equiv> [still_frame 1 (point_hand 0.3), still_frame 1.2 (point_hand 0.3),
                   still_frame 1.4 (point_hand 0.5)]"

section \<open>End-to-end properties\<close>

text \<open>A host as \<open>JarvisAssistant.__init__\<close> leaves it (no recording attributes), with one
  audio session, and a host of the standalone module.\<close>

abbreviation system_audio :: audio_session where
  "system_audio \<equiv> \<lparr>session_process = Some ''System'', master_volume = 0.95, session_muted = False\<rparr>"

abbreviation fresh_host :: host_state where
  "fresh_host \<equiv> \<lparr>mixer = [system_audio], cwd_entries = [], recording_attr = None,
                  recording_filename_attr = None, has_fourcc = False\<rparr>"

abbreviation on_battery :: battery_reading where
  "on_battery \<equiv> \<lparr>bat_percent = ''42'', power_plugged = False, secsleft = -1\<rparr>"

abbreviation sample_readings :: host_readings where
  "sample_readings \<equiv>
     \<lparr>snapshot = Inl ''disk C: not found'', battery_query = Inr (Some on_battery),
      clock_time = ''09:30 AM'', clock_date = ''Monday, November 09, 2026'', joke = ''A joke.'',
      public_ip = Inl ''ConnectionError'', health_cpu = ''12.5'', health_ram = ''48.0''\<rparr>"

abbreviation windows_host :: commands_host where
  "windows_host \<equiv> \<lparr>cmd_mixer = [system_audio], os_name = ''nt'', has_pywhatkit = False,
                    cwd = ''C:'', active_window = True, cmd_readings = sample_readings\<rparr>"

text \<open>The specification's swipe test. Wrist positions \<open>0.3, 0.3, 0.5\<close> on three
  processed frames, with the cooldowns elapsed, produce exactly one right swipe (one press of
  the right arrow key, \<open>detected = "swipe_right"\<close>) on the last frame, and none on the
  first two.\<close>

theorem swipe_sequence_single_swipe:
  "snd (snd (gesture_recognition (1920, 1080) 0 (take 2 swipe_frames) DEFAULT_GESTURE_STATE)) = []
   \<and> snd (snd (gesture_recognition (1920, 1080) 0 swipe_frames DEFAULT_GESTURE_STATE)) = [Press ''right'']
   \<and> detected (fst (snd (gesture_recognition (1920, 1080) 0 swipe_frames DEFAULT_GESTURE_STATE)))
       = Some ''swipe_right''"
  by (simp add: frame_eval DEFAULT_GESTURE_STATE_def)

section \<open>Witnesses\<close>

text \<open>Each theorem with a hypothesis, applied where its hypotheses hold.\<close>

theorem gesture_recognition_shared_ok_witness:
  "shared_ok DEFAULT_GESTURE_STATE
   \<and> shared_ok (fst (snd (gesture_recognition (1920, 1080) 0 swipe_frames DEFAULT_GESTURE_STATE)))"
  by (rule conjI [OF shared_ok_default gesture_recognition_shared_ok [OF shared_ok_default]])

theorem frame_process_cooldown_witness:
  "t_loop (still_frame 1.1 thumbs_hand) - last_gesture_time (recognizer_init 1) \<le> swipe_cooldown
   \<and> detected (fst (snd (frame_process (1920, 1080) (still_frame 1.1 thumbs_hand) (recognizer_init 1) DEFAULT_GESTURE_STATE)))
       \<in> {None, Some ''mouse_move'', Some ''volume_control''}
   \<and> last_gesture_time (fst (frame_process (1920, 1080) (still_frame 1.1 thumbs_hand) (recognizer_init 1) DEFAULT_GESTURE_STATE))
       = last_gesture_time (recognizer_init 1)
   \<and> (\<forall>k. Press k \<notin> set (snd (snd (frame_process (1920, 1080) (still_frame 1.1 thumbs_hand) (recognizer_init 1) DEFAULT_GESTURE_STATE))))"
proof -
  have h: "t_loop (still_frame 1.1 thumbs_hand) - last_gesture_time (recognizer_init 1) \<le> swipe_cooldown"
    by (simp add: recognizer_init_def gesture_consts)
  show ?thesis by (rule conjI [OF h frame_process_cooldown [OF h]])
qed

theorem swipe_blocked_by_thumbs_witness:
  "1 - last_gesture_time (recognizer_init 0) > gesture_cooldown
   \<and> detect_thumbs_gesture thumbs_hand = Some ''thumbs_up''
   \<and> detected (fst (snd (swipe_stage 1 1 (fst (thumbs_stage 1 (recognizer_init 0) DEFAULT_GESTURE_STATE thumbs_hand))
        (snd (thumbs_stage 1 (recognizer_init 0) DEFAULT_GESTURE_STATE thumbs_hand)) thumbs_hand))) = Some ''thumbs_up''
   \<and> snd (snd (swipe_stage 1 1 (fst (thumbs_stage 1 (recognizer_init 0) DEFAULT_GESTURE_STATE thumbs_hand))
        (snd (thumbs_stage 1 (recognizer_init 0) DEFAULT_GESTURE_STATE thumbs_hand)) thumbs_hand)) = []"
proof -
  have h1: "1 - last_gesture_time (recognizer_init 0) > gesture_cooldown"
    by (simp add: recognizer_init_def gesture_consts)
  have h2: "detect_thumbs_gesture thumbs_hand = Some ''thumbs_up''"
    by (simp add: detect_thumbs_gesture_def Let_def finger_check_points_def)
  have h3: "thumbs_stage 1 (recognizer_init 0) DEFAULT_GESTURE_STATE thumbs_hand =
      (fst (thumbs_stage 1 (recognizer_init 0) DEFAULT_GESTURE_STATE thumbs_hand),
       snd (thumbs_stage 1 (recognizer_init 0) DEFAULT_GESTURE_STATE thumbs_hand))"
    by simp
  show ?thesis using h1 h2 swipe_blocked_by_thumbs [OF h1 h2 h3, of 1] by blast
qed

theorem detect_swipe_stale_x_witness:
  "fst (detect_swipe \<lparr>last_hand_x = Some 0.3, last_swipe_time = 0\<rparr> 1 (point_hand 0.5)) \<noteq> None
   \<and> last_hand_x (snd (detect_swipe \<lparr>last_hand_x = Some 0.3, last_swipe_time = 0\<rparr> 1 (point_hand 0.5))) = Some 0.3
   \<and> last_swipe_time (snd (detect_swipe \<lparr>last_hand_x = Some 0.3, last_swipe_time = 0\<rparr> 1 (point_hand 0.5))) = 1"
proof -
  have h: "fst (detect_swipe \<lparr>last_hand_x = Some 0.3, last_swipe_time = 0\<rparr> 1 (point_hand 0.5)) \<noteq> None"
    by (simp add: detect_swipe_def Let_def gesture_consts)
  show ?thesis using h detect_swipe_stale_x [OF h] by simp
qed

theorem detect_swipe_repeats_witness:
  "fst (detect_swipe \<lparr>last_hand_x = Some 0.3, last_swipe_time = 0\<rparr> 1 (point_hand 0.5)) = Some ''swipe_right''
   \<and> fst (detect_swipe (snd (detect_swipe \<lparr>last_hand_x = Some 0.3, last_swipe_time = 0\<rparr> 1 (point_hand 0.5))) 1.3
          (point_hand 0.5)) = Some ''swipe_right''"
  by (rule detect_swipe_repeats [where prev_x = "0.3"]) (simp_all add: gesture_consts)

theorem scroll_control_reset_witness:
  "index_angle (last_valid_angle (scroll (recognizer_init 0))) (point_hand 0.5) = (0, None)
   \<and> \<not> ((0::real) < 25 \<and> middle_finger_curled (point_hand 0.5))
   \<and> scroll_control (scroll (recognizer_init 0)) 1 (point_hand 0.5) =
       (None, (scroll (recognizer_init 0))\<lparr>last_valid_angle := None, scroll_active := False,
                base_angle := None, scroll_buffer := 0\<rparr>)"
proof -
  have h1: "index_angle (last_valid_angle (scroll (recognizer_init 0))) (point_hand 0.5) = (0, None)"
    by (simp add: recognizer_init_def index_angle_def calculate_angle_def segment_def norm2_def py_or_zero_def)
  have h2: "\<not> (0 < (25::real) \<and> middle_finger_curled (point_hand 0.5))"
    by (simp add: middle_finger_curled_def)
  show ?thesis using h1 h2 scroll_control_reset [OF h1 h2, of 1] by simp
qed

theorem scroll_engaged_entry_witness:
  "scroll_inv (scroll (recognizer_init 0)) \<and> base_angle (scroll (recognizer_init 0)) = None
   \<and> scroll_engaged (scroll (recognizer_init 0)) 1 12 =
       (None, (scroll (recognizer_init 0))\<lparr>base_angle := Some 12, scroll_buffer := 0\<rparr>)"
proof -
  have h1: "scroll_inv (scroll (recognizer_init 0))" by (rule recognizer_init_scroll_inv)
  have h2: "base_angle (scroll (recognizer_init 0)) = None" by (simp add: recognizer_init_def)
  show ?thesis by (intro conjI h1 h2 scroll_engaged_entry [OF h1 h2])
qed

theorem scroll_engaged_emits_witness:
  "fst (scroll_engaged \<lparr>scroll_active = False, base_angle = Some 0, last_scroll_time = 0,
        last_valid_angle = Some 0, scroll_buffer = 0.5\<rparr> 1 10) = Some 200
   \<and> 200 = py_int (0.5 + scroll_increment \<lparr>scroll_active = False, base_angle = Some 0, last_scroll_time = 0,
        last_valid_angle = Some 0, scroll_buffer = 0.5\<rparr> 10)
   \<and> (200::int) \<noteq> 0
   \<and> \<bar>scroll_buffer (snd (scroll_engaged \<lparr>scroll_active = False, base_angle = Some 0, last_scroll_time = 0,
        last_valid_angle = Some 0, scroll_buffer = 0.5\<rparr> 1 10))\<bar> < 1"
proof -
  have h: "fst (scroll_engaged \<lparr>scroll_active = False, base_angle = Some 0, last_scroll_time = 0,
        last_valid_angle = Some 0, scroll_buffer = 0.5\<rparr> 1 10) = Some 200"
    by (simp add: scroll_engaged_def Let_def gesture_consts py_int_def)
  show ?thesis using h scroll_engaged_emits [OF h] by simp
qed

theorem calculate_angle_sticky_witness:
  "norm2 (0, 0) * norm2 (1, 0) < 0.001 \<and> calculate_angle (Some 30) (0, 0) (1, 0) = (30, Some 30)"
proof -
  have h: "norm2 (0, 0) * norm2 (1, 0) < (0.001::real)" by (simp add: norm2_def)
  show ?thesis using h calculate_angle_sticky [OF h, of "Some 30"] by (simp add: py_or_zero_def)
qed

theorem thumbs_up_mirror_not_down_witness:
  "detect_thumbs_gesture thumbs_hand = Some ''thumbs_up''
   \<and> detect_thumbs_gesture (\<lambda>l. (thumbs_hand l)\<lparr>lm_y := 1 - lm_y (thumbs_hand l)\<rparr>) = None"
proof -
  have h: "detect_thumbs_gesture thumbs_hand = Some ''thumbs_up''"
    by (simp add: detect_thumbs_gesture_def Let_def finger_check_points_def)
  show ?thesis by (rule conjI [OF h thumbs_up_mirror_not_down [OF h]])
qed

theorem straight_finger_no_thumbs_witness:
  "(INDEX_FINGER_TIP, INDEX_FINGER_PIP) \<in> set finger_check_points
   \<and> lm_y ((thumbs_hand(INDEX_FINGER_TIP := \<lparr>lm_x = 0.5, lm_y = 0.4\<rparr>)) INDEX_FINGER_TIP)
       < lm_y ((thumbs_hand(INDEX_FINGER_TIP := \<lparr>lm_x = 0.5, lm_y = 0.4\<rparr>)) INDEX_FINGER_PIP) - 0.02
   \<and> detect_thumbs_gesture (thumbs_hand(INDEX_FINGER_TIP := \<lparr>lm_x = 0.5, lm_y = 0.4\<rparr>)) = None"
proof -
  have h1: "(INDEX_FINGER_TIP, INDEX_FINGER_PIP) \<in> set finger_check_points"
    by (simp add: finger_check_points_def)
  have h2: "lm_y ((thumbs_hand(INDEX_FINGER_TIP := \<lparr>lm_x = 0.5, lm_y = 0.4\<rparr>)) INDEX_FINGER_TIP)
       < lm_y ((thumbs_hand(INDEX_FINGER_TIP := \<lparr>lm_x = 0.5, lm_y = 0.4\<rparr>)) INDEX_FINGER_PIP) - 0.02"
    by simp
  show ?thesis by (intro conjI h1 h2 straight_finger_no_thumbs [OF h1 h2])
qed

theorem palm_control_volume_witness:
  "detect_open_palm open_thumbs_hand \<and> \<not> mouse_control DEFAULT_GESTURE_STATE
   \<and> palm_control (1920, 1080) \<lparr>smooth_mouse = None\<rparr> DEFAULT_GESTURE_STATE open_thumbs_hand =
       (\<lparr>smooth_mouse = None\<rparr>, DEFAULT_GESTURE_STATE\<lparr>volume_level := palm_volume open_thumbs_hand,
          detected := Some ''volume_control''\<rparr>, [])"
proof -
  have h1: "detect_open_palm open_thumbs_hand"
    by (simp add: detect_open_palm_eq finger_tips_def finger_pips_def finger_mcps_def)
  have h2: "\<not> mouse_control DEFAULT_GESTURE_STATE" by (simp add: DEFAULT_GESTURE_STATE_def)
  show ?thesis by (intro conjI h1 h2 palm_control_volume [OF h1 h2])
qed

theorem palm_control_closed_witness:
  "\<not> detect_open_palm (point_hand 0.5)
   \<and> palm_control (1920, 1080) \<lparr>smooth_mouse = Some (10, 10)\<rparr> DEFAULT_GESTURE_STATE (point_hand 0.5) =
       (\<lparr>smooth_mouse = None\<rparr>, DEFAULT_GESTURE_STATE, [])"
proof -
  have h: "\<not> detect_open_palm (point_hand 0.5)"
    by (simp add: detect_open_palm_eq finger_tips_def finger_pips_def finger_mcps_def)
  show ?thesis using h palm_control_closed [OF h, of "(1920, 1080)" "\<lparr>smooth_mouse = Some (10, 10)\<rparr>"] by simp
qed

theorem palm_mouse_converges_witness:
  "smooth_mouse (((\<lambda>m. fst (palm_control (1920, 1080) m (DEFAULT_GESTURE_STATE\<lparr>mouse_control := True\<rparr>)
       open_thumbs_hand)) ^^ 2) \<lparr>smooth_mouse = Some (1000, 500)\<rparr>) = Some (985.6, 508.28)"
proof -
  have h1: "detect_open_palm open_thumbs_hand"
    by (simp add: detect_open_palm_eq finger_tips_def finger_pips_def finger_mcps_def)
  have h2: "mouse_control (DEFAULT_GESTURE_STATE\<lparr>mouse_control := True\<rparr>)" by simp
  have tx: "(960::real) = of_int (py_int (lm_x (open_thumbs_hand INDEX_FINGER_TIP) * of_int (fst (1920::int, 1080::int))))"
    by (simp add: py_int_def)
  have ty: "(523::real) = of_int (py_int (lm_y (open_thumbs_hand INDEX_FINGER_TIP) * of_int (snd (1920::int, 1080::int))))"
    by (simp add: py_int_def)
  show ?thesis
    unfolding palm_mouse_converges [OF h1 h2 tx ty, of 2 "\<lparr>smooth_mouse = Some (1000, 500)\<rparr>"]
    by (simp add: power2_eq_square)
qed

theorem frame_step_skipped_witness:
  "frame_step (1920, 1080) ((still_frame 1 thumbs_hand)\<lparr>frame_ok := False\<rparr>) (recognizer_init 0) DEFAULT_GESTURE_STATE
     = (recognizer_init 0, DEFAULT_GESTURE_STATE, [], False)"
proof -
  have h: "\<not> frame_ok ((still_frame 1 thumbs_hand)\<lparr>frame_ok := False\<rparr>)
      \<or> t_loop ((still_frame 1 thumbs_hand)\<lparr>frame_ok := False\<rparr>) - prev_time (recognizer_init 0) < frame_interval"
    by simp
  show ?thesis by (rule frame_step_skipped [OF h])
qed

theorem frame_process_odd_tick_witness:
  "py_int (t_loop (still_frame 1.1 thumbs_hand) * 10) mod 2 \<noteq> 0
   \<and> frame_process (1920, 1080) ((still_frame 1.1 thumbs_hand)\<lparr>detection := None\<rparr>) (recognizer_init 0) DEFAULT_GESTURE_STATE
       = frame_process (1920, 1080) (still_frame 1.1 thumbs_hand) (recognizer_init 0) DEFAULT_GESTURE_STATE
   \<and> results (fst (frame_process (1920, 1080) (still_frame 1.1 thumbs_hand) (recognizer_init 0) DEFAULT_GESTURE_STATE))
       = results (recognizer_init 0)"
proof -
  have h: "py_int (t_loop (still_frame 1.1 thumbs_hand) * 10) mod 2 \<noteq> 0" by (simp add: py_int_def)
  show ?thesis by (rule conjI [OF h frame_process_odd_tick [OF h]])
qed

theorem recognizer_loop_quit_witness:
  "recognizer_loop (1920, 1080) [(still_frame 1 thumbs_hand)\<lparr>key_q := True\<rparr>, still_frame 2 thumbs_hand]
      (recognizer_init 0) (DEFAULT_GESTURE_STATE\<lparr>active := True\<rparr>)
   = (fst (frame_process (1920, 1080) ((still_frame 1 thumbs_hand)\<lparr>key_q := True\<rparr>) (recognizer_init 0) (DEFAULT_GESTURE_STATE\<lparr>active := True\<rparr>)),
      (fst (snd (frame_process (1920, 1080) ((still_frame 1 thumbs_hand)\<lparr>key_q := True\<rparr>) (recognizer_init 0)
         (DEFAULT_GESTURE_STATE\<lparr>active := True\<rparr>))))\<lparr>active := False\<rparr>,
      snd (snd (frame_process (1920, 1080) ((still_frame 1 thumbs_hand)\<lparr>key_q := True\<rparr>) (recognizer_init 0) (DEFAULT_GESTURE_STATE\<lparr>active := True\<rparr>))))"
proof -
  have h1: "active (DEFAULT_GESTURE_STATE\<lparr>active := True\<rparr>)" by simp
  have h2: "frame_ok ((still_frame 1 thumbs_hand)\<lparr>key_q := True\<rparr>)" by simp
  have h3: "\<not> t_loop ((still_frame 1 thumbs_hand)\<lparr>key_q := True\<rparr>) - prev_time (recognizer_init 0) < frame_interval"
    by (simp add: recognizer_init_def gesture_consts)
  have h4: "key_q ((still_frame 1 thumbs_hand)\<lparr>key_q := True\<rparr>)" by simp
  let ?r = "frame_process (1920, 1080) ((still_frame 1 thumbs_hand)\<lparr>key_q := True\<rparr>) (recognizer_init 0)
             (DEFAULT_GESTURE_STATE\<lparr>active := True\<rparr>)"
  have h5: "?r = (fst ?r, fst (snd ?r), snd (snd ?r))" by simp
  show ?thesis using recognizer_loop_quit [OF h1 h2 h3 h4 h5] by blast
qed

theorem fingers_curled_iff_witness:
  "\<not> fingers_curled (thumbs_hand(INDEX_FINGER_TIP := \<lparr>lm_x = 0.5, lm_y = 0.4\<rparr>)) finger_check_points"
  using fingers_curled_iff [of "thumbs_hand(INDEX_FINGER_TIP := \<lparr>lm_x = 0.5, lm_y = 0.4\<rparr>)" finger_check_points]
  by (simp add: finger_check_points_def)

theorem system_intents_raise_witness:
  "map_of SYSTEM_COMMANDS ''shutdown'' \<noteq> None \<and>
   execute_specific_command ''shutdown'' = Inl (AttributeError ''control_system'')"
proof -
  have h: "map_of SYSTEM_COMMANDS ''shutdown'' \<noteq> None" by (simp add: SYSTEM_COMMANDS_def)
  show ?thesis by (rule conjI [OF h system_intents_raise [OF h]])
qed

theorem commands_fused_intents_unreachable_witness:
  "(\<forall>c. fst ((\<lambda>c. (''mute volume'', 0.9::real)) c) \<in> set CANDIDATE_INTENTS_commands) \<and>
   commands_execute (\<lambda>c. (''mute volume'', 0.9)) ''make it quiet'' \<noteq> Run_function ''take_screenshot'' \<and>
   commands_execute (\<lambda>c. (''mute volume'', 0.9)) ''make it quiet'' \<noteq> Run_function ''increase_volume''"
proof -
  have h: "\<And>c. fst ((\<lambda>c. (''mute volume'', 0.9::real)) c) \<in> set CANDIDATE_INTENTS_commands"
    by (simp add: CANDIDATE_INTENTS_commands_def)
  show ?thesis using h commands_fused_intents_unreachable [of "\<lambda>c. (''mute volume'', 0.9)", OF h]
    by blast
qed

theorem handle_gestures_consumes_witness:
  "shared_ok (DEFAULT_GESTURE_STATE\<lparr>active := True, detected := Some ''swipe_left''\<rparr>) \<and>
   handle_gestures (DEFAULT_GESTURE_STATE\<lparr>active := True, detected := Some ''swipe_left''\<rparr>) =
     (DEFAULT_GESTURE_STATE\<lparr>active := True, detected := None\<rparr>, [])"
proof -
  let ?g = "DEFAULT_GESTURE_STATE\<lparr>active := True, detected := Some ''swipe_left''\<rparr>"
  have h1: "shared_ok ?g" by (simp add: shared_ok_def recognizer_labels_def DEFAULT_GESTURE_STATE_def)
  have h2: "active ?g" and h3: "detected ?g = Some ''swipe_left''" by simp_all
  show ?thesis using h1 handle_gestures_consumes [OF h1 h2 h3] by simp
qed

theorem volume_set_never_applied_witness:
  "str_in ''set volume to'' ''set volume to 50'' \<and>
   execute_command None DEFAULT_GESTURE_STATE ''set volume to 50'' =
     (DEFAULT_GESTURE_STATE, [Speak ''Please specify a volume level between 0 and 100''], None)"
proof -
  have h: "str_in ''set volume to'' ''set volume to 50''" by simp
  show ?thesis using h volume_set_never_applied [OF h, of None DEFAULT_GESTURE_STATE]
    by (simp add: handle_gestures_def DEFAULT_GESTURE_STATE_def)
qed

theorem system_intent_ends_run_witness:
  "match_intent ''wake me at seven o'clock'' = Some ''lock'' \<and>
   run_loop None DEFAULT_GESTURE_STATE [Some ''wake me at seven o'clock'', Some ''help''] =
     (DEFAULT_GESTURE_STATE, [Speak ''Goodbye!''], Crashed (AttributeError ''control_system''))"
proof -
  have h1: "match_intent ''wake me at seven o'clock'' = Some ''lock''"
    by (simp add: match_intent_def CANDIDATE_INTENTS_def)
  have h2: "map_of SYSTEM_COMMANDS ''lock'' \<noteq> None" by (simp add: SYSTEM_COMMANDS_def)
  have h3: "\<not> str_in ''set volume to'' ''wake me at seven o'clock''"
    and h4: "\<not> str_in ''exit'' ''wake me at seven o'clock''"
    and h5: "\<not> str_in ''quit'' ''wake me at seven o'clock''"
    and h6: "''wake me at seven o'clock'' \<noteq> []" by simp_all
  show ?thesis
    using h1 system_intent_ends_run [OF h1 h2 h3 h4 h5 h6, of None DEFAULT_GESTURE_STATE "[Some ''help'']"]
    by (simp add: handle_gestures_def DEFAULT_GESTURE_STATE_def)
qed

theorem reachable_shared_ok_witness:
  "sys_reach (1920, 1080) None 0 (system_init 0) \<and> shared_ok (shared (system_init 0))"
proof -
  have h: "sys_reach (1920, 1080) None 0 (system_init 0)" by (rule sys_reach.init)
  show ?thesis by (rule conjI [OF h reachable_shared_ok [OF h]])
qed

theorem gestures_dead_after_recognizer_exit_witness:
  "(sys_step (1920, 1080) None)\<^sup>*\<^sup>* ((system_init 0)\<lparr>rec_thread := Thread_finished\<rparr>)
     ((system_init 0)\<lparr>rec_thread := Thread_finished\<rparr>) \<and>
   rec_thread ((system_init 0)\<lparr>rec_thread := Thread_finished\<rparr>) = Thread_finished \<and>
   detected (shared ((system_init 0)\<lparr>rec_thread := Thread_finished\<rparr>)) = None"
proof -
  let ?s = "(system_init 0)\<lparr>rec_thread := Thread_finished\<rparr>"
  have h1: "(sys_step (1920, 1080) None)\<^sup>*\<^sup>* ?s ?s" by (rule rtranclp.rtrancl_refl)
  have h2: "rec_thread ?s = Thread_finished" by simp
  show ?thesis using h1 h2 gestures_dead_after_recognizer_exit [OF h1 h2]
    by (simp add: system_init_def DEFAULT_GESTURE_STATE_def)
qed


theorem control_system_terminates_witness:
  "poll_time \<lparr>poll_time = 4::real, poll_running = True, poll_heard = None, poll_detected = None\<rparr> \<ge> 0 + 3 \<and>
   control_system ''lock'' 0 [\<lparr>poll_time = 1, poll_running = True, poll_heard = None, poll_detected = None\<rparr>,
               \<lparr>poll_time = 4, poll_running = True, poll_heard = None, poll_detected = None\<rparr>] \<noteq> None"
proof -
  let ?ps = "[\<lparr>poll_time = 1, poll_running = True, poll_heard = None, poll_detected = None\<rparr>,
              \<lparr>poll_time = 4::real, poll_running = True, poll_heard = None, poll_detected = None\<rparr>]"
  have h: "\<exists>p \<in> set ?ps. \<not> poll_time p - 0 < 3" by simp
  show ?thesis using control_system_terminates [OF h] by simp
qed

theorem control_system_first_confirmation_witness:
  "control_system ''lock'' 0
     [\<lparr>poll_time = 1, poll_running = True, poll_heard = Some ''what'', poll_detected = None\<rparr>,
      \<lparr>poll_time = 2, poll_running = True, poll_heard = None, poll_detected = Some ''thumbs_up''\<rparr>]
   = Some (System_run [''rundll32.exe'', ''user32.dll,LockWorkStation''])"
proof -
  have h1: "map_of SYSTEM_COMMANDS ''lock'' = Some [''rundll32.exe'', ''user32.dll,LockWorkStation'']"
    by (simp add: SYSTEM_COMMANDS_def)
  have h2: "\<forall>q \<in> set [\<lparr>poll_time = 1, poll_running = True, poll_heard = Some ''what'', poll_detected = None\<rparr>].
              poll_time q - 0 < 3 \<and> poll_running q \<and> \<not> poll_confirms q"
    by (simp add: poll_confirms_def)
  have h3: "poll_time \<lparr>poll_time = 2::real, poll_running = True, poll_heard = None, poll_detected = Some ''thumbs_up''\<rparr> - 0 < 3"
    and h4: "poll_running \<lparr>poll_time = 2::real, poll_running = True, poll_heard = None, poll_detected = Some ''thumbs_up''\<rparr>"
    by simp_all
  show ?thesis using control_system_first_confirmation [OF h1 h2 h3 h4, of "[]"]
    by (simp add: poll_confirms_def)
qed
theorem execute_specific_command_well_typed_witness:
  "execute_specific_command ''open calculator'' = Inr (Open_application ''calculator'')
   \<and> action_ok (Open_application ''calculator'')"
proof -
  have h: "execute_specific_command ''open calculator'' = Inr (Open_application ''calculator'')"
    by (simp add: execute_specific_command_def SYSTEM_COMMANDS_def APP_PATHS_def)
  show ?thesis by (rule conjI [OF h execute_specific_command_well_typed [OF h]])
qed

theorem spoken_number_roundtrip_witness:
  "timer_minutes (''set volume to '' @ str_nat 25 @ '' please'') = 25
   \<and> set_volume_level (''set volume to '' @ str_nat 25 @ '' please'') = Inr (real 25 / 100)"
proof -
  have h1: "filter is_digit ''set volume to '' = []" and h2: "filter is_digit '' please'' = []"
    by (simp_all add: is_digit_def)
  show ?thesis using spoken_number_roundtrip [OF h1 h2, of 25] by simp
qed

theorem adjust_volume_bounds_witness:
  "0 \<le> master_volume (hd (fst (adjust_volume [system_audio] (Some ''increase'') None)))
   \<and> master_volume (hd (fst (adjust_volume [system_audio] (Some ''increase'') None))) \<le> 1"
proof -
  have h: "\<forall>s \<in> set [system_audio]. 0 \<le> master_volume s \<and> master_volume s \<le> 1" by simp
  have n: "fst (adjust_volume [system_audio] (Some ''increase'') None) \<noteq> []"
    by (simp add: adjust_volume_def)
  show ?thesis using adjust_volume_bounds [OF h, of "''increase''"] n by simp
qed

theorem recording_never_starts_witness:
  "recording_attr (snd (fst (host_loop None (DEFAULT_GESTURE_STATE, fresh_host)
      [(Some ''start recording'', [], \<lparr>answer = None, stamp = ''20250101_120000'', readings = sample_readings\<rparr>)])))
   = None"
proof -
  have h: "recording_attr (snd (DEFAULT_GESTURE_STATE, fresh_host)) = None" by simp
  show ?thesis by (rule recording_never_starts [OF h])
qed

theorem number_word_crashes_listener_witness:
  "\<exists>e. commands_execute_command (\<lambda>c. (''control brightness'', 0.9)) [\<lparr>tok_text = ''five'', like_num = True\<rparr>]
         windows_host ''set brightness to five'' = Inl e
     \<and> listener_loop (\<lambda>c. (''control brightness'', 0.9)) windows_host
         [(''set brightness to five'', [\<lparr>tok_text = ''five'', like_num = True\<rparr>])]
       = (windows_host, [Say ''Listening...''], Listener_crashed e)"
proof -
  have h1: "\<lparr>tok_text = ''five'', like_num = True\<rparr> \<in> set [\<lparr>tok_text = ''five'', like_num = True\<rparr>]"
    and h2: "like_num \<lparr>tok_text = ''five'', like_num = True\<rparr>"
    and h4: "''set brightness to five'' \<noteq> []" by simp_all
  have h3: "\<forall>n. py_int_of_str (tok_text \<lparr>tok_text = ''five'', like_num = True\<rparr>) \<noteq> Inr n"
    by (simp add: py_int_of_str_def py_strip_def py_isspace_def is_digit_def)
  show ?thesis using number_word_crashes_listener [OF h1 h2 h3 h4] .
qed

theorem battery_sentinel_reported_witness:
  "get_battery_status sample_readings =
     [Say ''Battery is at 42% and on battery'', Say ''Estimated remaining time: -1 minutes'']
   \<and> battery_info on_battery = ''Battery: 42% (-1 minutes remaining)''"
proof -
  have h1: "battery_query sample_readings = Inr (Some on_battery)"
    and h2: "\<not> power_plugged on_battery"
    and h3: "secsleft on_battery \<in> {-2, -1}" by simp_all
  show ?thesis using battery_sentinel_reported [OF h1 h2 h3] by simp
qed

theorem swipe_frame_presses_witness:
  "detected (fst (snd (frame_process (1920, 1080) (still_frame 1 (point_hand 0.5))
       ((recognizer_init 0)\<lparr>swipe := \<lparr>last_hand_x = Some 0.3, last_swipe_time = 0\<rparr>\<rparr>) DEFAULT_GESTURE_STATE)))
     = Some ''swipe_right''
   \<and> last_gesture_time (fst (frame_process (1920, 1080) (still_frame 1 (point_hand 0.5))
       ((recognizer_init 0)\<lparr>swipe := \<lparr>last_hand_x = Some 0.3, last_swipe_time = 0\<rparr>\<rparr>) DEFAULT_GESTURE_STATE)) = 1
   \<and> filter (\<lambda>a. a \<notin> range Scroll_wheel) (snd (snd (frame_process (1920, 1080) (still_frame 1 (point_hand 0.5))
       ((recognizer_init 0)\<lparr>swipe := \<lparr>last_hand_x = Some 0.3, last_swipe_time = 0\<rparr>\<rparr>) DEFAULT_GESTURE_STATE)))
     = [Press ''right'']"
proof -
  let ?st = "(recognizer_init 0)\<lparr>swipe := \<lparr>last_hand_x = Some 0.3, last_swipe_time = 0\<rparr>\<rparr>"
  have h1: "py_int (t_loop (still_frame 1 (point_hand 0.5)) * 10) mod 2 = 0" by (simp add: py_int_def)
  have h2: "detection (still_frame 1 (point_hand 0.5)) = Some (point_hand 0.5)" by simp
  have h3: "detect_thumbs_gesture (point_hand 0.5) = None" by (simp add: detect_thumbs_gesture_def Let_def)
  have h4: "\<not> detect_open_palm (point_hand 0.5)"
    by (simp add: detect_open_palm_eq finger_tips_def finger_pips_def finger_mcps_def)
  have h5: "last_hand_x (swipe ?st) = Some 0.3" by simp
  have h6: "lm_x (point_hand 0.5 WRIST) - 0.3 > swipe_threshold" by (simp add: gesture_consts)
  have h7: "t_swipe (still_frame 1 (point_hand 0.5)) - last_swipe_time (swipe ?st) > swipe_cooldown"
    by (simp add: gesture_consts)
  have h8: "t_loop (still_frame 1 (point_hand 0.5)) - last_gesture_time ?st > swipe_cooldown"
    by (simp add: recognizer_init_def gesture_consts)
  show ?thesis using swipe_frame_presses [OF h1 h2 h3 h4 h5 h6 h7 h8, of "(1920, 1080)" DEFAULT_GESTURE_STATE] by simp
qed

theorem thumbs_lost_to_open_palm_witness:
  "detected (fst (snd (frame_process (1920, 1080) (still_frame 1 open_thumbs_hand) (recognizer_init 0)
       DEFAULT_GESTURE_STATE))) = Some ''volume_control''
   \<and> last_gesture_time (fst (frame_process (1920, 1080) (still_frame 1 open_thumbs_hand) (recognizer_init 0)
       DEFAULT_GESTURE_STATE)) = 1
   \<and> (\<forall>k. Press k \<notin> set (snd (snd (frame_process (1920, 1080) (still_frame 1 open_thumbs_hand) (recognizer_init 0)
       DEFAULT_GESTURE_STATE))))"
proof -
  have h1: "py_int (t_loop (still_frame 1 open_thumbs_hand) * 10) mod 2 = 0" by (simp add: py_int_def)
  have h2: "detection (still_frame 1 open_thumbs_hand) = Some open_thumbs_hand" by simp
  have h3: "detect_thumbs_gesture open_thumbs_hand = Some ''thumbs_up''"
    by (simp add: detect_thumbs_gesture_def Let_def finger_check_points_def)
  have h4: "detect_open_palm open_thumbs_hand"
    by (simp add: detect_open_palm_eq finger_tips_def finger_pips_def finger_mcps_def)
  have h5: "\<not> mouse_control DEFAULT_GESTURE_STATE" by (simp add: DEFAULT_GESTURE_STATE_def)
  have h6: "t_loop (still_frame 1 open_thumbs_hand) - last_gesture_time (recognizer_init 0) > gesture_cooldown"
    by (simp add: recognizer_init_def gesture_consts)
  show ?thesis using thumbs_lost_to_open_palm [OF h1 h2 h3 h4 h5 h6, of "(1920, 1080)"] by simp
qed

theorem search_query_mangled_witness:
  "commands_execute_command (\<lambda>c. (''search web'', 0.9)) [] windows_host ''search research papers''
     \<noteq> Inr (windows_host, [Browser_open ''https://www.google.com/search?q=research papers'',
                            Say ''Searching for research papers.''])"
proof -
  have h1: "parse_numbers [] = Inr []" and h2: "(\<lambda>c. (''search web'', 0.9::real)) (''search '' @ ''research papers'') = (''search web'', 0.9)"
    and h3: "\<not> (0.9::real) < 0.3" by simp_all
  have h4: "py_strip ''research papers'' = ''research papers''"
    by (simp add: py_strip_def py_isspace_def)
  have s: "sublist ''search'' ''research papers''"
    by (simp add: sublist_Cons_right)
  show ?thesis using search_query_mangled [OF h1 h2 h3 h4, of windows_host] s by simp
qed

end
